theory Spec2Isabelle
  imports Complex_Main
begin

section \<open>Ephemeris caches of the Solar-System-Live server\<close>

text \<open>
  A shallow embedding of \<^verbatim>\<open>server/src/cache/ephemerisCache.ts\<close> (the multi-body
  snapshot cache) and \<^verbatim>\<open>server/src/cache/bodyEphemerisCache.ts\<close> (the single-body
  cache).

  Conventions of the embedding.
  \<^item> Instants and durations (\<^verbatim>\<open>Date.now()\<close>, TTLs, ages) are integers of milliseconds.
    Every \<^verbatim>\<open>Date.now()\<close> of the source is an explicit clock reading handed to the
    function that makes it.
  \<^item> An optional property \<^verbatim>\<open>f?: T\<close> is a field of type \<open>T option\<close>; \<^verbatim>\<open>a ?? b\<close> is a
    case distinction on \<open>None\<close>.
  \<^item> TypeScript interfaces become records. Several interfaces use the same property
    names, so every field carries a short prefix naming its interface
    (\<open>sv_\<close> state vector, \<open>eb_\<close> EphemerisBody, \<open>md_\<close> snapshot metadata,
    \<open>es_\<close> EphemerisSnapshot, \<open>cr_\<close> CacheRecord, \<open>sr_\<close> SnapshotResult, ...).
  \<^item> Snapshot payloads are JavaScript objects that are shared by reference between a
    cache record, the local variable of the refresh that built them and the value the
    refresh promise resolves to. They live in an explicit store (\<open>heap\<close>), and a cache
    record holds the address of its payload.
  \<^item> What the outside world answers (the upstream fetch of every body, every reply of
    the shared store, every clock reading) is an input of the function that asks.
  \<^item> Promises are numbered. An async function is split where it awaits an answer from
    outside: the code between two such points is one function, and an event machine
    interleaves these pieces for several callers and refreshes. The function that bears
    the name of the source function is the composition of its pieces, that is the call
    during whose awaits nothing else runs.
  \<^item> Metrics counters (\<^verbatim>\<open>recordCacheHit\<close> and friends) are not modelled; log calls
    are kept as a list of (level, event name).
\<close>

subsection \<open>Values\<close>

type_synonym number = real
type_synonym ms = int
type_synonym addr = nat

text \<open>A thrown JavaScript value, with its \<^verbatim>\<open>message\<close> property if it has one.\<close>

datatype js_error = JsError (message: "string option")

text \<open>
  A string that is either given text or the text \<^verbatim>\<open>new Date(t).toISOString()\<close> of an
  instant \<open>t\<close>; the rendering itself is not needed. Only the empty text is falsy.
\<close>

datatype isotext = Text string | IsoOf ms

fun truthy :: "isotext \<Rightarrow> bool" where
  "truthy (Text t) = (t \<noteq> [])"
| "truthy (IsoOf t) = True"

datatype CacheBackend = Redis | Memory

datatype CacheState = HIT | MISS | STALE | FROZEN

datatype SnapshotMode = StateVectors | Full

datatype log_level = Info | Warn | Err

fun cacheState_text :: "CacheState \<Rightarrow> string" where
  "cacheState_text HIT = ''HIT''"
| "cacheState_text MISS = ''MISS''"
| "cacheState_text STALE = ''STALE''"
| "cacheState_text FROZEN = ''FROZEN''"

text \<open>The seven observer-geometry properties, which every path copies one by one.\<close>

record ObserverGeometry =
  range_au :: "number option"
  range_rate_km_s :: "number option"
  light_time_minutes :: "number option"
  solar_elongation_deg :: "number option"
  phase_angle_deg :: "number option"
  illumination_fraction :: "number option"
  apparent_magnitude :: "number option"

text \<open>What \<^verbatim>\<open>fetchPlanetStateVector\<close> resolves to.\<close>

record StateVector =
  sv_name :: string
  sv_x_au :: number
  sv_y_au :: number
  sv_z_au :: number
  sv_vx_au_per_day :: "number option"
  sv_vy_au_per_day :: "number option"
  sv_vz_au_per_day :: "number option"
  sv_velocityUnit :: "string option"
  sv_referenceFrame :: "string option"
  sv_source :: "string option"
  sv_timestamp :: "isotext option"
  sv_observer :: ObserverGeometry

datatype fetch_outcome = Fulfilled StateVector | Rejected js_error

record EphemerisBody =
  eb_name :: string
  eb_x_au :: number
  eb_y_au :: number
  eb_z_au :: number
  eb_vx :: "number option"
  eb_vy :: "number option"
  eb_vz :: "number option"
  eb_velocityUnit :: "string option"
  eb_timestamp :: "isotext option"
  eb_observer :: ObserverGeometry

record SnapshotMetadata =
  md_source :: "string option"
  md_referenceFrame :: "string option"
  md_distanceUnit :: "string option"
  md_velocityUnit :: "string option"
  md_responseTimeMs :: "ms option"
  md_cacheStatus :: "string option"
  md_cacheBackend :: "CacheBackend option"
  md_cacheAgeMs :: "ms option"
  md_cacheExpiresInMs :: "ms option"
  md_cacheStale :: "bool option"
  md_generatedAt :: "isotext option"
  md_frozenSnapshot :: "bool option"
  md_freezeReason :: "string option"
  md_requestId :: "string option"
  md_partial :: "bool option"
  md_fallbackBodies :: "string list option"
  md_missingBodies :: "string list option"

record EphemerisSnapshot =
  es_timestamp :: isotext
  es_metadata :: SnapshotMetadata
  es_bodies :: "EphemerisBody list"

text \<open>A cache record held in process memory: its payload is a reference.\<close>

record CacheRecord =
  cr_payload :: addr
  cr_cachedAt :: ms
  cr_expiresAt :: ms
  cr_staleUntil :: ms

text \<open>
  The text \<^verbatim>\<open>JSON.stringify(record)\<close> of a cache record, as the shared store keeps it:
  the payload by value.
\<close>

record StoredRecord =
  st_payload :: EphemerisSnapshot
  st_cachedAt :: ms
  st_expiresAt :: ms
  st_staleUntil :: ms

text \<open>
  \<^verbatim>\<open>SnapshotResult\<close>. The value a refresh promise resolves to holds the address of the
  payload object (\<open>addr SnapshotResult\<close>); what \<^verbatim>\<open>getSnapshot\<close> hands to its caller
  holds a fresh object, given by value (\<open>EphemerisSnapshot SnapshotResult\<close>).
\<close>

record 'p SnapshotResult =
  sr_payload :: 'p
  sr_cacheState :: CacheState
  sr_cacheBackend :: CacheBackend
  sr_cacheAgeMs :: ms

record PlanetConfig =
  pc_name :: string
  pc_horizonsId :: string

text \<open>
  The module constants. \<^verbatim>\<open>CACHE_TTL_MS\<close> and \<^verbatim>\<open>STALE_WHILE_REVALIDATE_MS\<close> are read
  from the environment at load time; \<open>redis_client\<close> tells whether \<^verbatim>\<open>getRedisClient()\<close>
  resolves to a client (\<^verbatim>\<open>REDIS_URL\<close> set and the connection made), which is fixed once
  \<^verbatim>\<open>redisReady\<close> has settled; \<open>PLANETS\<close> is the table of \<^verbatim>\<open>config/planets\<close>.
\<close>

record config =
  CACHE_TTL_MS :: ms
  STALE_WHILE_REVALIDATE_MS :: ms
  PREWARM_INTERVAL_MS :: ms
  redis_client :: bool
  PLANETS :: "PlanetConfig list"

fun CACHE_KEY_BY_MODE :: "SnapshotMode \<Rightarrow> string" where
  "CACHE_KEY_BY_MODE StateVectors = ''ephemeris:planets:v1''"
| "CACHE_KEY_BY_MODE Full = ''ephemeris:planets:full:v1''"

text \<open>One call of \<^verbatim>\<open>refreshSnapshot(reason, correlationId, mode)\<close>.\<close>

record RefreshCall =
  rc_reason :: string
  rc_correlationId :: "string option"
  rc_mode :: SnapshotMode

text \<open>A \<^verbatim>\<open>SET key value PX px\<close> that the shared store acknowledged.\<close>

record RedisSet =
  rs_key :: string
  rs_value :: StoredRecord
  rs_PX :: ms

text \<open>
  The module state: the store of payload objects, \<^verbatim>\<open>memoryCache\<close>,
  \<^verbatim>\<open>inflightByMode\<close> (a promise is the index of its call in \<open>started\<close>), the calls of
  \<^verbatim>\<open>refreshSnapshot\<close> made so far, the promises that have settled, the writes
  acknowledged by the shared store, and the log.
\<close>

record state =
  heap :: "EphemerisSnapshot list"
  memoryCache :: "SnapshotMode \<Rightarrow> CacheRecord option"
  inflightByMode :: "SnapshotMode \<Rightarrow> nat option"
  started :: "RefreshCall list"
  settled :: "nat list"
  redis_sets :: "RedisSet list"
  logs :: "(log_level \<times> string) list"

definition initial_state :: state where
  "initial_state = \<lparr>heap = [], memoryCache = (\<lambda>_. None), inflightByMode = (\<lambda>_. None),
     started = [], settled = [], redis_sets = [], logs = []\<rparr>"

definition logWarn :: "string \<Rightarrow> state \<Rightarrow> state" where
  "logWarn event s = s\<lparr>logs := logs s @ [(Warn, event)]\<rparr>"

definition logInfo :: "string \<Rightarrow> state \<Rightarrow> state" where
  "logInfo event s = s\<lparr>logs := logs s @ [(Info, event)]\<rparr>"

definition logError :: "string \<Rightarrow> state \<Rightarrow> state" where
  "logError event s = s\<lparr>logs := logs s @ [(Err, event)]\<rparr>"

text \<open>A new object: the next free address.\<close>

definition alloc :: "EphemerisSnapshot \<Rightarrow> state \<Rightarrow> addr \<times> state" where
  "alloc v s = (length (heap s), s\<lparr>heap := heap s @ [v]\<rparr>)"

subsection \<open>The two backends\<close>

text \<open>
  The reply of the shared store to \<^verbatim>\<open>client.get(cacheKey)\<close>: the call throws (or the
  text does not parse: \<^verbatim>\<open>JSON.parse\<close> is inside the same \<^verbatim>\<open>try\<close>), there is no usable
  value (\<^verbatim>\<open>null\<close>, or the empty text, which is falsy), or the text of a record.
\<close>

datatype redis_get = GetError js_error | GetNil | GetRaw StoredRecord

datatype redis_set = SetOk | SetError js_error

text \<open>\<^verbatim>\<open>JSON.parse(raw) as CacheRecord\<close> builds new objects.\<close>

definition JSON_parse :: "StoredRecord \<Rightarrow> state \<Rightarrow> CacheRecord \<times> state" where
  "JSON_parse raw s =
     (let (a, s1) = alloc (st_payload raw) s
      in (\<lparr>cr_payload = a, cr_cachedAt = st_cachedAt raw, cr_expiresAt = st_expiresAt raw,
            cr_staleUntil = st_staleUntil raw\<rparr>, s1))"

definition JSON_stringify :: "state \<Rightarrow> CacheRecord \<Rightarrow> StoredRecord" where
  "JSON_stringify s r =
     \<lparr>st_payload = heap s ! cr_payload r, st_cachedAt = cr_cachedAt r,
      st_expiresAt = cr_expiresAt r, st_staleUntil = cr_staleUntil r\<rparr>"

definition readCache :: "config \<Rightarrow> redis_get \<Rightarrow> SnapshotMode \<Rightarrow> state \<Rightarrow> CacheRecord option \<times> state" where
  "readCache cfg reply mode s =
     (if redis_client cfg then
        (case reply of
           GetRaw raw \<Rightarrow>
             (let (parsed, s1) = JSON_parse raw s
              in (Some parsed, s1\<lparr>memoryCache := (memoryCache s1)(mode \<mapsto> parsed)\<rparr>))
         | GetNil \<Rightarrow> (memoryCache s mode, s)
         | GetError err \<Rightarrow>
             (let s1 = logWarn ''redis_read_failed'' s in (memoryCache s1 mode, s1)))
      else (memoryCache s mode, s))"

text \<open>
  \<^verbatim>\<open>writeCache\<close> in two parts. Up to the \<^verbatim>\<open>await\<close> of \<^verbatim>\<open>client.set\<close>: the memory slot is
  set (line 165) and, with a client, the text \<^verbatim>\<open>JSON.stringify(record)\<close> is handed to
  the shared store. From the store's reply on: an acknowledged write is on record, a
  failed one is logged. Without a client nothing but \<^verbatim>\<open>getRedisClient()\<close> is awaited,
  and the second part does nothing.
\<close>

definition writeCache_begin :: "SnapshotMode \<Rightarrow> CacheRecord \<Rightarrow> state \<Rightarrow> StoredRecord \<times> state" where
  "writeCache_begin mode record s =
     (let s1 = s\<lparr>memoryCache := (memoryCache s)(mode \<mapsto> record)\<rparr>
      in (JSON_stringify s1 record, s1))"

definition writeCache_end ::
  "config \<Rightarrow> redis_set \<Rightarrow> StoredRecord \<Rightarrow> CacheRecord \<Rightarrow> CacheBackend \<Rightarrow> SnapshotMode \<Rightarrow> state \<Rightarrow> state" where
  "writeCache_end cfg reply json record backend mode s1 =
     (if redis_client cfg \<and> backend = Redis then
        (case reply of
           SetOk \<Rightarrow>
             s1\<lparr>redis_sets := redis_sets s1 @
               [\<lparr>rs_key = CACHE_KEY_BY_MODE mode, rs_value = json,
                 rs_PX = cr_staleUntil record - cr_cachedAt record\<rparr>]\<rparr>
         | SetError err \<Rightarrow> logWarn ''redis_write_failed'' s1)
      else s1)"

text \<open>\<^verbatim>\<open>writeCache\<close> when nothing else runs while it awaits the store.\<close>

definition writeCache :: "config \<Rightarrow> redis_set \<Rightarrow> CacheRecord \<Rightarrow> CacheBackend \<Rightarrow> SnapshotMode \<Rightarrow> state \<Rightarrow> state" where
  "writeCache cfg reply record backend mode s =
     (let (json, s1) = writeCache_begin mode record s
      in writeCache_end cfg reply json record backend mode s1)"

subsection \<open>Building a snapshot\<close>

text \<open>
  What the outside world answers during one run of \<^verbatim>\<open>refreshSnapshot\<close>: the reply of
  the shared store to the read at the start of \<^verbatim>\<open>buildPlanetSnapshot\<close>, the outcome of
  \<^verbatim>\<open>fetchPlanetStateVector(horizonsId, name, ...)\<close> for every body, the clock before and
  after the fetches, the clock of \<^verbatim>\<open>new Date()\<close> for the default timestamp, the clock
  read by \<^verbatim>\<open>refreshSnapshot\<close>, and the reply of the shared store to the write.
\<close>

record RefreshEnv =
  env_get :: redis_get
  env_fetch :: "string \<Rightarrow> string \<Rightarrow> fetch_outcome"
  env_started :: ms
  env_fetched :: ms
  env_today :: ms
  env_now :: ms
  env_set :: redis_set

text \<open>The local \<^verbatim>\<open>Map\<close> of the previous snapshot's bodies by name; a later body wins.\<close>

definition fallbackBodies_of :: "EphemerisBody list \<Rightarrow> string \<Rightarrow> EphemerisBody option" where
  "fallbackBodies_of bodies = fold (\<lambda>body m. m(eb_name body \<mapsto> body)) bodies Map.empty"

definition body_of_vector :: "StateVector \<Rightarrow> EphemerisBody" where
  "body_of_vector r =
     \<lparr>eb_name = sv_name r, eb_x_au = sv_x_au r, eb_y_au = sv_y_au r, eb_z_au = sv_z_au r,
      eb_vx = sv_vx_au_per_day r, eb_vy = sv_vy_au_per_day r, eb_vz = sv_vz_au_per_day r,
      eb_velocityUnit = sv_velocityUnit r, eb_timestamp = sv_timestamp r,
      eb_observer = sv_observer r\<rparr>"

text \<open>The variables that the callback of \<^verbatim>\<open>results.forEach\<close> updates, and its warnings.\<close>

record BuildAcc =
  acc_bodies :: "EphemerisBody list"
  acc_usedFallback :: "string list"
  acc_missing :: "string list"
  acc_timestamps :: "isotext list"
  acc_referenceFrame :: string
  acc_velocityUnit :: string
  acc_warnings :: "string list"

definition push_timestamp :: "isotext option \<Rightarrow> isotext list \<Rightarrow> isotext list" where
  "push_timestamp t ts = (case t of Some v \<Rightarrow> (if truthy v then ts @ [v] else ts) | None \<Rightarrow> ts)"

fun process_result ::
  "(string \<Rightarrow> EphemerisBody option) \<Rightarrow> PlanetConfig \<Rightarrow> fetch_outcome \<Rightarrow> BuildAcc \<Rightarrow> BuildAcc" where
  "process_result fb cfg (Fulfilled r) acc =
     acc\<lparr>acc_referenceFrame :=
           (case sv_referenceFrame r of Some f \<Rightarrow> f | None \<Rightarrow> acc_referenceFrame acc),
         acc_velocityUnit :=
           (case sv_velocityUnit r of Some u \<Rightarrow> u | None \<Rightarrow> acc_velocityUnit acc),
         acc_timestamps := push_timestamp (sv_timestamp r) (acc_timestamps acc),
         acc_bodies := acc_bodies acc @ [body_of_vector r]\<rparr>"
| "process_result fb cfg (Rejected reason) acc =
     (case fb (pc_name cfg) of
        Some fallback \<Rightarrow>
          acc\<lparr>acc_usedFallback := acc_usedFallback acc @ [pc_name cfg],
              acc_timestamps := push_timestamp (eb_timestamp fallback) (acc_timestamps acc),
              acc_bodies := acc_bodies acc @ [fallback],
              acc_warnings := acc_warnings acc @ [''horizons_body_fallback'']\<rparr>
      | None \<Rightarrow>
          acc\<lparr>acc_missing := acc_missing acc @ [pc_name cfg],
              acc_warnings := acc_warnings acc @ [''horizons_body_missing'']\<rparr>)"

fun process_results ::
  "(string \<Rightarrow> EphemerisBody option) \<Rightarrow> (PlanetConfig \<times> fetch_outcome) list \<Rightarrow> BuildAcc \<Rightarrow> BuildAcc" where
  "process_results fb [] acc = acc"
| "process_results fb ((cfg, result) # rest) acc =
     process_results fb rest (process_result fb cfg result acc)"

text \<open>The sequential loop over \<^verbatim>\<open>PLANETS\<close>: one settled result per body, in order.\<close>

definition fetch_all :: "config \<Rightarrow> RefreshEnv \<Rightarrow> (PlanetConfig \<times> fetch_outcome) list" where
  "fetch_all cfg env = map (\<lambda>c. (c, env_fetch env (pc_horizonsId c) (pc_name c))) (PLANETS cfg)"

definition no_data_error :: js_error where
  "no_data_error = JsError (Some ''No Horizons data available'')"

definition nonempty_or_undefined :: "string list \<Rightarrow> string list option" where
  "nonempty_or_undefined xs = (if length xs \<noteq> 0 then Some xs else None)"

text \<open>
  \<^verbatim>\<open>buildPlanetSnapshot\<close> in two parts. Up to the first upstream fetch (lines 184 to
  189): the cache read and the \<^verbatim>\<open>Map\<close> of the bodies of the record it returned. From
  the answer to the last upstream fetch on (lines 203 to 289): \<open>cached\<close> and
  \<open>fallbackBodies\<close> are the local variables of the first part; the metadata and the
  timestamp of the cached payload are read now, from the object that \<open>cached\<close> refers
  to.
\<close>

definition buildPlanetSnapshot_read ::
  "config \<Rightarrow> redis_get \<Rightarrow> bool \<Rightarrow> state
     \<Rightarrow> (CacheRecord option \<times> (string \<Rightarrow> EphemerisBody option)) \<times> state" where
  "buildPlanetSnapshot_read cfg reply includeObserver s =
     (let (cached, s1) = readCache cfg reply (if includeObserver then Full else StateVectors) s;
          cachedPayload = map_option (\<lambda>c. heap s1 ! cr_payload c) cached;
          fallbackBodies =
            fallbackBodies_of (case cachedPayload of Some p \<Rightarrow> es_bodies p | None \<Rightarrow> [])
      in ((cached, fallbackBodies), s1))"

definition buildPlanetSnapshot_rest ::
  "config \<Rightarrow> RefreshEnv \<Rightarrow> string option \<Rightarrow> CacheRecord option
     \<Rightarrow> (string \<Rightarrow> EphemerisBody option) \<Rightarrow> state \<Rightarrow> (js_error + addr) \<times> state" where
  "buildPlanetSnapshot_rest cfg env correlationId cached fallbackBodies s1 =
     (let cachedPayload = map_option (\<lambda>c. heap s1 ! cr_payload c) cached;
          results = fetch_all cfg env;
          latencyMs = env_fetched env - env_started env;
          cachedMeta = map_option es_metadata cachedPayload;
          acc0 = \<lparr>acc_bodies = [], acc_usedFallback = [], acc_missing = [], acc_timestamps = [],
                  acc_referenceFrame =
                    (case Option.bind cachedMeta md_referenceFrame of
                       Some f \<Rightarrow> f | None \<Rightarrow> ''J2000-ECLIPTIC''),
                  acc_velocityUnit =
                    (case Option.bind cachedMeta md_velocityUnit of
                       Some u \<Rightarrow> u | None \<Rightarrow> ''AU/day''),
                  acc_warnings = []\<rparr>;
          acc = process_results fallbackBodies results acc0;
          s2 = s1\<lparr>logs := logs s1 @ map (Pair Warn) (acc_warnings acc)\<rparr>
      in if acc_bodies acc = [] then (Inl no_data_error, s2)
         else
           (let timestamp =
                  (case acc_timestamps acc of
                     t # _ \<Rightarrow> t
                   | [] \<Rightarrow> (case cachedPayload of
                              Some p \<Rightarrow> es_timestamp p | None \<Rightarrow> IsoOf (env_today env)));
                (a, s3) = alloc
                  \<lparr>es_timestamp = timestamp,
                   es_metadata =
                     \<lparr>md_source = Some ''NASA-JPL-Horizons'',
                      md_referenceFrame = Some (acc_referenceFrame acc),
                      md_distanceUnit = Some ''AU'',
                      md_velocityUnit = Some (acc_velocityUnit acc),
                      md_responseTimeMs = Some latencyMs,
                      md_cacheStatus = None, md_cacheBackend = None, md_cacheAgeMs = None,
                      md_cacheExpiresInMs = None, md_cacheStale = None, md_generatedAt = None,
                      md_frozenSnapshot = None, md_freezeReason = None, md_requestId = None,
                      md_partial = Some (0 < length (acc_usedFallback acc) \<or> 0 < length (acc_missing acc)),
                      md_fallbackBodies = nonempty_or_undefined (acc_usedFallback acc),
                      md_missingBodies = nonempty_or_undefined (acc_missing acc)\<rparr>,
                   es_bodies = acc_bodies acc\<rparr> s2
            in (Inr a, s3)))"

text \<open>\<^verbatim>\<open>buildPlanetSnapshot\<close> when nothing else runs while it awaits.\<close>

definition buildPlanetSnapshot ::
  "config \<Rightarrow> RefreshEnv \<Rightarrow> string option \<Rightarrow> bool \<Rightarrow> state \<Rightarrow> (js_error + addr) \<times> state" where
  "buildPlanetSnapshot cfg env correlationId includeObserver s =
     (let ((cached, fallbackBodies), s1) =
            buildPlanetSnapshot_read cfg (env_get env) includeObserver s
      in buildPlanetSnapshot_rest cfg env correlationId cached fallbackBodies s1)"

subsection \<open>Refreshing\<close>

definition backend_of :: "config \<Rightarrow> CacheBackend" where
  "backend_of cfg = (if redis_client cfg then Redis else Memory)"

text \<open>
  The body of \<^verbatim>\<open>refreshSnapshot\<close> after the build, in two parts. Up to the \<^verbatim>\<open>await\<close>
  inside \<^verbatim>\<open>writeCache\<close> (lines 296 to 305): the record is made and written to the
  memory slot. From the store's reply on (lines 306 to 336): the assignment
  \<^verbatim>\<open>payload.metadata = {...}\<close> updates the object at the payload's address, which is the
  object the record in the memory slot refers to. The locals \<^verbatim>\<open>payload\<close> and \<^verbatim>\<open>now\<close> of
  the second part are the payload and the \<^verbatim>\<open>cachedAt\<close> of the record.
\<close>

definition refreshSnapshot_store ::
  "config \<Rightarrow> ms \<Rightarrow> RefreshCall \<Rightarrow> addr \<Rightarrow> state \<Rightarrow> (CacheRecord \<times> StoredRecord) \<times> state" where
  "refreshSnapshot_store cfg now call payload s1 =
     (let record = \<lparr>cr_payload = payload, cr_cachedAt = now,
                    cr_expiresAt = now + CACHE_TTL_MS cfg,
                    cr_staleUntil = now + CACHE_TTL_MS cfg + STALE_WHILE_REVALIDATE_MS cfg\<rparr>;
          (json, s2) = writeCache_begin (rc_mode call) record s1
      in ((record, json), s2))"

definition refreshSnapshot_finish ::
  "config \<Rightarrow> redis_set \<Rightarrow> RefreshCall \<Rightarrow> CacheRecord \<Rightarrow> StoredRecord \<Rightarrow> state
     \<Rightarrow> addr SnapshotResult \<times> state" where
  "refreshSnapshot_finish cfg reply call record json s =
     (let backend = backend_of cfg;
          payload = cr_payload record;
          now = cr_cachedAt record;
          s2 = writeCache_end cfg reply json record backend (rc_mode call) s;
          cacheAgeMs = 0;
          old = heap s2 ! payload;
          s3 = s2\<lparr>heap := (heap s2)[payload := old\<lparr>es_metadata := (es_metadata old)
                 \<lparr>md_cacheStatus := Some ''MISS'',
                  md_cacheBackend := Some backend,
                  md_cacheAgeMs := Some cacheAgeMs,
                  md_cacheExpiresInMs := Some (CACHE_TTL_MS cfg),
                  md_cacheStale := Some False,
                  md_generatedAt := Some (IsoOf now),
                  md_requestId := rc_correlationId call\<rparr>\<rparr>]\<rparr>;
          s4 = logInfo ''ephemeris_refresh'' s3
      in (\<lparr>sr_payload = payload, sr_cacheState = MISS, sr_cacheBackend = backend,
            sr_cacheAgeMs = cacheAgeMs\<rparr>, s4))"

text \<open>\<^verbatim>\<open>refreshSnapshot\<close> when nothing else runs while it awaits.\<close>

definition refreshSnapshot ::
  "config \<Rightarrow> RefreshEnv \<Rightarrow> RefreshCall \<Rightarrow> state \<Rightarrow> (js_error + addr SnapshotResult) \<times> state" where
  "refreshSnapshot cfg env call s =
     (case buildPlanetSnapshot cfg env (rc_correlationId call) (rc_mode call = Full) s of
        (Inl err, s1) \<Rightarrow> (Inl err, s1)
      | (Inr payload, s1) \<Rightarrow>
          (let ((record, json), s2) = refreshSnapshot_store cfg (env_now env) call payload s1;
               (result, s3) = refreshSnapshot_finish cfg (env_set env) call record json s2
           in (Inr result, s3)))"

text \<open>
  Calling the async function \<^verbatim>\<open>refreshSnapshot\<close> makes a pending promise, numbered by
  the position of the call; \<^verbatim>\<open>setInflight\<close> registers it, and its \<^verbatim>\<open>finally\<close> handler
  (\<open>clearInflight\<close>) runs when the promise settles.
\<close>

definition call_refreshSnapshot :: "string \<Rightarrow> string option \<Rightarrow> SnapshotMode \<Rightarrow> state \<Rightarrow> nat \<times> state" where
  "call_refreshSnapshot reason correlationId mode s =
     (length (started s),
      s\<lparr>started := started s @
          [\<lparr>rc_reason = reason, rc_correlationId = correlationId, rc_mode = mode\<rparr>]\<rparr>)"

definition setInflight :: "SnapshotMode \<Rightarrow> nat \<Rightarrow> state \<Rightarrow> state" where
  "setInflight mode promise s = s\<lparr>inflightByMode := (inflightByMode s)(mode \<mapsto> promise)\<rparr>"

definition clearInflight :: "SnapshotMode \<Rightarrow> nat \<Rightarrow> state \<Rightarrow> state" where
  "clearInflight mode promise s =
     (if inflightByMode s mode = Some promise
      then s\<lparr>inflightByMode := (inflightByMode s)(mode := None)\<rparr> else s)"

subsection \<open>Serving a snapshot\<close>

definition decoratePayloadMetadata ::
  "config \<Rightarrow> ms \<Rightarrow> EphemerisSnapshot \<Rightarrow> CacheState \<Rightarrow> CacheBackend \<Rightarrow> ms \<Rightarrow> string option
     \<Rightarrow> EphemerisSnapshot" where
  "decoratePayloadMetadata cfg clock payload cacheState backend cacheAgeMs correlationId =
     (let baseMetadata = es_metadata payload
      in payload\<lparr>es_metadata := baseMetadata
           \<lparr>md_cacheStatus := Some (cacheState_text cacheState),
            md_cacheBackend := Some backend,
            md_cacheAgeMs := Some cacheAgeMs,
            md_cacheExpiresInMs := Some (max 0 (CACHE_TTL_MS cfg - cacheAgeMs)),
            md_cacheStale := Some (cacheState = STALE),
            md_requestId :=
              (case correlationId of Some c \<Rightarrow> Some c | None \<Rightarrow> md_requestId baseMetadata),
            md_generatedAt :=
              (case md_generatedAt baseMetadata of
                 Some g \<Rightarrow> Some g | None \<Rightarrow> Some (IsoOf (clock - cacheAgeMs)))\<rparr>\<rparr>)"

record options =
  forceRefresh :: bool
  correlationId :: "string option"
  includeObserver :: bool

text \<open>
  \<^verbatim>\<open>getSnapshot\<close> either returns at once or reaches \<^verbatim>\<open>await inflight\<close> on a promise.
\<close>

datatype progress = Returned "EphemerisSnapshot SnapshotResult" | Awaiting nat

definition mode_of :: "options \<Rightarrow> SnapshotMode" where
  "mode_of opts = (if includeObserver opts then Full else StateVectors)"

text \<open>Lines 405 to 415: join the refresh in flight for the mode, or start one.\<close>

definition join_or_start :: "options \<Rightarrow> state \<Rightarrow> progress \<times> state" where
  "join_or_start opts s =
     (case inflightByMode s (mode_of opts) of
        Some inflight \<Rightarrow> (Awaiting inflight, s)
      | None \<Rightarrow>
          (let (p, s1) = call_refreshSnapshot
                 (if forceRefresh opts then ''manual-refresh'' else ''miss'')
                 (correlationId opts) (mode_of opts) s
           in (Awaiting p, setInflight (mode_of opts) p s1)))"

text \<open>
  \<^verbatim>\<open>getSnapshot\<close> up to its return or its \<^verbatim>\<open>await inflight\<close>. \<open>now\<close> is the clock read
  at line 371, \<open>reply\<close> what the shared store answers to the read, \<open>clock\<close> the clock
  read by the decoration.
\<close>

definition getSnapshot_begin ::
  "config \<Rightarrow> options \<Rightarrow> ms \<Rightarrow> redis_get \<Rightarrow> ms \<Rightarrow> state \<Rightarrow> progress \<times> state" where
  "getSnapshot_begin cfg opts now reply clock s =
     (let mode = mode_of opts;
          backend = backend_of cfg
      in if \<not> forceRefresh opts then
           (case readCache cfg reply mode s of
              (Some cached, s1) \<Rightarrow>
                (let cacheAgeMs = now - cr_cachedAt cached;
                     isFresh = (cacheAgeMs < CACHE_TTL_MS cfg);
                     isStaleButAllowed =
                       (\<not> isFresh \<and> cacheAgeMs < CACHE_TTL_MS cfg + STALE_WHILE_REVALIDATE_MS cfg)
                 in if isFresh \<or> isStaleButAllowed then
                      (let cacheState = (if isFresh then HIT else STALE);
                           s2 = (if isStaleButAllowed \<and> inflightByMode s1 mode = None
                                 then (let (p, s') = call_refreshSnapshot ''stale-revalidate'' None mode s1
                                       in setInflight mode p s')
                                 else s1)
                       in (Returned
                             \<lparr>sr_payload = decoratePayloadMetadata cfg clock (heap s1 ! cr_payload cached)
                                 cacheState backend cacheAgeMs (correlationId opts),
                              sr_cacheState = cacheState, sr_cacheBackend = backend,
                              sr_cacheAgeMs = cacheAgeMs\<rparr>, s2))
                    else join_or_start opts s1)
            | (None, s1) \<Rightarrow> join_or_start opts s1)
         else join_or_start opts s)"

text \<open>
  \<^verbatim>\<open>getSnapshot\<close> from the settlement of the awaited promise on (lines 417 to 475), in
  parts. \<open>getSnapshot_frozen\<close> is the \<^verbatim>\<open>catch\<close> block once \<open>cached\<close> is known (lines 433 to
  474). \<open>getSnapshot_settled\<close> runs from the settlement to the return or, in the
  \<^verbatim>\<open>catch\<close> block with an empty memory slot and a client, to the \<^verbatim>\<open>await\<close> of the store's
  answer to \<^verbatim>\<open>readCache\<close>; without a client that read awaits nothing but
  \<^verbatim>\<open>getRedisClient()\<close> and looks at no reply. \<open>getSnapshot_store_read\<close> runs from that
  answer on.
\<close>

datatype resumption =
    Answer "js_error + EphemerisSnapshot SnapshotResult"
  | ReadStore js_error

definition getSnapshot_frozen ::
  "config \<Rightarrow> options \<Rightarrow> ms \<Rightarrow> js_error \<Rightarrow> CacheRecord option \<Rightarrow> ms \<Rightarrow> state
     \<Rightarrow> (js_error + EphemerisSnapshot SnapshotResult) \<times> state" where
  "getSnapshot_frozen cfg opts now err cached clock s1 =
     (let backend = backend_of cfg
      in case cached of
           Some c \<Rightarrow>
             (let cacheAgeMs = now - cr_cachedAt c;
                  payload = decoratePayloadMetadata cfg clock (heap s1 ! cr_payload c)
                    FROZEN backend cacheAgeMs (correlationId opts);
                  payload' = payload\<lparr>es_metadata := (es_metadata payload)
                    \<lparr>md_cacheStale := Some True,
                     md_cacheExpiresInMs := Some 0,
                     md_frozenSnapshot := Some True,
                     md_freezeReason :=
                       Some (case message err of
                               Some m \<Rightarrow> m
                             | None \<Rightarrow> ''Erreur inconnue lors du fetch Horizons''),
                     md_requestId := correlationId opts\<rparr>\<rparr>;
                  s2 = logWarn ''ephemeris_snapshot_frozen'' s1
              in (Inr \<lparr>sr_payload = payload', sr_cacheState = FROZEN,
                       sr_cacheBackend = backend, sr_cacheAgeMs = cacheAgeMs\<rparr>, s2))
         | None \<Rightarrow> (Inl err, logError ''ephemeris_refresh_failed'' s1))"

definition getSnapshot_store_read ::
  "config \<Rightarrow> options \<Rightarrow> ms \<Rightarrow> js_error \<Rightarrow> redis_get \<Rightarrow> ms \<Rightarrow> state
     \<Rightarrow> (js_error + EphemerisSnapshot SnapshotResult) \<times> state" where
  "getSnapshot_store_read cfg opts now err reply clock s =
     (let (cached, s1) = readCache cfg reply (mode_of opts) s
      in getSnapshot_frozen cfg opts now err cached clock s1)"

definition getSnapshot_settled ::
  "config \<Rightarrow> options \<Rightarrow> ms \<Rightarrow> (js_error + addr SnapshotResult) \<Rightarrow> ms \<Rightarrow> state
     \<Rightarrow> resumption \<times> state" where
  "getSnapshot_settled cfg opts now outcome clock s =
     (case outcome of
        Inr result \<Rightarrow>
          (let stored = heap s ! sr_payload result;
               payload = decoratePayloadMetadata cfg clock stored (sr_cacheState result)
                 (sr_cacheBackend result) (sr_cacheAgeMs result)
                 (case correlationId opts of
                    Some c \<Rightarrow> Some c | None \<Rightarrow> md_requestId (es_metadata stored))
           in (Answer (Inr \<lparr>sr_payload = payload, sr_cacheState = sr_cacheState result,
                            sr_cacheBackend = sr_cacheBackend result,
                            sr_cacheAgeMs = sr_cacheAgeMs result\<rparr>), s))
      | Inl err \<Rightarrow>
          (case memoryCache s (mode_of opts) of
             Some c \<Rightarrow>
               (let (r, s1) = getSnapshot_frozen cfg opts now err (Some c) clock s
                in (Answer r, s1))
           | None \<Rightarrow>
               (if redis_client cfg then (ReadStore err, s)
                else (let (r, s1) = getSnapshot_store_read cfg opts now err GetNil clock s
                      in (Answer r, s1)))))"

text \<open>
  \<^verbatim>\<open>getSnapshot\<close> from the settlement on when nothing else runs while the \<^verbatim>\<open>catch\<close> block
  awaits the store: \<open>reply\<close> is what the store answers if it is asked.
\<close>

definition getSnapshot_resume ::
  "config \<Rightarrow> options \<Rightarrow> ms \<Rightarrow> (js_error + addr SnapshotResult) \<Rightarrow> redis_get \<Rightarrow> ms \<Rightarrow> state
     \<Rightarrow> (js_error + EphemerisSnapshot SnapshotResult) \<times> state" where
  "getSnapshot_resume cfg opts now outcome reply clock s =
     (case getSnapshot_settled cfg opts now outcome clock s of
        (Answer r, s1) \<Rightarrow> (r, s1)
      | (ReadStore err, s1) \<Rightarrow> getSnapshot_store_read cfg opts now err reply clock s1)"

text \<open>The callback of the prewarm timer, which is installed only under the guard.\<close>

definition prewarm_tick :: "config \<Rightarrow> state \<Rightarrow> state" where
  "prewarm_tick cfg s =
     (if CACHE_TTL_MS cfg > 0 \<and> PREWARM_INTERVAL_MS cfg > 0 then
        (if inflightByMode s StateVectors = None then
           (let (p, s1) = call_refreshSnapshot ''background-prewarm'' None StateVectors s
            in setInflight StateVectors p s1)
         else s)
      else s)"

subsection \<open>The event machine of the snapshot cache\<close>

text \<open>
  Node runs one piece of code at a time, up to its next \<^verbatim>\<open>await\<close> of an answer from
  outside (the shared store or the upstream); an \<^verbatim>\<open>await\<close> of \<^verbatim>\<open>getRedisClient()\<close>, whose
  promise has settled, does not leave the turn. So a run of the module is a sequence
  of events, each of which runs one piece of code without interleaving:
  \<^item> \<open>Request\<close>: a call of \<^verbatim>\<open>getSnapshot\<close> reaches its decision (its cache read has been
    answered) and returns or starts to await a refresh promise;
  \<^item> \<open>Prewarm\<close>: the prewarm timer fires;
  \<^item> \<open>RefreshRead p\<close>: the shared store answers the cache read of the build of refresh
    \<open>p\<close>. Without a client that read awaits no answer: it happens in the turn that
    started the refresh;
  \<^item> \<open>RefreshFetched p\<close>: the upstream has answered the last fetch of refresh \<open>p\<close>. The
    build finishes; when it throws, the promise is rejected; otherwise the record is
    written to the memory slot and, with a client, the refresh awaits the store's
    reply to its write, while without a client it finishes in the same turn;
  \<^item> \<open>RefreshWritten p\<close>: the shared store answers the write of refresh \<open>p\<close>, which
    finishes;
  \<^item> \<open>FrozenRead c\<close>: the shared store answers the cache read in the \<^verbatim>\<open>catch\<close> block of
    caller \<open>c\<close>.

  When a refresh promise settles, the \<^verbatim>\<open>finally\<close> handler registered by \<^verbatim>\<open>setInflight\<close>
  runs, then the callers awaiting the promise resume in the order in which they
  started to await. The last component of the three events that can settle a promise
  and of \<open>FrozenRead\<close> is the clock read by the decorations of the callers that are
  answered.
\<close>

datatype refresh_stage =
    AwaitingRead
  | AwaitingFetch "CacheRecord option" "string \<Rightarrow> EphemerisBody option"
  | AwaitingWrite CacheRecord StoredRecord

record Waiter =
  w_promise :: nat
  w_caller :: nat
  w_options :: options
  w_now :: ms

text \<open>A caller whose \<^verbatim>\<open>catch\<close> block awaits the store's answer to its cache read.\<close>

record Reader =
  rd_caller :: nat
  rd_options :: options
  rd_now :: ms
  rd_error :: js_error

type_synonym response = "nat \<times> (js_error + EphemerisSnapshot SnapshotResult)"

text \<open>
  The module state, where each refresh stands, what each settled promise settled
  with, the callers awaiting a promise, the callers awaiting a cache read in their
  \<^verbatim>\<open>catch\<close> block, the answers given so far, and the number of calls made.
\<close>

record system =
  sys_state :: state
  stages :: "nat \<Rightarrow> refresh_stage"
  outcomes :: "nat \<Rightarrow> (js_error + addr SnapshotResult) option"
  waiting :: "Waiter list"
  reading :: "Reader list"
  responses :: "response list"
  callers :: nat

datatype event =
    Request options ms redis_get ms
  | Prewarm
  | RefreshRead nat redis_get
  | RefreshFetched nat RefreshEnv ms
  | RefreshWritten nat redis_set ms
  | FrozenRead nat redis_get ms

definition initial_system :: system where
  "initial_system =
     \<lparr>sys_state = initial_state, stages = (\<lambda>_. AwaitingRead), outcomes = (\<lambda>_. None),
      waiting = [], reading = [], responses = [], callers = 0\<rparr>"

definition pending :: "state \<Rightarrow> nat \<Rightarrow> bool" where
  "pending s p = (p < length (started s) \<and> p \<notin> set (settled s))"

text \<open>The cache read of the build of refresh \<open>p\<close>.\<close>

definition read_for_refresh :: "config \<Rightarrow> nat \<Rightarrow> redis_get \<Rightarrow> system \<Rightarrow> system" where
  "read_for_refresh cfg p reply sys =
     (let call = started (sys_state sys) ! p;
          ((cached, fallbackBodies), s1) =
            buildPlanetSnapshot_read cfg reply (rc_mode call = Full) (sys_state sys)
      in sys\<lparr>sys_state := s1, stages := (stages sys)(p := AwaitingFetch cached fallbackBodies)\<rparr>)"

text \<open>
  The end of a turn that began with \<open>n\<close> refresh calls made: without a client, a
  refresh that the turn has started (its number is \<open>n\<close>) has read the cache, looking at
  no reply.
\<close>

definition end_of_turn :: "config \<Rightarrow> nat \<Rightarrow> system \<Rightarrow> system" where
  "end_of_turn cfg n sys =
     (if \<not> redis_client cfg \<and> n < length (started (sys_state sys))
      then read_for_refresh cfg n GetNil sys else sys)"

text \<open>The callers awaiting a promise resume, in order, when it settles.\<close>

fun resume_all ::
  "config \<Rightarrow> (js_error + addr SnapshotResult) \<Rightarrow> ms \<Rightarrow> Waiter list \<Rightarrow> state
     \<Rightarrow> response list \<times> Reader list \<times> state" where
  "resume_all cfg outcome clock [] s = ([], [], s)"
| "resume_all cfg outcome clock (w # ws) s =
     (let (r, s1) = getSnapshot_settled cfg (w_options w) (w_now w) outcome clock s;
          (rs, rds, s2) = resume_all cfg outcome clock ws s1
      in case r of
           Answer a \<Rightarrow> ((w_caller w, a) # rs, rds, s2)
         | ReadStore err \<Rightarrow>
             (rs, \<lparr>rd_caller = w_caller w, rd_options = w_options w, rd_now = w_now w,
                    rd_error = err\<rparr> # rds, s2))"

text \<open>Promise \<open>p\<close> settles with \<open>outcome\<close>.\<close>

definition settle ::
  "config \<Rightarrow> nat \<Rightarrow> (js_error + addr SnapshotResult) \<Rightarrow> ms \<Rightarrow> system \<Rightarrow> system" where
  "settle cfg p outcome clock sys =
     (let s = sys_state sys;
          call = started s ! p;
          s1 = clearInflight (rc_mode call) p (s\<lparr>settled := p # settled s\<rparr>);
          (rs, rds, s2) = resume_all cfg outcome clock
                            (filter (\<lambda>w. w_promise w = p) (waiting sys)) s1
      in sys\<lparr>sys_state := s2,
             outcomes := (outcomes sys)(p \<mapsto> outcome),
             waiting := filter (\<lambda>w. w_promise w \<noteq> p) (waiting sys),
             reading := reading sys @ rds,
             responses := responses sys @ rs\<rparr>)"

fun step :: "config \<Rightarrow> event \<Rightarrow> system \<Rightarrow> system" where
  "step cfg (Request opts now reply clock) sys =
     end_of_turn cfg (length (started (sys_state sys)))
       (case getSnapshot_begin cfg opts now reply clock (sys_state sys) of
          (Returned r, s1) \<Rightarrow>
            sys\<lparr>sys_state := s1, responses := responses sys @ [(callers sys, Inr r)],
                callers := callers sys + 1\<rparr>
        | (Awaiting p, s1) \<Rightarrow>
            sys\<lparr>sys_state := s1,
                waiting := waiting sys @
                  [\<lparr>w_promise = p, w_caller = callers sys, w_options = opts, w_now = now\<rparr>],
                callers := callers sys + 1\<rparr>)"
| "step cfg Prewarm sys =
     end_of_turn cfg (length (started (sys_state sys)))
       (sys\<lparr>sys_state := prewarm_tick cfg (sys_state sys)\<rparr>)"
| "step cfg (RefreshRead p reply) sys =
     (if redis_client cfg \<and> pending (sys_state sys) p then
        (case stages sys p of
           AwaitingRead \<Rightarrow> read_for_refresh cfg p reply sys
         | AwaitingFetch cached fallbackBodies \<Rightarrow> sys
         | AwaitingWrite record json \<Rightarrow> sys)
      else sys)"
| "step cfg (RefreshFetched p env clock) sys =
     (if pending (sys_state sys) p then
        (case stages sys p of
           AwaitingRead \<Rightarrow> sys
         | AwaitingFetch cached fallbackBodies \<Rightarrow>
             (let call = started (sys_state sys) ! p
              in case buildPlanetSnapshot_rest cfg env (rc_correlationId call) cached
                        fallbackBodies (sys_state sys) of
                   (Inl err, s1) \<Rightarrow> settle cfg p (Inl err) clock (sys\<lparr>sys_state := s1\<rparr>)
                 | (Inr payload, s1) \<Rightarrow>
                     (let ((record, json), s2) =
                            refreshSnapshot_store cfg (env_now env) call payload s1
                      in if redis_client cfg then
                           sys\<lparr>sys_state := s2,
                               stages := (stages sys)(p := AwaitingWrite record json)\<rparr>
                         else
                           (let (result, s3) =
                                  refreshSnapshot_finish cfg (env_set env) call record json s2
                            in settle cfg p (Inr result) clock (sys\<lparr>sys_state := s3\<rparr>))))
         | AwaitingWrite record json \<Rightarrow> sys)
      else sys)"
| "step cfg (RefreshWritten p reply clock) sys =
     (if pending (sys_state sys) p then
        (case stages sys p of
           AwaitingRead \<Rightarrow> sys
         | AwaitingFetch cached fallbackBodies \<Rightarrow> sys
         | AwaitingWrite record json \<Rightarrow>
             (let call = started (sys_state sys) ! p;
                  (result, s1) = refreshSnapshot_finish cfg reply call record json (sys_state sys)
              in settle cfg p (Inr result) clock (sys\<lparr>sys_state := s1\<rparr>)))
      else sys)"
| "step cfg (FrozenRead c reply clock) sys =
     (case filter (\<lambda>r. rd_caller r = c) (reading sys) of
        [] \<Rightarrow> sys
      | r # rest \<Rightarrow>
          (let (a, s1) = getSnapshot_store_read cfg (rd_options r) (rd_now r) (rd_error r)
                           reply clock (sys_state sys)
           in sys\<lparr>sys_state := s1,
                  reading := filter (\<lambda>r. rd_caller r \<noteq> c) (reading sys),
                  responses := responses sys @ [(c, a)]\<rparr>))"

definition run :: "config \<Rightarrow> event list \<Rightarrow> system \<Rightarrow> system" where
  "run cfg evs sys = fold (step cfg) evs sys"


section \<open>The single-body cache\<close>

subsection \<open>The body table\<close>

datatype BodyKind = Star | Moon

record BodyConfig =
  bc_id :: string
  bc_displayName :: string
  bc_kind :: BodyKind
  bc_horizonsId :: string

text \<open>The table of \<^verbatim>\<open>config/bodies.ts\<close>; display names are UTF-8 bytes.\<close>

definition BODIES :: "BodyConfig list" where
  "BODIES =
    [
     \<lparr>bc_id = ''sun'', bc_displayName = ''Soleil'', bc_kind = Star, bc_horizonsId = ''10''\<rparr>,
     \<lparr>bc_id = ''moon'', bc_displayName = ''Lune'', bc_kind = Moon, bc_horizonsId = ''301''\<rparr>,
     \<lparr>bc_id = ''phobos'', bc_displayName = ''Phobos'', bc_kind = Moon, bc_horizonsId = ''401''\<rparr>,
     \<lparr>bc_id = ''deimos'', bc_displayName = ''Deimos'', bc_kind = Moon, bc_horizonsId = ''402''\<rparr>,
     \<lparr>bc_id = ''io'', bc_displayName = ''Io'', bc_kind = Moon, bc_horizonsId = ''501''\<rparr>,
     \<lparr>bc_id = ''europa'', bc_displayName = ''Europe'', bc_kind = Moon, bc_horizonsId = ''502''\<rparr>,
     \<lparr>bc_id = ''ganymede'', bc_displayName = ''Ganym'' @ [CHR 0xC3, CHR 0xA8] @ ''de'', bc_kind = Moon, bc_horizonsId = ''503''\<rparr>,
     \<lparr>bc_id = ''callisto'', bc_displayName = ''Callisto'', bc_kind = Moon, bc_horizonsId = ''504''\<rparr>,
     \<lparr>bc_id = ''enceladus'', bc_displayName = ''Encelade'', bc_kind = Moon, bc_horizonsId = ''602''\<rparr>,
     \<lparr>bc_id = ''rhea'', bc_displayName = ''Rh'' @ [CHR 0xC3, CHR 0xA9] @ ''a'', bc_kind = Moon, bc_horizonsId = ''605''\<rparr>,
     \<lparr>bc_id = ''titan'', bc_displayName = ''Titan'', bc_kind = Moon, bc_horizonsId = ''606''\<rparr>,
     \<lparr>bc_id = ''iapetus'', bc_displayName = ''Japet'', bc_kind = Moon, bc_horizonsId = ''608''\<rparr>,
     \<lparr>bc_id = ''ariel'', bc_displayName = ''Ariel'', bc_kind = Moon, bc_horizonsId = ''701''\<rparr>,
     \<lparr>bc_id = ''umbriel'', bc_displayName = ''Umbriel'', bc_kind = Moon, bc_horizonsId = ''702''\<rparr>,
     \<lparr>bc_id = ''titania'', bc_displayName = ''Titania'', bc_kind = Moon, bc_horizonsId = ''703''\<rparr>,
     \<lparr>bc_id = ''oberon'', bc_displayName = ''Oberon'', bc_kind = Moon, bc_horizonsId = ''704''\<rparr>,
     \<lparr>bc_id = ''miranda'', bc_displayName = ''Miranda'', bc_kind = Moon, bc_horizonsId = ''705''\<rparr>,
     \<lparr>bc_id = ''triton'', bc_displayName = ''Triton'', bc_kind = Moon, bc_horizonsId = ''801''\<rparr>,
     \<lparr>bc_id = ''nereid'', bc_displayName = ''N'' @ [CHR 0xC3, CHR 0xA9] @ ''r'' @ [CHR 0xC3, CHR 0xA9] @ ''ide'', bc_kind = Moon, bc_horizonsId = ''802''\<rparr>,
     \<lparr>bc_id = ''charon'', bc_displayName = ''Charon'', bc_kind = Moon, bc_horizonsId = ''901''\<rparr>,
     \<lparr>bc_id = ''nix'', bc_displayName = ''Nix'', bc_kind = Moon, bc_horizonsId = ''902''\<rparr>,
     \<lparr>bc_id = ''hydra'', bc_displayName = ''Hydra'', bc_kind = Moon, bc_horizonsId = ''903''\<rparr>,
     \<lparr>bc_id = ''kerberos'', bc_displayName = ''Kerberos'', bc_kind = Moon, bc_horizonsId = ''904''\<rparr>,
     \<lparr>bc_id = ''styx'', bc_displayName = ''Styx'', bc_kind = Moon, bc_horizonsId = ''905''\<rparr>]"

definition BODY_BY_ID :: "string \<Rightarrow> BodyConfig option" where
  "BODY_BY_ID = fold (\<lambda>b m. m(bc_id b \<mapsto> b)) BODIES Map.empty"

subsection \<open>Payloads, entries and state\<close>

datatype BodyCacheStatus = BodyHIT | BodyMISS | BodyFROZEN

record BodyMetadata =
  bm_cacheStatus :: "BodyCacheStatus option"
  bm_cacheAgeMs :: "ms option"
  bm_cacheExpiresInMs :: "ms option"
  bm_responseTimeMs :: "ms option"
  bm_requestId :: "string option"
  bm_frozenSnapshot :: "bool option"
  bm_freezeReason :: "string option"

record BodyEphemerisPayload =
  bp_id :: string
  bp_timestamp :: isotext
  bp_x_au :: number
  bp_y_au :: number
  bp_z_au :: number
  bp_vx :: "number option"
  bp_vy :: "number option"
  bp_vz :: "number option"
  bp_velocityUnit :: "string option"
  bp_referenceFrame :: "string option"
  bp_source :: "string option"
  bp_observer :: ObserverGeometry
  bp_metadata :: "BodyMetadata option"

record CacheEntry =
  ce_payload :: BodyEphemerisPayload
  ce_cachedAt :: ms
  ce_expiresAt :: ms

text \<open>
  One call of \<^verbatim>\<open>fetchFresh(id, correlationId)\<close>: the table entry it found, if any, and
  the clock it read before the upstream call.
\<close>

record FetchCall =
  fc_id :: string
  fc_correlationId :: "string option"
  fc_cfg :: "BodyConfig option"
  fc_started :: ms

text \<open>
  The module state: \<^verbatim>\<open>cache\<close>, \<^verbatim>\<open>inflight\<close> (a promise is the index of its
  \<^verbatim>\<open>fetchFresh\<close> call), the \<^verbatim>\<open>fetchFresh\<close> calls made so far, the promises that have
  settled, the calls of \<^verbatim>\<open>fetchPlanetStateVector(horizonsId, name, ...)\<close> made so far,
  and the log. Payloads are never assigned to after they are built, so entries hold
  them by value.
\<close>

record body_state =
  cache :: "string \<Rightarrow> CacheEntry option"
  inflight :: "string \<Rightarrow> nat option"
  fetches :: "FetchCall list"
  fetches_settled :: "nat list"
  upstream_calls :: "(string \<times> string) list"
  body_logs :: "(log_level \<times> string) list"

definition initial_body_state :: body_state where
  "initial_body_state = \<lparr>cache = (\<lambda>_. None), inflight = (\<lambda>_. None), fetches = [],
     fetches_settled = [], upstream_calls = [], body_logs = []\<rparr>"

definition body_log :: "log_level \<Rightarrow> string \<Rightarrow> body_state \<Rightarrow> body_state" where
  "body_log level event s = s\<lparr>body_logs := body_logs s @ [(level, event)]\<rparr>"

subsection \<open>Operations\<close>

text \<open>\<open>clock\<close> is the \<^verbatim>\<open>Date.now()\<close> read inside \<^verbatim>\<open>getFromCache\<close>.\<close>

definition getFromCache :: "ms \<Rightarrow> string \<Rightarrow> body_state \<Rightarrow> CacheEntry option \<times> body_state" where
  "getFromCache clock bid s =
     (case cache s bid of
        None \<Rightarrow> (None, s)
      | Some entry \<Rightarrow>
          (if clock \<ge> ce_expiresAt entry then (None, s\<lparr>cache := (cache s)(bid := None)\<rparr>)
           else (Some entry, s)))"

text \<open>
  \<^verbatim>\<open>fetchFresh\<close> up to its \<^verbatim>\<open>await\<close>: an unknown identifier throws before any upstream
  call is made.
\<close>

definition fetchFresh_call :: "string \<Rightarrow> string option \<Rightarrow> ms \<Rightarrow> body_state \<Rightarrow> nat \<times> body_state" where
  "fetchFresh_call bid corrId clock s =
     (let cfg = BODY_BY_ID bid;
          s1 = s\<lparr>fetches := fetches s @
                 [\<lparr>fc_id = bid, fc_correlationId = corrId, fc_cfg = cfg,
                   fc_started = clock\<rparr>]\<rparr>
      in (length (fetches s),
          case cfg of
            None \<Rightarrow> s1
          | Some c \<Rightarrow> s1\<lparr>upstream_calls := upstream_calls s1 @
                            [(bc_horizonsId c, bc_displayName c)]\<rparr>))"

text \<open>
  What the world answers to one \<^verbatim>\<open>fetchFresh\<close>: the outcome of the upstream call, the
  clock after it, the clock of \<^verbatim>\<open>new Date()\<close> for the default timestamp, and the two
  clock readings of the \<^verbatim>\<open>then\<close> handler.
\<close>

record FetchEnv =
  fe_outcome :: fetch_outcome
  fe_finished :: ms
  fe_today :: ms
  fe_cachedAt :: ms
  fe_expiresFrom :: ms

definition fetchFresh_result :: "FetchCall \<Rightarrow> FetchEnv \<Rightarrow> js_error + BodyEphemerisPayload" where
  "fetchFresh_result call env =
     (case fc_cfg call of
        None \<Rightarrow> Inl (JsError (Some (''Corps inconnu: '' @ fc_id call)))
      | Some cfg \<Rightarrow>
          (case fe_outcome env of
             Rejected err \<Rightarrow> Inl err
           | Fulfilled vec \<Rightarrow>
               Inr \<lparr>bp_id = fc_id call,
                    bp_timestamp =
                      (case sv_timestamp vec of Some t \<Rightarrow> t | None \<Rightarrow> IsoOf (fe_today env)),
                    bp_x_au = sv_x_au vec, bp_y_au = sv_y_au vec, bp_z_au = sv_z_au vec,
                    bp_vx = sv_vx_au_per_day vec, bp_vy = sv_vy_au_per_day vec,
                    bp_vz = sv_vz_au_per_day vec,
                    bp_velocityUnit = sv_velocityUnit vec,
                    bp_referenceFrame = sv_referenceFrame vec,
                    bp_source = sv_source vec,
                    bp_observer = sv_observer vec,
                    bp_metadata =
                      Some \<lparr>bm_cacheStatus = None, bm_cacheAgeMs = None,
                            bm_cacheExpiresInMs = None,
                            bm_responseTimeMs = Some (fe_finished env - fc_started call),
                            bm_requestId = fc_correlationId call,
                            bm_frozenSnapshot = None, bm_freezeReason = None\<rparr>\<rparr>))"

text \<open>The spread \<^verbatim>\<open>...payload.metadata\<close> of a metadata object that may be absent.\<close>

definition empty_body_metadata :: BodyMetadata where
  "empty_body_metadata =
     \<lparr>bm_cacheStatus = None, bm_cacheAgeMs = None, bm_cacheExpiresInMs = None,
      bm_responseTimeMs = None, bm_requestId = None, bm_frozenSnapshot = None,
      bm_freezeReason = None\<rparr>"

definition spread_metadata :: "BodyEphemerisPayload \<Rightarrow> BodyMetadata" where
  "spread_metadata payload =
     (case bp_metadata payload of Some m \<Rightarrow> m | None \<Rightarrow> empty_body_metadata)"

record body_options =
  bo_id :: string
  bo_forceRefresh :: bool
  bo_correlationId :: "string option"

record body_config =
  BODY_CACHE_TTL_MS :: ms

definition decorate_hit :: "body_options \<Rightarrow> ms \<Rightarrow> CacheEntry \<Rightarrow> BodyEphemerisPayload" where
  "decorate_hit opts now cached =
     (ce_payload cached)\<lparr>bp_metadata := Some ((spread_metadata (ce_payload cached))
        \<lparr>bm_cacheStatus := Some BodyHIT,
         bm_cacheAgeMs := Some (now - ce_cachedAt cached),
         bm_cacheExpiresInMs := Some (max 0 (ce_expiresAt cached - now)),
         bm_requestId :=
           (case bo_correlationId opts of
              Some c \<Rightarrow> Some c
            | None \<Rightarrow> bm_requestId (spread_metadata (ce_payload cached)))\<rparr>)\<rparr>"

definition decorate_miss :: "body_config \<Rightarrow> BodyEphemerisPayload \<Rightarrow> BodyEphemerisPayload" where
  "decorate_miss bcfg payload =
     payload\<lparr>bp_metadata := Some ((spread_metadata payload)
        \<lparr>bm_cacheStatus := Some BodyMISS,
         bm_cacheAgeMs := Some 0,
         bm_cacheExpiresInMs := Some (BODY_CACHE_TTL_MS bcfg)\<rparr>)\<rparr>"

definition decorate_frozen ::
  "body_options \<Rightarrow> ms \<Rightarrow> js_error \<Rightarrow> CacheEntry \<Rightarrow> BodyEphemerisPayload" where
  "decorate_frozen opts now err cached =
     (ce_payload cached)\<lparr>bp_metadata := Some ((spread_metadata (ce_payload cached))
        \<lparr>bm_cacheStatus := Some BodyFROZEN,
         bm_cacheAgeMs := Some (now - ce_cachedAt cached),
         bm_cacheExpiresInMs := Some 0,
         bm_frozenSnapshot := Some True,
         bm_freezeReason :=
           Some (case message err of
                   Some m \<Rightarrow> m | None \<Rightarrow> ''Erreur inconnue lors du fetch Horizons''),
         bm_requestId :=
           (case bo_correlationId opts of
              Some c \<Rightarrow> Some c
            | None \<Rightarrow> bm_requestId (spread_metadata (ce_payload cached)))\<rparr>)\<rparr>"

text \<open>
  \<^verbatim>\<open>getBodyEphemeris\<close> either returns at once, or awaits the promise already in flight
  (line 124, outside any \<^verbatim>\<open>try\<close>), or awaits the promise it has just made (line 161,
  inside the \<^verbatim>\<open>try\<close>).
\<close>

datatype body_progress = BodyReturned BodyEphemerisPayload | AwaitExisting nat | AwaitOwn nat

text \<open>
  \<^verbatim>\<open>getBodyEphemeris\<close> up to its return or its \<^verbatim>\<open>await\<close>: \<open>now\<close> is the clock read at
  line 103, \<open>lookup_clock\<close> the one read inside \<^verbatim>\<open>getFromCache\<close>, \<open>fetch_clock\<close> the one
  read by \<^verbatim>\<open>fetchFresh\<close>.
\<close>

definition start_fetch :: "body_options \<Rightarrow> ms \<Rightarrow> body_state \<Rightarrow> body_progress \<times> body_state" where
  "start_fetch opts fetch_clock s =
     (case inflight s (bo_id opts) of
        Some existing \<Rightarrow> (AwaitExisting existing, s)
      | None \<Rightarrow>
          (let (p, s1) = fetchFresh_call (bo_id opts) (bo_correlationId opts) fetch_clock s
           in (AwaitOwn p, s1\<lparr>inflight := (inflight s1)(bo_id opts \<mapsto> p)\<rparr>)))"

definition getBodyEphemeris_begin ::
  "body_options \<Rightarrow> ms \<Rightarrow> ms \<Rightarrow> ms \<Rightarrow> body_state \<Rightarrow> body_progress \<times> body_state" where
  "getBodyEphemeris_begin opts now lookup_clock fetch_clock s =
     (if \<not> bo_forceRefresh opts then
        (case getFromCache lookup_clock (bo_id opts) s of
           (Some cached, s1) \<Rightarrow> (BodyReturned (decorate_hit opts now cached), s1)
         | (None, s1) \<Rightarrow> start_fetch opts fetch_clock s1)
      else start_fetch opts fetch_clock s)"

text \<open>
  The handlers chained on \<^verbatim>\<open>fetchFresh(...)\<close>: \<^verbatim>\<open>then\<close> stores the entry, \<^verbatim>\<open>catch\<close> logs
  and rethrows, \<^verbatim>\<open>finally\<close> clears the in-flight slot.
\<close>

definition settle_fetch ::
  "body_config \<Rightarrow> nat \<Rightarrow> FetchEnv \<Rightarrow> body_state \<Rightarrow> (js_error + BodyEphemerisPayload) \<times> body_state" where
  "settle_fetch bcfg p env s =
     (let call = fetches s ! p;
          bid = fc_id call;
          outcome = fetchFresh_result call env;
          s1 = (case outcome of
                  Inr payload \<Rightarrow>
                    body_log Info ''body_ephemeris_refresh''
                      (s\<lparr>cache := (cache s)(bid \<mapsto>
                           \<lparr>ce_payload = payload, ce_cachedAt = fe_cachedAt env,
                            ce_expiresAt = fe_expiresFrom env + BODY_CACHE_TTL_MS bcfg\<rparr>)\<rparr>)
                | Inl err \<Rightarrow> body_log Err ''body_ephemeris_refresh_failed'' s)
      in (outcome, s1\<lparr>inflight := (inflight s1)(bid := None),
                       fetches_settled := p # fetches_settled s1\<rparr>))"

text \<open>
  \<^verbatim>\<open>getBodyEphemeris\<close> from the settlement of the awaited promise on. A caller that
  joined a promise in flight has no \<^verbatim>\<open>catch\<close>; the caller that made the promise has.
\<close>

definition getBodyEphemeris_resume ::
  "body_config \<Rightarrow> body_options \<Rightarrow> ms \<Rightarrow> bool \<Rightarrow> (js_error + BodyEphemerisPayload) \<Rightarrow> body_state
     \<Rightarrow> (js_error + BodyEphemerisPayload) \<times> body_state" where
  "getBodyEphemeris_resume bcfg opts now own outcome s =
     (case outcome of
        Inr payload \<Rightarrow> (Inr (decorate_miss bcfg payload), s)
      | Inl err \<Rightarrow>
          (if own then
             (case cache s (bo_id opts) of
                Some cached \<Rightarrow>
                  (Inr (decorate_frozen opts now err cached),
                   body_log Warn ''body_ephemeris_frozen'' s)
              | None \<Rightarrow> (Inl err, s))
           else (Inl err, s)))"

subsection \<open>The event machine of the single-body cache\<close>

record BodyWaiter =
  bw_promise :: nat
  bw_caller :: nat
  bw_options :: body_options
  bw_now :: ms
  bw_own :: bool

type_synonym body_response = "nat \<times> (js_error + BodyEphemerisPayload)"

record body_system =
  bs_state :: body_state
  bs_waiting :: "BodyWaiter list"
  bs_responses :: "body_response list"
  bs_callers :: nat

datatype body_event = BodyRequest body_options ms ms ms | BodySettle nat FetchEnv

definition initial_body_system :: body_system where
  "initial_body_system =
     \<lparr>bs_state = initial_body_state, bs_waiting = [], bs_responses = [], bs_callers = 0\<rparr>"

fun body_resume_all ::
  "body_config \<Rightarrow> (js_error + BodyEphemerisPayload) \<Rightarrow> BodyWaiter list \<Rightarrow> body_state
     \<Rightarrow> body_response list \<times> body_state" where
  "body_resume_all bcfg outcome [] s = ([], s)"
| "body_resume_all bcfg outcome (w # ws) s =
     (let (r, s1) = getBodyEphemeris_resume bcfg (bw_options w) (bw_now w) (bw_own w) outcome s;
          (rs, s2) = body_resume_all bcfg outcome ws s1
      in ((bw_caller w, r) # rs, s2))"

definition fetch_pending :: "body_state \<Rightarrow> nat \<Rightarrow> bool" where
  "fetch_pending s p = (p < length (fetches s) \<and> p \<notin> set (fetches_settled s))"

fun body_step :: "body_config \<Rightarrow> body_event \<Rightarrow> body_system \<Rightarrow> body_system" where
  "body_step bcfg (BodyRequest opts now lookup_clock fetch_clock) sys =
     (case getBodyEphemeris_begin opts now lookup_clock fetch_clock (bs_state sys) of
        (BodyReturned r, s1) \<Rightarrow>
          sys\<lparr>bs_state := s1, bs_responses := bs_responses sys @ [(bs_callers sys, Inr r)],
              bs_callers := bs_callers sys + 1\<rparr>
      | (AwaitExisting p, s1) \<Rightarrow>
          sys\<lparr>bs_state := s1,
              bs_waiting := bs_waiting sys @
                [\<lparr>bw_promise = p, bw_caller = bs_callers sys, bw_options = opts, bw_now = now,
                  bw_own = False\<rparr>],
              bs_callers := bs_callers sys + 1\<rparr>
      | (AwaitOwn p, s1) \<Rightarrow>
          sys\<lparr>bs_state := s1,
              bs_waiting := bs_waiting sys @
                [\<lparr>bw_promise = p, bw_caller = bs_callers sys, bw_options = opts, bw_now = now,
                  bw_own = True\<rparr>],
              bs_callers := bs_callers sys + 1\<rparr>)"
| "body_step bcfg (BodySettle p env) sys =
     (if fetch_pending (bs_state sys) p then
        (let (outcome, s1) = settle_fetch bcfg p env (bs_state sys);
             (rs, s2) = body_resume_all bcfg outcome
                          (filter (\<lambda>w. bw_promise w = p) (bs_waiting sys)) s1
         in sys\<lparr>bs_state := s2,
                bs_waiting := filter (\<lambda>w. bw_promise w \<noteq> p) (bs_waiting sys),
                bs_responses := bs_responses sys @ rs\<rparr>)
      else sys)"

definition body_run :: "body_config \<Rightarrow> body_event list \<Rightarrow> body_system \<Rightarrow> body_system" where
  "body_run bcfg evs sys = fold (body_step bcfg) evs sys"


section \<open>Example inputs\<close>

text \<open>
  Concrete inputs on which the theorems below are exercised: the configuration of the
  specification's example (a TTL of 120 s and a stale window of 60 s), without and
  with a shared store, and a table of two tracked bodies.
\<close>

definition example_cfg :: config where
  "example_cfg =
     \<lparr>CACHE_TTL_MS = 120000, STALE_WHILE_REVALIDATE_MS = 60000, PREWARM_INTERVAL_MS = 96000,
      redis_client = False,
      PLANETS = [\<lparr>pc_name = ''Earth'', pc_horizonsId = ''399''\<rparr>,
                 \<lparr>pc_name = ''Mars'', pc_horizonsId = ''499''\<rparr>]\<rparr>"

definition example_redis_cfg :: config where
  "example_redis_cfg = example_cfg\<lparr>redis_client := True\<rparr>"

definition no_observer :: ObserverGeometry where
  "no_observer =
     \<lparr>range_au = None, range_rate_km_s = None, light_time_minutes = None,
      solar_elongation_deg = None, phase_angle_deg = None, illumination_fraction = None,
      apparent_magnitude = None\<rparr>"

definition example_vector :: "string \<Rightarrow> StateVector" where
  "example_vector n =
     \<lparr>sv_name = n, sv_x_au = 1, sv_y_au = 0, sv_z_au = 0,
      sv_vx_au_per_day = None, sv_vy_au_per_day = None, sv_vz_au_per_day = None,
      sv_velocityUnit = Some ''AU/day'', sv_referenceFrame = Some ''J2000-ECLIPTIC'',
      sv_source = Some ''NASA-JPL-Horizons'', sv_timestamp = Some (Text ''2026-01-01''),
      sv_observer = no_observer\<rparr>"

definition empty_metadata :: SnapshotMetadata where
  "empty_metadata =
     \<lparr>md_source = None, md_referenceFrame = None, md_distanceUnit = None,
      md_velocityUnit = None, md_responseTimeMs = None, md_cacheStatus = None,
      md_cacheBackend = None, md_cacheAgeMs = None, md_cacheExpiresInMs = None,
      md_cacheStale = None, md_generatedAt = None, md_frozenSnapshot = None,
      md_freezeReason = None, md_requestId = None, md_partial = None,
      md_fallbackBodies = None, md_missingBodies = None\<rparr>"

text \<open>The body that a snapshot lists for an earlier answer of the upstream.\<close>

definition example_body :: "string \<Rightarrow> EphemerisBody" where
  "example_body n =
     \<lparr>eb_name = n, eb_x_au = 1, eb_y_au = 0, eb_z_au = 0,
      eb_vx = None, eb_vy = None, eb_vz = None,
      eb_velocityUnit = Some ''AU/day'', eb_timestamp = Some (Text ''2026-01-01''),
      eb_observer = no_observer\<rparr>"

definition example_snapshot :: EphemerisSnapshot where
  "example_snapshot =
     \<lparr>es_timestamp = Text ''2026-01-01'', es_metadata = empty_metadata,
      es_bodies = [example_body ''Earth'']\<rparr>"

definition example_record :: CacheRecord where
  "example_record =
     \<lparr>cr_payload = 0, cr_cachedAt = 0, cr_expiresAt = 120000, cr_staleUntil = 180000\<rparr>"

text \<open>A state whose vectors-only slot holds a record captured at instant 0.\<close>

definition example_state :: state where
  "example_state =
     initial_state\<lparr>heap := [example_snapshot],
                   memoryCache := (\<lambda>_. None)(StateVectors \<mapsto> example_record)\<rparr>"

definition example_opts :: options where
  "example_opts = \<lparr>forceRefresh = False, correlationId = Some ''req-1'', includeObserver = False\<rparr>"

text \<open>An upstream that answers for every body, and one that fails for every body.\<close>

definition upstream_up :: "string \<Rightarrow> string \<Rightarrow> fetch_outcome" where
  "upstream_up horizonsId n = Fulfilled (example_vector n)"

definition upstream_down :: "string \<Rightarrow> string \<Rightarrow> fetch_outcome" where
  "upstream_down horizonsId n = Rejected (JsError (Some ''timeout''))"

definition example_env :: RefreshEnv where
  "example_env =
     \<lparr>env_get = GetNil, env_fetch = upstream_up, env_started = 1000, env_fetched = 1400,
      env_today = 1400, env_now = 1500, env_set = SetOk\<rparr>"

definition example_call :: RefreshCall where
  "example_call = \<lparr>rc_reason = ''miss'', rc_correlationId = Some ''req-1'', rc_mode = StateVectors\<rparr>"

text \<open>A record as another process left it in the shared store.\<close>

definition example_stored :: StoredRecord where
  "example_stored =
     \<lparr>st_payload = example_snapshot, st_cachedAt = 5000, st_expiresAt = 125000,
      st_staleUntil = 185000\<rparr>"

text \<open>
  An upstream that answers for Mars only, with a full vector, and the body that a
  snapshot is to list for that answer.
\<close>

definition mars_vector :: StateVector where
  "mars_vector =
     \<lparr>sv_name = ''Mars'', sv_x_au = 3 / 2, sv_y_au = - 1 / 4, sv_z_au = 1 / 8,
      sv_vx_au_per_day = Some (1 / 100), sv_vy_au_per_day = Some (1 / 50),
      sv_vz_au_per_day = Some (- 1 / 1000),
      sv_velocityUnit = Some ''AU/day'', sv_referenceFrame = Some ''J2000-ECLIPTIC'',
      sv_source = Some ''NASA-JPL-Horizons'', sv_timestamp = Some (Text ''2026-01-02''),
      sv_observer =
        \<lparr>range_au = Some 2, range_rate_km_s = Some (- 5), light_time_minutes = Some 17,
         solar_elongation_deg = Some 40, phase_angle_deg = Some 25,
         illumination_fraction = Some (9 / 10), apparent_magnitude = Some (3 / 2)\<rparr>\<rparr>"

definition mars_body :: EphemerisBody where
  "mars_body =
     \<lparr>eb_name = ''Mars'', eb_x_au = 3 / 2, eb_y_au = - 1 / 4, eb_z_au = 1 / 8,
      eb_vx = Some (1 / 100), eb_vy = Some (1 / 50), eb_vz = Some (- 1 / 1000),
      eb_velocityUnit = Some ''AU/day'', eb_timestamp = Some (Text ''2026-01-02''),
      eb_observer =
        \<lparr>range_au = Some 2, range_rate_km_s = Some (- 5), light_time_minutes = Some 17,
         solar_elongation_deg = Some 40, phase_angle_deg = Some 25,
         illumination_fraction = Some (9 / 10), apparent_magnitude = Some (3 / 2)\<rparr>\<rparr>"

definition upstream_partial :: "string \<Rightarrow> string \<Rightarrow> fetch_outcome" where
  "upstream_partial horizonsId n =
     (if n = ''Mars'' then Fulfilled mars_vector else Rejected (JsError (Some ''timeout'')))"

text \<open>An outage: the upstream fails for every body and the shared store's read fails.\<close>

definition outage_env :: RefreshEnv where
  "outage_env =
     example_env\<lparr>env_get := GetError (JsError (Some ''ECONNRESET'')), env_fetch := upstream_down\<rparr>"

text \<open>Inputs for the single-body cache.\<close>

definition example_bcfg :: body_config where
  "example_bcfg = \<lparr>BODY_CACHE_TTL_MS = 60000\<rparr>"

definition moon_request :: "bool \<Rightarrow> string \<Rightarrow> body_options" where
  "moon_request force rid = \<lparr>bo_id = ''moon'', bo_forceRefresh = force, bo_correlationId = Some rid\<rparr>"

definition fetch_ok :: "ms \<Rightarrow> FetchEnv" where
  "fetch_ok t =
     \<lparr>fe_outcome = Fulfilled (example_vector ''Lune''), fe_finished = t, fe_today = t,
      fe_cachedAt = t, fe_expiresFrom = t\<rparr>"

definition fetch_failed :: "ms \<Rightarrow> FetchEnv" where
  "fetch_failed t =
     \<lparr>fe_outcome = Rejected (JsError (Some ''timeout'')), fe_finished = t, fe_today = t,
      fe_cachedAt = t, fe_expiresFrom = t\<rparr>"

text \<open>A first call for the Moon at instant 0, answered at 100: the entry expires at 60100.\<close>

definition moon_cached :: body_system where
  "moon_cached =
     body_run example_bcfg
       [BodyRequest (moon_request False ''req-1'') 0 0 0, BodySettle 0 (fetch_ok 100)]
       initial_body_system"

definition moon_payload :: BodyEphemerisPayload where
  "moon_payload =
     \<lparr>bp_id = ''moon'', bp_timestamp = Text ''2026-01-01'', bp_x_au = 1, bp_y_au = 0, bp_z_au = 0,
      bp_vx = None, bp_vy = None, bp_vz = None, bp_velocityUnit = Some ''AU/day'',
      bp_referenceFrame = Some ''J2000-ECLIPTIC'', bp_source = Some ''NASA-JPL-Horizons'',
      bp_observer = no_observer,
      bp_metadata = Some (empty_body_metadata\<lparr>bm_responseTimeMs := Some 100,
                                               bm_requestId := Some ''req-1''\<rparr>)\<rparr>"



text \<open>
  A refresh on the configuration with a shared store whose write is slow to be
  answered. The first call of \<^verbatim>\<open>getSnapshot\<close>, at 1000 with the correlation id \<^verbatim>\<open>req-1\<close>,
  finds nothing and starts the refresh; the store answers the cache read of the build;
  the upstream answers for both bodies and the record is written to the memory slot at
  1500 (\<open>slow_write\<close>). \<open>built_snapshot\<close> is the snapshot as built and \<open>built_record\<close> the
  record made for it. A call without a correlation id, whose cache read was sent to
  the store at 1500 ahead of the refresh's write, gets the store's answer (nothing) at
  1600 (\<open>in_window\<close>); the store acknowledges the write at 1700 (\<open>write_answered\<close>), and a
  third call at 1800 finds the store unreachable (\<open>store_down\<close>). \<open>served\<close> is the built
  snapshot with the cache fields of a decoration.
\<close>

definition built_snapshot :: EphemerisSnapshot where
  "built_snapshot =
     \<lparr>es_timestamp = Text ''2026-01-01'',
      es_metadata = empty_metadata
        \<lparr>md_source := Some ''NASA-JPL-Horizons'', md_referenceFrame := Some ''J2000-ECLIPTIC'',
         md_distanceUnit := Some ''AU'', md_velocityUnit := Some ''AU/day'',
         md_responseTimeMs := Some 400, md_partial := Some False\<rparr>,
      es_bodies = [example_body ''Earth'', example_body ''Mars'']\<rparr>"

definition built_record :: CacheRecord where
  "built_record =
     \<lparr>cr_payload = 0, cr_cachedAt = 1500, cr_expiresAt = 121500, cr_staleUntil = 181500\<rparr>"

definition no_id :: options where
  "no_id = \<lparr>forceRefresh = False, correlationId = None, includeObserver = False\<rparr>"

definition slow_write :: "event list" where
  "slow_write =
     [Request example_opts 1000 GetNil 1000, RefreshRead 0 GetNil,
      RefreshFetched 0 example_env 1500]"

definition served ::
  "string \<Rightarrow> ms \<Rightarrow> ms \<Rightarrow> ms \<Rightarrow> string option \<Rightarrow> EphemerisSnapshot" where
  "served status age remaining generated requestId =
     built_snapshot\<lparr>es_metadata := (es_metadata built_snapshot)
       \<lparr>md_cacheStatus := Some status, md_cacheBackend := Some Redis,
        md_cacheAgeMs := Some age, md_cacheExpiresInMs := Some remaining,
        md_cacheStale := Some False, md_generatedAt := Some (IsoOf generated),
        md_requestId := requestId\<rparr>\<rparr>"

definition in_window :: "event list" where
  "in_window = [Request no_id 1500 GetNil 1600]"

definition write_answered :: "event list" where
  "write_answered = [RefreshWritten 0 SetOk 1700]"

definition store_down :: "event list" where
  "store_down = [Request no_id 1800 (GetError (JsError (Some ''ECONNRESET''))) 1800]"

text \<open>
  A record that reaches the memory slot while a refresh is under way. A forced call at
  10000 starts the refresh, whose cache read fails at the store and finds the memory
  slot empty; a second call at 11000 is answered by the store with the record of
  \<open>example_stored\<close>, which \<^verbatim>\<open>readCache\<close> writes through to the memory slot; then the
  upstream fails for every body.
\<close>

definition late_record :: "event list" where
  "late_record =
     [Request \<lparr>forceRefresh = True, correlationId = Some ''req-1'', includeObserver = False\<rparr>
        10000 GetNil 10000,
      RefreshRead 0 (GetError (JsError (Some ''ECONNRESET''))),
      Request no_id 11000 (GetRaw example_stored) 11000,
      RefreshFetched 0 (example_env\<lparr>env_fetch := upstream_down\<rparr>) 12000]"


section \<open>Vocabulary of the properties\<close>

text \<open>
  The outcome of a build as the specification words it, body by body: a fetched body
  contributes its vector, that is the name the upstream answered with, the position,
  the velocity, the velocity unit, the timestamp and the seven observer-geometry values
  of the answer; a failed one contributes the previous snapshot's value when there is
  one and its name to the fallback list, or else its name to the missing list.
\<close>

definition spec_bodies ::
  "(string \<Rightarrow> EphemerisBody option) \<Rightarrow> (PlanetConfig \<times> fetch_outcome) list \<Rightarrow> EphemerisBody list" where
  "spec_bodies fb results =
     concat (map (\<lambda>(c, res). case res of
                     Fulfilled r \<Rightarrow>
                       [\<lparr>eb_name = sv_name r,
                         eb_x_au = sv_x_au r, eb_y_au = sv_y_au r, eb_z_au = sv_z_au r,
                         eb_vx = sv_vx_au_per_day r, eb_vy = sv_vy_au_per_day r,
                         eb_vz = sv_vz_au_per_day r,
                         eb_velocityUnit = sv_velocityUnit r,
                         eb_timestamp = sv_timestamp r,
                         eb_observer =
                           \<lparr>range_au = range_au (sv_observer r),
                            range_rate_km_s = range_rate_km_s (sv_observer r),
                            light_time_minutes = light_time_minutes (sv_observer r),
                            solar_elongation_deg = solar_elongation_deg (sv_observer r),
                            phase_angle_deg = phase_angle_deg (sv_observer r),
                            illumination_fraction = illumination_fraction (sv_observer r),
                            apparent_magnitude = apparent_magnitude (sv_observer r)\<rparr>\<rparr>]
                   | Rejected e \<Rightarrow> (case fb (pc_name c) of Some b \<Rightarrow> [b] | None \<Rightarrow> []))
               results)"

definition spec_fallbackBodies ::
  "(string \<Rightarrow> EphemerisBody option) \<Rightarrow> (PlanetConfig \<times> fetch_outcome) list \<Rightarrow> string list" where
  "spec_fallbackBodies fb results =
     map (\<lambda>(c, res). pc_name c)
       (filter (\<lambda>(c, res). case res of
                   Fulfilled r \<Rightarrow> False
                 | Rejected e \<Rightarrow> (case fb (pc_name c) of Some b \<Rightarrow> True | None \<Rightarrow> False))
          results)"

definition spec_missingBodies ::
  "(string \<Rightarrow> EphemerisBody option) \<Rightarrow> (PlanetConfig \<times> fetch_outcome) list \<Rightarrow> string list" where
  "spec_missingBodies fb results =
     map (\<lambda>(c, res). pc_name c)
       (filter (\<lambda>(c, res). case res of
                   Fulfilled r \<Rightarrow> False
                 | Rejected e \<Rightarrow> (case fb (pc_name c) of Some b \<Rightarrow> False | None \<Rightarrow> True))
          results)"

text \<open>The bodies of the previous snapshot that a build reads.\<close>

definition previous_bodies :: "state \<Rightarrow> CacheRecord option \<Rightarrow> EphemerisBody list" where
  "previous_bodies s cached =
     (case cached of Some c \<Rightarrow> es_bodies (heap s ! cr_payload c) | None \<Rightarrow> [])"

text \<open>
  A result is the frozen copy of a stored snapshot: state FROZEN, the age since the
  record was captured, the stored bodies and timestamp, and the frozen markers with a
  non-empty freeze reason.
\<close>

definition frozen_copy ::
  "ms \<Rightarrow> CacheRecord \<Rightarrow> EphemerisSnapshot \<Rightarrow> EphemerisSnapshot SnapshotResult \<Rightarrow> bool" where
  "frozen_copy now c stored r =
     (sr_cacheState r = FROZEN
      \<and> sr_cacheAgeMs r = now - cr_cachedAt c
      \<and> es_bodies (sr_payload r) = es_bodies stored
      \<and> es_timestamp (sr_payload r) = es_timestamp stored
      \<and> md_cacheStatus (es_metadata (sr_payload r)) = Some ''FROZEN''
      \<and> md_cacheAgeMs (es_metadata (sr_payload r)) = Some (now - cr_cachedAt c)
      \<and> md_cacheStale (es_metadata (sr_payload r)) = Some True
      \<and> md_cacheExpiresInMs (es_metadata (sr_payload r)) = Some 0
      \<and> md_frozenSnapshot (es_metadata (sr_payload r)) = Some True
      \<and> (case md_freezeReason (es_metadata (sr_payload r)) of
            Some reason \<Rightarrow> 0 < length reason
          | None \<Rightarrow> False))"

text \<open>
  Well-formed states of the single-body machine: settled promises have been made; the
  in-flight slot of a body holds exactly the one pending fetch of that body; callers
  wait on pending fetches of their own body.
\<close>

definition wf_body :: "body_system \<Rightarrow> bool" where
  "wf_body sys =
     ((\<forall>p \<in> set (fetches_settled (bs_state sys)). p < length (fetches (bs_state sys)))
      \<and> (\<forall>b p. inflight (bs_state sys) b = Some p \<longrightarrow>
             fetch_pending (bs_state sys) p \<and> fc_id (fetches (bs_state sys) ! p) = b)
      \<and> (\<forall>p. fetch_pending (bs_state sys) p \<longrightarrow>
             inflight (bs_state sys) (fc_id (fetches (bs_state sys) ! p)) = Some p)
      \<and> (\<forall>w \<in> set (bs_waiting sys).
             fetch_pending (bs_state sys) (bw_promise w)
             \<and> fc_id (fetches (bs_state sys) ! bw_promise w) = bo_id (bw_options w)))"

text \<open>
  A caller waits on the pending fetch \<open>p\<close> of body \<open>b\<close> while the cache holds no entry
  for \<open>b\<close>.
\<close>

definition uncached_wait :: "body_system \<Rightarrow> nat \<Rightarrow> nat \<Rightarrow> string \<Rightarrow> bool" where
  "uncached_wait sys caller p b =
     (wf_body sys
      \<and> fetch_pending (bs_state sys) p
      \<and> fc_id (fetches (bs_state sys) ! p) = b
      \<and> cache (bs_state sys) b = None
      \<and> (\<exists>w \<in> set (bs_waiting sys). bw_caller w = caller \<and> bw_promise w = p))"









section \<open>The functions run in one piece\<close>

text \<open>
  The composition of the pieces of each async function, written out: the call during
  whose awaits nothing else touches the module state.
\<close>

lemma writeCache_unfold:
  "writeCache cfg reply record backend mode s =
     (let s1 = s\<lparr>memoryCache := (memoryCache s)(mode \<mapsto> record)\<rparr>
      in if redis_client cfg \<and> backend = Redis then
           (case reply of
              SetOk \<Rightarrow>
                s1\<lparr>redis_sets := redis_sets s1 @
                  [\<lparr>rs_key = CACHE_KEY_BY_MODE mode, rs_value = JSON_stringify s1 record,
                    rs_PX = cr_staleUntil record - cr_cachedAt record\<rparr>]\<rparr>
            | SetError err \<Rightarrow> logWarn ''redis_write_failed'' s1)
         else s1)"
  by (simp add: writeCache_def writeCache_begin_def writeCache_end_def Let_def
      split: redis_set.splits)

lemma buildPlanetSnapshot_unfold:
  "buildPlanetSnapshot cfg env cid obs s =
     (let (cached, s1) = readCache cfg (env_get env) (if obs then Full else StateVectors) s;
          cachedPayload = map_option (\<lambda>c. heap s1 ! cr_payload c) cached;
          fallbackBodies =
            fallbackBodies_of (case cachedPayload of Some p \<Rightarrow> es_bodies p | None \<Rightarrow> []);
          results = fetch_all cfg env;
          latencyMs = env_fetched env - env_started env;
          cachedMeta = map_option es_metadata cachedPayload;
          acc0 = \<lparr>acc_bodies = [], acc_usedFallback = [], acc_missing = [], acc_timestamps = [],
                  acc_referenceFrame =
                    (case Option.bind cachedMeta md_referenceFrame of
                       Some f \<Rightarrow> f | None \<Rightarrow> ''J2000-ECLIPTIC''),
                  acc_velocityUnit =
                    (case Option.bind cachedMeta md_velocityUnit of
                       Some u \<Rightarrow> u | None \<Rightarrow> ''AU/day''),
                  acc_warnings = []\<rparr>;
          acc = process_results fallbackBodies results acc0;
          s2 = s1\<lparr>logs := logs s1 @ map (Pair Warn) (acc_warnings acc)\<rparr>
      in if acc_bodies acc = [] then (Inl no_data_error, s2)
         else
           (let timestamp =
                  (case acc_timestamps acc of
                     t # _ \<Rightarrow> t
                   | [] \<Rightarrow> (case cachedPayload of
                              Some p \<Rightarrow> es_timestamp p | None \<Rightarrow> IsoOf (env_today env)));
                (a, s3) = alloc
                  \<lparr>es_timestamp = timestamp,
                   es_metadata =
                     \<lparr>md_source = Some ''NASA-JPL-Horizons'',
                      md_referenceFrame = Some (acc_referenceFrame acc),
                      md_distanceUnit = Some ''AU'',
                      md_velocityUnit = Some (acc_velocityUnit acc),
                      md_responseTimeMs = Some latencyMs,
                      md_cacheStatus = None, md_cacheBackend = None, md_cacheAgeMs = None,
                      md_cacheExpiresInMs = None, md_cacheStale = None, md_generatedAt = None,
                      md_frozenSnapshot = None, md_freezeReason = None, md_requestId = None,
                      md_partial = Some (0 < length (acc_usedFallback acc) \<or> 0 < length (acc_missing acc)),
                      md_fallbackBodies = nonempty_or_undefined (acc_usedFallback acc),
                      md_missingBodies = nonempty_or_undefined (acc_missing acc)\<rparr>,
                   es_bodies = acc_bodies acc\<rparr> s2
            in (Inr a, s3)))"
  by (simp add: buildPlanetSnapshot_def buildPlanetSnapshot_read_def
        buildPlanetSnapshot_rest_def Let_def split: prod.splits)

lemma refreshSnapshot_unfold:
  "refreshSnapshot cfg env call s =
     (let backend = backend_of cfg
      in case buildPlanetSnapshot cfg env (rc_correlationId call) (rc_mode call = Full) s of
           (Inl err, s1) \<Rightarrow> (Inl err, s1)
         | (Inr payload, s1) \<Rightarrow>
             (let now = env_now env;
                  record = \<lparr>cr_payload = payload, cr_cachedAt = now,
                            cr_expiresAt = now + CACHE_TTL_MS cfg,
                            cr_staleUntil = now + CACHE_TTL_MS cfg + STALE_WHILE_REVALIDATE_MS cfg\<rparr>;
                  s2 = writeCache cfg (env_set env) record backend (rc_mode call) s1;
                  cacheAgeMs = 0;
                  old = heap s2 ! payload;
                  s3 = s2\<lparr>heap := (heap s2)[payload := old\<lparr>es_metadata := (es_metadata old)
                         \<lparr>md_cacheStatus := Some ''MISS'',
                          md_cacheBackend := Some backend,
                          md_cacheAgeMs := Some cacheAgeMs,
                          md_cacheExpiresInMs := Some (CACHE_TTL_MS cfg),
                          md_cacheStale := Some False,
                          md_generatedAt := Some (IsoOf now),
                          md_requestId := rc_correlationId call\<rparr>\<rparr>]\<rparr>;
                  s4 = logInfo ''ephemeris_refresh'' s3
              in (Inr \<lparr>sr_payload = payload, sr_cacheState = MISS, sr_cacheBackend = backend,
                       sr_cacheAgeMs = cacheAgeMs\<rparr>, s4)))"
  by (simp add: refreshSnapshot_def refreshSnapshot_store_def refreshSnapshot_finish_def
        writeCache_def Let_def split: prod.splits sum.splits)

lemma getSnapshot_resume_unfold:
  "getSnapshot_resume cfg opts now outcome reply clock s =
     (let mode = mode_of opts;
          backend = backend_of cfg
      in case outcome of
           Inr result \<Rightarrow>
             (let stored = heap s ! sr_payload result;
                  payload = decoratePayloadMetadata cfg clock stored (sr_cacheState result)
                    (sr_cacheBackend result) (sr_cacheAgeMs result)
                    (case correlationId opts of
                       Some c \<Rightarrow> Some c | None \<Rightarrow> md_requestId (es_metadata stored))
              in (Inr \<lparr>sr_payload = payload, sr_cacheState = sr_cacheState result,
                       sr_cacheBackend = sr_cacheBackend result,
                       sr_cacheAgeMs = sr_cacheAgeMs result\<rparr>, s))
         | Inl err \<Rightarrow>
             (let (cached, s1) =
                    (case memoryCache s mode of
                       Some c \<Rightarrow> (Some c, s) | None \<Rightarrow> readCache cfg reply mode s)
              in case cached of
                   Some c \<Rightarrow>
                     (let cacheAgeMs = now - cr_cachedAt c;
                          payload = decoratePayloadMetadata cfg clock (heap s1 ! cr_payload c)
                            FROZEN backend cacheAgeMs (correlationId opts);
                          payload' = payload\<lparr>es_metadata := (es_metadata payload)
                            \<lparr>md_cacheStale := Some True,
                             md_cacheExpiresInMs := Some 0,
                             md_frozenSnapshot := Some True,
                             md_freezeReason :=
                               Some (case message err of
                                       Some m \<Rightarrow> m
                                     | None \<Rightarrow> ''Erreur inconnue lors du fetch Horizons''),
                             md_requestId := correlationId opts\<rparr>\<rparr>;
                          s2 = logWarn ''ephemeris_snapshot_frozen'' s1
                      in (Inr \<lparr>sr_payload = payload', sr_cacheState = FROZEN,
                               sr_cacheBackend = backend, sr_cacheAgeMs = cacheAgeMs\<rparr>, s2))
                 | None \<Rightarrow> (Inl err, logError ''ephemeris_refresh_failed'' s1)))"
  by (simp add: getSnapshot_resume_def getSnapshot_settled_def getSnapshot_store_read_def
        getSnapshot_frozen_def readCache_def Let_def
      split: prod.splits sum.splits option.splits)

section \<open>The freshness window of the snapshot cache\<close>






section \<open>What a refresh leaves behind\<close>

lemma readCache_heap_prefix:
  "readCache cfg reply mode s = (c, s1) \<Longrightarrow> \<exists>ys. heap s1 = heap s @ ys"
  by (auto simp add: readCache_def JSON_parse_def alloc_def logWarn_def Let_def
      split: if_splits redis_get.splits)

lemma readCache_frame:
  "readCache cfg reply mode s = (c, s1) \<Longrightarrow>
     redis_sets s1 = redis_sets s \<and> started s1 = started s \<and> settled s1 = settled s
     \<and> inflightByMode s1 = inflightByMode s"
  by (auto simp add: readCache_def JSON_parse_def alloc_def logWarn_def Let_def
      split: if_splits redis_get.splits)

lemma readCache_slots:
  "readCache cfg reply mode s = (c, s1) \<Longrightarrow>
     memoryCache s1 m = memoryCache s m \<or>
     (\<exists>r. memoryCache s1 m = Some r \<and> length (heap s) \<le> cr_payload r)"
  by (auto simp add: readCache_def JSON_parse_def alloc_def logWarn_def Let_def
      split: if_splits redis_get.splits)

text \<open>What a build leaves behind: the state of its cache read, its warnings, and, when it
  succeeds, one new object.\<close>

lemma buildPlanetSnapshot_Inl:
  assumes "buildPlanetSnapshot cfg env cid obs s = (Inl err, s')"
    and "readCache cfg (env_get env) (if obs then Full else StateVectors) s = (c, s1)"
  shows "err = no_data_error \<and> heap s' = heap s1 \<and> memoryCache s' = memoryCache s1
     \<and> redis_sets s' = redis_sets s1 \<and> started s' = started s1 \<and> settled s' = settled s1
     \<and> inflightByMode s' = inflightByMode s1"
  using assms
  by (auto simp add: buildPlanetSnapshot_unfold Let_def alloc_def split: if_splits prod.splits)

lemma buildPlanetSnapshot_Inr:
  assumes "buildPlanetSnapshot cfg env cid obs s = (Inr a, s')"
    and "readCache cfg (env_get env) (if obs then Full else StateVectors) s = (c, s1)"
  shows "a = length (heap s1) \<and> length (heap s') = Suc (length (heap s1))
     \<and> (\<exists>v. heap s' = heap s1 @ [v])
     \<and> memoryCache s' = memoryCache s1
     \<and> redis_sets s' = redis_sets s1 \<and> started s' = started s1 \<and> settled s' = settled s1
     \<and> inflightByMode s' = inflightByMode s1"
  using assms
  by (auto simp add: buildPlanetSnapshot_unfold Let_def alloc_def split: if_splits prod.splits)

lemma refreshSnapshot_Inl:
  "buildPlanetSnapshot cfg env (rc_correlationId call) (rc_mode call = Full) s = (Inl err, s1)
   \<Longrightarrow> refreshSnapshot cfg env call s = (Inl err, s1)"
  by (simp add: refreshSnapshot_unfold)

lemma refreshSnapshot_Inr:
  assumes "buildPlanetSnapshot cfg env (rc_correlationId call) (rc_mode call = Full) s = (Inr a, s1)"
  shows "refreshSnapshot cfg env call s =
    (Inr \<lparr>sr_payload = a, sr_cacheState = MISS, sr_cacheBackend = backend_of cfg, sr_cacheAgeMs = 0\<rparr>,
     (let record = \<lparr>cr_payload = a, cr_cachedAt = env_now env,
                            cr_expiresAt = env_now env + CACHE_TTL_MS cfg,
                            cr_staleUntil = env_now env + CACHE_TTL_MS cfg + STALE_WHILE_REVALIDATE_MS cfg\<rparr>;
          s2 = writeCache cfg (env_set env) record (backend_of cfg) (rc_mode call) s1
      in logInfo ''ephemeris_refresh''
          (s2\<lparr>heap := (heap s2)[a := (heap s2 ! a)\<lparr>es_metadata :=
              (es_metadata (heap s2 ! a))
                 \<lparr>md_cacheStatus := Some ''MISS'', md_cacheBackend := Some (backend_of cfg),
                  md_cacheAgeMs := Some 0, md_cacheExpiresInMs := Some (CACHE_TTL_MS cfg),
                  md_cacheStale := Some False, md_generatedAt := Some (IsoOf (env_now env)),
                  md_requestId := rc_correlationId call\<rparr>\<rparr>]\<rparr>)))"
  using assms by (simp add: refreshSnapshot_unfold Let_def)

lemma refreshSnapshot_built_state:
  assumes b: "buildPlanetSnapshot cfg env (rc_correlationId call) (rc_mode call = Full) s = (Inr a, sb)"
  shows "fst (refreshSnapshot cfg env call s) =
           Inr \<lparr>sr_payload = a, sr_cacheState = MISS, sr_cacheBackend = backend_of cfg,
                sr_cacheAgeMs = 0\<rparr>"
    and "heap (snd (refreshSnapshot cfg env call s)) =
           (heap sb)[a := (heap sb ! a)\<lparr>es_metadata := (es_metadata (heap sb ! a))
                 \<lparr>md_cacheStatus := Some ''MISS'', md_cacheBackend := Some (backend_of cfg),
                  md_cacheAgeMs := Some 0, md_cacheExpiresInMs := Some (CACHE_TTL_MS cfg),
                  md_cacheStale := Some False, md_generatedAt := Some (IsoOf (env_now env)),
                  md_requestId := rc_correlationId call\<rparr>\<rparr>]"
    and "memoryCache (snd (refreshSnapshot cfg env call s)) =
           (memoryCache sb)(rc_mode call \<mapsto>
              \<lparr>cr_payload = a, cr_cachedAt = env_now env,
               cr_expiresAt = env_now env + CACHE_TTL_MS cfg,
               cr_staleUntil = env_now env + CACHE_TTL_MS cfg + STALE_WHILE_REVALIDATE_MS cfg\<rparr>)"
  by (simp_all add: refreshSnapshot_Inr [OF b] Let_def logInfo_def
        writeCache_unfold logWarn_def split: redis_set.splits)

lemma refreshSnapshot_cases:
  obtains (failed) err s1 where
      "buildPlanetSnapshot cfg env (rc_correlationId call) (rc_mode call = Full) s = (Inl err, s1)"
      "refreshSnapshot cfg env call s = (Inl err, s1)"
  | (built) a s1 where
      "buildPlanetSnapshot cfg env (rc_correlationId call) (rc_mode call = Full) s = (Inr a, s1)"
      "fst (refreshSnapshot cfg env call s) =
         Inr \<lparr>sr_payload = a, sr_cacheState = MISS, sr_cacheBackend = backend_of cfg, sr_cacheAgeMs = 0\<rparr>"
proof (cases "buildPlanetSnapshot cfg env (rc_correlationId call) (rc_mode call = Full) s")
  case (Pair r s1)
  show ?thesis
  proof (cases r)
    case (Inl err)
    with Pair failed refreshSnapshot_Inl show ?thesis by blast
  next
    case (Inr a)
    with Pair built refreshSnapshot_Inr [of cfg env call s a s1] show ?thesis by simp
  qed
qed


lemma writeCache_frame:
  "heap (writeCache cfg reply record backend mode s) = heap s
   \<and> started (writeCache cfg reply record backend mode s) = started s
   \<and> settled (writeCache cfg reply record backend mode s) = settled s
   \<and> inflightByMode (writeCache cfg reply record backend mode s) = inflightByMode s
   \<and> memoryCache (writeCache cfg reply record backend mode s) = (memoryCache s)(mode \<mapsto> record)"
  by (simp add: writeCache_unfold logWarn_def Let_def split: redis_set.splits)

lemma writeCache_redis_sets:
  "redis_sets (writeCache cfg reply record backend mode s) =
     (if redis_client cfg \<and> backend = Redis \<and> reply = SetOk
      then redis_sets s @
        [\<lparr>rs_key = CACHE_KEY_BY_MODE mode,
          rs_value = \<lparr>st_payload = heap s ! cr_payload record,
                      st_cachedAt = cr_cachedAt record, st_expiresAt = cr_expiresAt record,
                      st_staleUntil = cr_staleUntil record\<rparr>,
          rs_PX = cr_staleUntil record - cr_cachedAt record\<rparr>]
      else redis_sets s)"
  by (simp add: writeCache_unfold logWarn_def JSON_stringify_def Let_def split: redis_set.splits)

text \<open>The state that a successful refresh leaves, field by field.\<close>

lemma refreshSnapshot_success:
  assumes r: "refreshSnapshot cfg env call s = (Inr result, s')"
    and rd: "readCache cfg (env_get env) (rc_mode call) s = (c, s1)"
  shows "sr_payload result = length (heap s1)"
    and "sr_cacheState result = MISS"
    and "sr_cacheBackend result = backend_of cfg"
    and "sr_cacheAgeMs result = 0"
    and "memoryCache s' = (memoryCache s1)(rc_mode call \<mapsto>
           \<lparr>cr_payload = length (heap s1), cr_cachedAt = env_now env,
            cr_expiresAt = env_now env + CACHE_TTL_MS cfg,
            cr_staleUntil = env_now env + CACHE_TTL_MS cfg + STALE_WHILE_REVALIDATE_MS cfg\<rparr>)"
    and "length (heap s') = Suc (length (heap s1))"
    and "take (length (heap s1)) (heap s') = heap s1"
    and "started s' = started s" and "settled s' = settled s"
    and "inflightByMode s' = inflightByMode s"
proof -
  have rd': "readCache cfg (env_get env) (if rc_mode call = Full then Full else StateVectors) s
      = (c, s1)"
    using rd by (cases "rc_mode call") simp_all
  obtain a sb where b: "buildPlanetSnapshot cfg env (rc_correlationId call) (rc_mode call = Full) s
      = (Inr a, sb)"
    using r by (cases rule: refreshSnapshot_cases [of cfg env call s]) auto
  note bi = buildPlanetSnapshot_Inr [OF b rd']
  note ri = refreshSnapshot_Inr [OF b]
  note fr = readCache_frame [OF rd]
  from bi obtain v where hv: "heap sb = heap s1 @ [v]" by blast
  from r ri bi show "sr_payload result = length (heap s1)" by auto
  from r ri show "sr_cacheState result = MISS" by auto
  from r ri show "sr_cacheBackend result = backend_of cfg" by auto
  from r ri show "sr_cacheAgeMs result = 0" by auto
  from r ri bi show "memoryCache s' = (memoryCache s1)(rc_mode call \<mapsto>
           \<lparr>cr_payload = length (heap s1), cr_cachedAt = env_now env,
            cr_expiresAt = env_now env + CACHE_TTL_MS cfg,
            cr_staleUntil = env_now env + CACHE_TTL_MS cfg + STALE_WHILE_REVALIDATE_MS cfg\<rparr>)"
    by (auto simp add: Let_def logInfo_def writeCache_frame)
  from r ri bi show "length (heap s') = Suc (length (heap s1))"
    by (auto simp add: Let_def logInfo_def writeCache_frame)
  from r ri bi hv show "take (length (heap s1)) (heap s') = heap s1"
    by (auto simp add: Let_def logInfo_def writeCache_frame)
  from r ri bi fr show "started s' = started s"
    by (auto simp add: Let_def logInfo_def writeCache_frame)
  from r ri bi fr show "settled s' = settled s"
    by (auto simp add: Let_def logInfo_def writeCache_frame)
  from r ri bi fr show "inflightByMode s' = inflightByMode s"
    by (auto simp add: Let_def logInfo_def writeCache_frame)
qed




section \<open>The two backends of the snapshot cache\<close>

lemma getSnapshot_begin_redis_sets:
  "redis_sets (snd (getSnapshot_begin cfg opts now reply clock s)) = redis_sets s"
  by (auto simp add: getSnapshot_begin_def readCache_def JSON_parse_def alloc_def logWarn_def
        join_or_start_def call_refreshSnapshot_def setInflight_def Let_def
      split: redis_get.splits option.splits prod.splits if_splits)

lemma buildPlanetSnapshot_ignores_write:
  "buildPlanetSnapshot cfg (env\<lparr>env_set := w\<rparr>) cid obs s = buildPlanetSnapshot cfg env cid obs s"
  by (simp add: buildPlanetSnapshot_unfold fetch_all_def Let_def
      cong: list.case_cong option.case_cong if_cong split: prod.splits)

lemma refreshSnapshot_outcome_ignores_write:
  "fst (refreshSnapshot cfg (env\<lparr>env_set := w\<rparr>) call s) = fst (refreshSnapshot cfg env call s)"
  by (simp add: refreshSnapshot_unfold buildPlanetSnapshot_ignores_write Let_def
      split: prod.splits sum.splits)

lemma getSnapshot_resume_redis_sets:
  "redis_sets (snd (getSnapshot_resume cfg opts now outcome reply clock s)) = redis_sets s"
  by (auto simp add: getSnapshot_resume_unfold readCache_def JSON_parse_def alloc_def logWarn_def
        logError_def Let_def
      split: redis_get.splits option.splits prod.splits if_splits sum.splits)

text \<open>
  Claim C7. A read (\<^verbatim>\<open>readCache\<close>) takes the record of the shared store when a client
  exists and the store answers with one, and then also overwrites the memory slot with
  it; when the store has no value, when the read fails (which is logged) or when there
  is no client, the read yields the memory slot and changes nothing else. A write
  (\<^verbatim>\<open>writeCache\<close>) always sets the memory slot; it reaches the shared store exactly
  when a client exists, the backend of the refresh is the store, and the store
  acknowledges; a failed store write is logged, still sets the memory slot, and
  \<^verbatim>\<open>writeCache\<close> yields a state, never an error, so that what a refresh resolves to
  does not depend on the store's reply to the write. Only \<^verbatim>\<open>refreshSnapshot\<close> calls
  \<^verbatim>\<open>writeCache\<close>: the serving code of \<^verbatim>\<open>getSnapshot\<close> before and after its await never
  writes to the shared store.
\<close>

theorem dual_backend_policy:
  "(redis_client cfg \<longrightarrow>
      readCache cfg (GetRaw raw) mode s =
        (Some \<lparr>cr_payload = length (heap s), cr_cachedAt = st_cachedAt raw,
               cr_expiresAt = st_expiresAt raw, cr_staleUntil = st_staleUntil raw\<rparr>,
         s\<lparr>heap := heap s @ [st_payload raw],
           memoryCache := (memoryCache s)(mode \<mapsto>
             \<lparr>cr_payload = length (heap s), cr_cachedAt = st_cachedAt raw,
              cr_expiresAt = st_expiresAt raw, cr_staleUntil = st_staleUntil raw\<rparr>)\<rparr>)
      \<and> readCache cfg GetNil mode s = (memoryCache s mode, s)
      \<and> readCache cfg (GetError err) mode s =
          (memoryCache s mode, s\<lparr>logs := logs s @ [(Warn, ''redis_read_failed'')]\<rparr>))
   \<and> (\<not> redis_client cfg \<longrightarrow> readCache cfg reply mode s = (memoryCache s mode, s))
   \<and> memoryCache (writeCache cfg wreply rcd backend mode s) mode = Some rcd
   \<and> redis_sets (writeCache cfg wreply rcd backend mode s) =
       (if redis_client cfg \<and> backend = Redis \<and> wreply = SetOk
        then redis_sets s @
          [\<lparr>rs_key = CACHE_KEY_BY_MODE mode,
            rs_value = \<lparr>st_payload = heap s ! cr_payload rcd,
                        st_cachedAt = cr_cachedAt rcd, st_expiresAt = cr_expiresAt rcd,
                        st_staleUntil = cr_staleUntil rcd\<rparr>,
            rs_PX = cr_staleUntil rcd - cr_cachedAt rcd\<rparr>]
        else redis_sets s)
   \<and> (redis_client cfg \<longrightarrow>
       writeCache cfg (SetError err) rcd Redis mode s =
         s\<lparr>memoryCache := (memoryCache s)(mode \<mapsto> rcd),
           logs := logs s @ [(Warn, ''redis_write_failed'')]\<rparr>)
   \<and> fst (refreshSnapshot cfg (env\<lparr>env_set := SetError err\<rparr>) call s) =
       fst (refreshSnapshot cfg (env\<lparr>env_set := SetOk\<rparr>) call s)
   \<and> redis_sets (snd (getSnapshot_begin cfg opts now reply clock s)) = redis_sets s
   \<and> redis_sets (snd (getSnapshot_resume cfg opts now outcome reply clock s)) = redis_sets s"
proof (intro conjI impI)
  assume "redis_client cfg"
  then show "readCache cfg (GetRaw raw) mode s =
        (Some \<lparr>cr_payload = length (heap s), cr_cachedAt = st_cachedAt raw,
               cr_expiresAt = st_expiresAt raw, cr_staleUntil = st_staleUntil raw\<rparr>,
         s\<lparr>heap := heap s @ [st_payload raw],
           memoryCache := (memoryCache s)(mode \<mapsto>
             \<lparr>cr_payload = length (heap s), cr_cachedAt = st_cachedAt raw,
              cr_expiresAt = st_expiresAt raw, cr_staleUntil = st_staleUntil raw\<rparr>)\<rparr>)"
    by (simp add: readCache_def JSON_parse_def alloc_def)
next
  assume "redis_client cfg"
  then show "readCache cfg GetNil mode s = (memoryCache s mode, s)"
    by (simp add: readCache_def)
next
  assume "redis_client cfg"
  then show "readCache cfg (GetError err) mode s =
          (memoryCache s mode, s\<lparr>logs := logs s @ [(Warn, ''redis_read_failed'')]\<rparr>)"
    by (simp add: readCache_def logWarn_def)
next
  assume "\<not> redis_client cfg"
  then show "readCache cfg reply mode s = (memoryCache s mode, s)"
    by (simp add: readCache_def)
next
  show "memoryCache (writeCache cfg wreply rcd backend mode s) mode = Some rcd"
    by (simp add: writeCache_unfold logWarn_def Let_def split: redis_set.splits)
next
  show "redis_sets (writeCache cfg wreply rcd backend mode s) =
       (if redis_client cfg \<and> backend = Redis \<and> wreply = SetOk
        then redis_sets s @
          [\<lparr>rs_key = CACHE_KEY_BY_MODE mode,
            rs_value = \<lparr>st_payload = heap s ! cr_payload rcd,
                        st_cachedAt = cr_cachedAt rcd, st_expiresAt = cr_expiresAt rcd,
                        st_staleUntil = cr_staleUntil rcd\<rparr>,
            rs_PX = cr_staleUntil rcd - cr_cachedAt rcd\<rparr>]
        else redis_sets s)"
    by (simp add: writeCache_unfold logWarn_def JSON_stringify_def Let_def split: redis_set.splits)
next
  assume "redis_client cfg"
  then show "writeCache cfg (SetError err) rcd Redis mode s =
         s\<lparr>memoryCache := (memoryCache s)(mode \<mapsto> rcd),
           logs := logs s @ [(Warn, ''redis_write_failed'')]\<rparr>"
    by (simp add: writeCache_unfold logWarn_def)
next
  show "fst (refreshSnapshot cfg (env\<lparr>env_set := SetError err\<rparr>) call s) =
       fst (refreshSnapshot cfg (env\<lparr>env_set := SetOk\<rparr>) call s)"
    by (simp add: refreshSnapshot_outcome_ignores_write)
next
  show "redis_sets (snd (getSnapshot_begin cfg opts now reply clock s)) = redis_sets s"
    by (rule getSnapshot_begin_redis_sets)
next
  show "redis_sets (snd (getSnapshot_resume cfg opts now outcome reply clock s)) = redis_sets s"
    by (rule getSnapshot_resume_redis_sets)
qed


text \<open>
  With a client: the store's rcd wins over the memory slot and replaces it; a failed
  read and a failed write are logged and fall back to memory. Without a client: memory
  only.
\<close>

theorem dual_backend_policy_witness:
  "redis_client example_redis_cfg \<and> \<not> redis_client example_cfg
   \<and> readCache example_redis_cfg (GetRaw example_stored) StateVectors example_state =
       (Some \<lparr>cr_payload = 1, cr_cachedAt = 5000, cr_expiresAt = 125000, cr_staleUntil = 185000\<rparr>,
        example_state\<lparr>heap := [example_snapshot, example_snapshot],
           memoryCache := (\<lambda>_. None)(StateVectors \<mapsto>
             \<lparr>cr_payload = 1, cr_cachedAt = 5000, cr_expiresAt = 125000,
              cr_staleUntil = 185000\<rparr>)\<rparr>)
   \<and> readCache example_redis_cfg GetNil StateVectors example_state =
       (Some example_record, example_state)
   \<and> readCache example_redis_cfg (GetError (JsError (Some ''ECONNRESET''))) StateVectors
       example_state =
       (Some example_record, example_state\<lparr>logs := [(Warn, ''redis_read_failed'')]\<rparr>)
   \<and> readCache example_cfg (GetRaw example_stored) StateVectors example_state =
       (Some example_record, example_state)
   \<and> writeCache example_redis_cfg (SetError (JsError (Some ''ECONNRESET''))) example_record
       Redis Full example_state =
       example_state\<lparr>memoryCache :=
            (\<lambda>_. None)(StateVectors \<mapsto> example_record, Full \<mapsto> example_record),
          logs := [(Warn, ''redis_write_failed'')]\<rparr>
   \<and> redis_sets (writeCache example_redis_cfg SetOk example_record Redis Full example_state) =
       [\<lparr>rs_key = ''ephemeris:planets:full:v1'',
         rs_value = \<lparr>st_payload = example_snapshot, st_cachedAt = 0, st_expiresAt = 120000,
                     st_staleUntil = 180000\<rparr>,
         rs_PX = 180000\<rparr>]"
proof -
  have c: "redis_client example_redis_cfg" "\<not> redis_client example_cfg"
    by (simp_all add: example_redis_cfg_def example_cfg_def)
  have facts: "heap example_state = [example_snapshot]" "logs example_state = []"
    "memoryCache example_state = (\<lambda>_. None)(StateVectors \<mapsto> example_record)"
    "redis_sets example_state = []"
    "st_payload example_stored = example_snapshot" "st_cachedAt example_stored = 5000"
    "st_expiresAt example_stored = 125000" "st_staleUntil example_stored = 185000"
    "cr_payload example_record = 0" "cr_cachedAt example_record = 0"
    "cr_expiresAt example_record = 120000" "cr_staleUntil example_record = 180000"
    by (simp_all add: example_state_def initial_state_def example_stored_def example_record_def)
  note th = dual_backend_policy [where cfg = example_redis_cfg and s = example_state
      and raw = example_stored and err = "JsError (Some ''ECONNRESET'')"
      and rcd = example_record and wreply = SetOk and backend = Redis]
  note th' = dual_backend_policy [where cfg = example_cfg and s = example_state
      and reply = "GetRaw example_stored" and mode = StateVectors]
  have r1: "readCache example_redis_cfg (GetRaw example_stored) StateVectors example_state =
       (Some \<lparr>cr_payload = 1, cr_cachedAt = 5000, cr_expiresAt = 125000, cr_staleUntil = 185000\<rparr>,
        example_state\<lparr>heap := [example_snapshot, example_snapshot],
           memoryCache := (\<lambda>_. None)(StateVectors \<mapsto>
             \<lparr>cr_payload = 1, cr_cachedAt = 5000, cr_expiresAt = 125000,
              cr_staleUntil = 185000\<rparr>)\<rparr>)"
    using th [where mode = StateVectors] c by (simp add: facts)
  have r2: "readCache example_redis_cfg GetNil StateVectors example_state =
       (Some example_record, example_state)"
    using th [where mode = StateVectors] c by (simp add: facts)
  have r3: "readCache example_redis_cfg (GetError (JsError (Some ''ECONNRESET''))) StateVectors
       example_state =
       (Some example_record, example_state\<lparr>logs := [(Warn, ''redis_read_failed'')]\<rparr>)"
    using th [where mode = StateVectors] c by (simp add: facts)
  have r4: "readCache example_cfg (GetRaw example_stored) StateVectors example_state =
       (Some example_record, example_state)"
    using th' c by (simp add: facts)
  have w1: "writeCache example_redis_cfg (SetError (JsError (Some ''ECONNRESET''))) example_record
       Redis Full example_state =
       example_state\<lparr>memoryCache :=
            (\<lambda>_. None)(StateVectors \<mapsto> example_record, Full \<mapsto> example_record),
          logs := [(Warn, ''redis_write_failed'')]\<rparr>"
    using th [where mode = Full] c by (simp add: facts)
  have w2: "redis_sets (writeCache example_redis_cfg SetOk example_record Redis Full example_state) =
       [\<lparr>rs_key = ''ephemeris:planets:full:v1'',
         rs_value = \<lparr>st_payload = example_snapshot, st_cachedAt = 0, st_expiresAt = 120000,
                     st_staleUntil = 180000\<rparr>,
         rs_PX = 180000\<rparr>]"
    using th [where mode = Full] c by (simp add: facts)
  from c r1 r2 r3 r4 w1 w2 show ?thesis by simp
qed

section \<open>Cache records and their mirror in the shared store\<close>

text \<open>A refresh of the empty cache with the upstream answering for both bodies.\<close>

lemma example_refresh_result:
  "fst (refreshSnapshot example_cfg example_env example_call initial_state) =
     Inr \<lparr>sr_payload = 0, sr_cacheState = MISS, sr_cacheBackend = Memory, sr_cacheAgeMs = 0\<rparr>"
  by (simp add: refreshSnapshot_unfold buildPlanetSnapshot_unfold readCache_def example_cfg_def
        example_env_def example_call_def initial_state_def fetch_all_def upstream_up_def
        fallbackBodies_of_def alloc_def backend_of_def writeCache_unfold logInfo_def Let_def)

text \<open>The run with the slow write, event by event.\<close>

lemma slow_write_system:
  "run example_redis_cfg slow_write initial_system =
     \<lparr>sys_state =
        \<lparr>heap = [built_snapshot],
         memoryCache = (\<lambda>_. None)(StateVectors \<mapsto> built_record),
         inflightByMode = (\<lambda>_. None)(StateVectors \<mapsto> 0),
         started = [\<lparr>rc_reason = ''miss'', rc_correlationId = Some ''req-1'',
                     rc_mode = StateVectors\<rparr>],
         settled = [], redis_sets = [], logs = []\<rparr>,
      stages = (\<lambda>_. AwaitingRead)(0 :=
        AwaitingWrite built_record
          \<lparr>st_payload = built_snapshot, st_cachedAt = 1500, st_expiresAt = 121500,
           st_staleUntil = 181500\<rparr>),
      outcomes = (\<lambda>_. None),
      waiting = [\<lparr>w_promise = 0, w_caller = 0, w_options = example_opts, w_now = 1000\<rparr>],
      reading = [], responses = [], callers = 1\<rparr>"
  by (simp add: run_def slow_write_def initial_system_def initial_state_def
        example_redis_cfg_def example_cfg_def example_opts_def example_env_def
        getSnapshot_begin_def readCache_def join_or_start_def call_refreshSnapshot_def
        setInflight_def mode_of_def end_of_turn_def read_for_refresh_def pending_def
        buildPlanetSnapshot_read_def buildPlanetSnapshot_rest_def fetch_all_def upstream_up_def
        example_vector_def body_of_vector_def example_body_def fallbackBodies_of_def alloc_def
        push_timestamp_def nonempty_or_undefined_def
        refreshSnapshot_store_def writeCache_begin_def JSON_stringify_def
        built_snapshot_def built_record_def empty_metadata_def Let_def)


lemma run_append: "run cfg (evs @ evs') sys = run cfg evs' (run cfg evs sys)"
  by (simp add: run_def)

lemma in_window_system:
  "run example_redis_cfg (slow_write @ in_window) initial_system =
     (run example_redis_cfg slow_write initial_system)
       \<lparr>responses :=
          [(1, Inr \<lparr>sr_payload = served ''HIT'' 0 120000 1600 None, sr_cacheState = HIT,
                    sr_cacheBackend = Redis, sr_cacheAgeMs = 0\<rparr>)],
        callers := 2\<rparr>"
  unfolding run_append slow_write_system
  by (simp add: run_def in_window_def no_id_def example_redis_cfg_def example_cfg_def
        getSnapshot_begin_def readCache_def mode_of_def end_of_turn_def backend_of_def
        decoratePayloadMetadata_def served_def built_snapshot_def
        built_record_def empty_metadata_def Let_def)


lemma write_answered_system:
  "run example_redis_cfg (slow_write @ in_window @ write_answered) initial_system =
     \<lparr>sys_state =
        \<lparr>heap = [served ''MISS'' 0 120000 1500 (Some ''req-1'')],
         memoryCache = (\<lambda>_. None)(StateVectors \<mapsto> built_record),
         inflightByMode = (\<lambda>_. None),
         started = [\<lparr>rc_reason = ''miss'', rc_correlationId = Some ''req-1'',
                     rc_mode = StateVectors\<rparr>],
         settled = [0],
         redis_sets =
           [\<lparr>rs_key = ''ephemeris:planets:v1'',
             rs_value = \<lparr>st_payload = built_snapshot, st_cachedAt = 1500,
                         st_expiresAt = 121500, st_staleUntil = 181500\<rparr>,
             rs_PX = 180000\<rparr>],
         logs = [(Info, ''ephemeris_refresh'')]\<rparr>,
      stages = (\<lambda>_. AwaitingRead)(0 :=
        AwaitingWrite built_record
          \<lparr>st_payload = built_snapshot, st_cachedAt = 1500, st_expiresAt = 121500,
           st_staleUntil = 181500\<rparr>),
      outcomes = (\<lambda>_. None)(0 \<mapsto>
        Inr \<lparr>sr_payload = 0, sr_cacheState = MISS, sr_cacheBackend = Redis,
             sr_cacheAgeMs = 0\<rparr>),
      waiting = [], reading = [],
      responses =
        [(1, Inr \<lparr>sr_payload = served ''HIT'' 0 120000 1600 None, sr_cacheState = HIT,
                  sr_cacheBackend = Redis, sr_cacheAgeMs = 0\<rparr>),
         (0, Inr \<lparr>sr_payload = served ''MISS'' 0 120000 1500 (Some ''req-1''),
                  sr_cacheState = MISS, sr_cacheBackend = Redis, sr_cacheAgeMs = 0\<rparr>)],
      callers = 2\<rparr>"
proof -
  have "run example_redis_cfg (slow_write @ in_window @ write_answered) initial_system =
    run example_redis_cfg write_answered
      (run example_redis_cfg (slow_write @ in_window) initial_system)"
    by (simp add: run_def)
  then show ?thesis
    unfolding in_window_system slow_write_system
    by (simp add: run_def write_answered_def example_redis_cfg_def example_cfg_def
        example_opts_def pending_def settle_def clearInflight_def
        refreshSnapshot_finish_def writeCache_end_def logInfo_def
        getSnapshot_settled_def backend_of_def
        decoratePayloadMetadata_def served_def built_snapshot_def
        built_record_def empty_metadata_def Let_def)
qed

lemma store_down_system:
  "run example_redis_cfg (slow_write @ in_window @ write_answered @ store_down) initial_system =
     (run example_redis_cfg (slow_write @ in_window @ write_answered) initial_system)
       \<lparr>sys_state :=
          (sys_state (run example_redis_cfg (slow_write @ in_window @ write_answered)
              initial_system))
            \<lparr>logs := [(Info, ''ephemeris_refresh''), (Warn, ''redis_read_failed'')]\<rparr>,
        responses :=
          [(1, Inr \<lparr>sr_payload = served ''HIT'' 0 120000 1600 None, sr_cacheState = HIT,
                    sr_cacheBackend = Redis, sr_cacheAgeMs = 0\<rparr>),
           (0, Inr \<lparr>sr_payload = served ''MISS'' 0 120000 1500 (Some ''req-1''),
                    sr_cacheState = MISS, sr_cacheBackend = Redis, sr_cacheAgeMs = 0\<rparr>),
           (2, Inr \<lparr>sr_payload = served ''HIT'' 300 119700 1500 (Some ''req-1''),
                    sr_cacheState = HIT, sr_cacheBackend = Redis, sr_cacheAgeMs = 300\<rparr>)],
        callers := 3\<rparr>"
proof -
  have "run example_redis_cfg (slow_write @ in_window @ write_answered @ store_down)
      initial_system =
    run example_redis_cfg store_down
      (run example_redis_cfg (slow_write @ in_window @ write_answered) initial_system)"
    by (simp add: run_def)
  then show ?thesis
    unfolding write_answered_system
    by (simp add: run_def store_down_def no_id_def example_redis_cfg_def example_cfg_def
        getSnapshot_begin_def readCache_def mode_of_def end_of_turn_def backend_of_def
        logWarn_def decoratePayloadMetadata_def served_def built_snapshot_def
        built_record_def empty_metadata_def Let_def)
qed


lemma refresh_record_bounds:
  assumes ttl: "0 \<le> CACHE_TTL_MS cfg"
    and window: "0 \<le> STALE_WHILE_REVALIDATE_MS cfg"
    and r: "refreshSnapshot cfg env call s = (Inr result, s')"
  shows "\<exists>rcd. memoryCache s' (rc_mode call) = Some rcd
            \<and> cr_payload rcd = sr_payload result
            \<and> length (heap s) \<le> cr_payload rcd
            \<and> cr_cachedAt rcd = env_now env
            \<and> cr_expiresAt rcd = env_now env + CACHE_TTL_MS cfg
            \<and> cr_staleUntil rcd =
                env_now env + CACHE_TTL_MS cfg + STALE_WHILE_REVALIDATE_MS cfg
            \<and> cr_cachedAt rcd \<le> cr_expiresAt rcd
            \<and> cr_expiresAt rcd \<le> cr_staleUntil rcd"
proof -
  obtain c s1 where rd: "readCache cfg (env_get env) (rc_mode call) s = (c, s1)"
    by (cases "readCache cfg (env_get env) (rc_mode call) s")
  from readCache_heap_prefix [OF rd] have le: "length (heap s) \<le> length (heap s1)" by auto
  note su = refreshSnapshot_success [OF r rd]
  show ?thesis using su(1,5) le ttl window by simp
qed

lemma stored_record_bounds:
  assumes ttl: "0 \<le> CACHE_TTL_MS cfg"
    and window: "0 \<le> STALE_WHILE_REVALIDATE_MS cfg"
    and st: "refreshSnapshot_store cfg now call payload s = ((rcd, json), s')"
  shows "memoryCache s' (rc_mode call) = Some rcd"
    and "cr_payload rcd = payload" and "cr_cachedAt rcd = now"
    and "cr_cachedAt rcd \<le> cr_expiresAt rcd" and "cr_expiresAt rcd \<le> cr_staleUntil rcd"
  using assms by (auto simp add: refreshSnapshot_store_def writeCache_begin_def Let_def)

lemma refreshSnapshot_finish_slots:
  "memoryCache (snd (refreshSnapshot_finish cfg reply call rcd json s)) = memoryCache s"
  by (simp add: refreshSnapshot_finish_def writeCache_end_def Let_def logInfo_def logWarn_def
        split: redis_set.splits)

text \<open>
  Claim C8 (a defect of the code). The record that a successful refresh constructs and
  writes to the memory slot of its mode satisfies \<open>cachedAt \<le> expiresAt \<le> staleUntil\<close>
  for a non-negative TTL and stale window (lemmas \<open>stored_record_bounds\<close> and
  \<open>refresh_record_bounds\<close>), and the fields of a record are never assigned to. But what a
  slot holds is changed without a replacement: the refresh writes its record to the slot
  (\<^verbatim>\<open>memoryCache.set\<close> in \<^verbatim>\<open>writeCache\<close>), awaits the store's reply to its write, and then
  assigns \<^verbatim>\<open>payload.metadata\<close> on the object that the record in the slot refers to. In
  the run below, with a client of the shared store, the slot holds \<open>built_record\<close> with
  the snapshot as built from the moment the upstream has answered; a request served
  while the write is awaited is a hit on that snapshot, with no request id. The
  store's reply changes no slot of the memory cache, yet afterwards the same record
  refers to a snapshot with the status \<^verbatim>\<open>MISS\<close>, the request id of the refresh and the
  other cache fields, and a later hit on the same record (the store being unreachable)
  carries that request id.
\<close>

theorem stored_record_changed_in_place:
  "cr_cachedAt built_record \<le> cr_expiresAt built_record
   \<and> cr_expiresAt built_record \<le> cr_staleUntil built_record
   \<and> memoryCache (sys_state (run example_redis_cfg slow_write initial_system)) StateVectors =
       Some built_record
   \<and> heap (sys_state (run example_redis_cfg slow_write initial_system))
         ! cr_payload built_record = built_snapshot
   \<and> responses (run example_redis_cfg (slow_write @ in_window) initial_system) =
       [(1, Inr \<lparr>sr_payload = served ''HIT'' 0 120000 1600 None, sr_cacheState = HIT,
                 sr_cacheBackend = Redis, sr_cacheAgeMs = 0\<rparr>)]
   \<and> memoryCache (sys_state (run example_redis_cfg (slow_write @ in_window @ write_answered)
         initial_system)) =
       memoryCache (sys_state (run example_redis_cfg slow_write initial_system))
   \<and> heap (sys_state (run example_redis_cfg (slow_write @ in_window @ write_answered)
         initial_system)) ! cr_payload built_record =
       served ''MISS'' 0 120000 1500 (Some ''req-1'')
   \<and> served ''MISS'' 0 120000 1500 (Some ''req-1'') \<noteq> built_snapshot
   \<and> memoryCache (sys_state (run example_redis_cfg
         (slow_write @ in_window @ write_answered @ store_down) initial_system)) StateVectors =
       Some built_record
   \<and> responses (run example_redis_cfg
         (slow_write @ in_window @ write_answered @ store_down) initial_system) =
       [(1, Inr \<lparr>sr_payload = served ''HIT'' 0 120000 1600 None, sr_cacheState = HIT,
                 sr_cacheBackend = Redis, sr_cacheAgeMs = 0\<rparr>),
        (0, Inr \<lparr>sr_payload = served ''MISS'' 0 120000 1500 (Some ''req-1''),
                 sr_cacheState = MISS, sr_cacheBackend = Redis, sr_cacheAgeMs = 0\<rparr>),
        (2, Inr \<lparr>sr_payload = served ''HIT'' 300 119700 1500 (Some ''req-1''),
                 sr_cacheState = HIT, sr_cacheBackend = Redis, sr_cacheAgeMs = 300\<rparr>)]"
proof -
  have differ: "served ''MISS'' 0 120000 1500 (Some ''req-1'') \<noteq> built_snapshot"
    by (simp add: served_def built_snapshot_def empty_metadata_def)
  show ?thesis
    unfolding store_down_system write_answered_system in_window_system slow_write_system
    using differ by (simp add: built_record_def)
qed

text \<open>
  Claim C9. With a client of the shared store whose write is acknowledged, a
  successful refresh issues exactly one write: under the key of the mode, of the new
  record (captured at the refresh's clock reading, with the payload as built), with
  \<^verbatim>\<open>PX = staleUntil - cachedAt\<close>, that is the TTL plus the stale window. So a copy
  written at any instant from \<open>cachedAt\<close> on stays in the store at least until
  \<open>staleUntil\<close>, which for a non-negative stale window is not before \<open>expiresAt\<close>.
\<close>

theorem shared_store_mirror_expiry:
  assumes client: "redis_client cfg"
    and ack: "env_set env = SetOk"
    and r: "refreshSnapshot cfg env call s = (Inr result, s')"
  shows "\<exists>w. redis_sets s' = redis_sets s @ [w]
           \<and> rs_key w = CACHE_KEY_BY_MODE (rc_mode call)
           \<and> st_cachedAt (rs_value w) = env_now env
           \<and> st_expiresAt (rs_value w) = env_now env + CACHE_TTL_MS cfg
           \<and> st_staleUntil (rs_value w) =
               env_now env + CACHE_TTL_MS cfg + STALE_WHILE_REVALIDATE_MS cfg
           \<and> es_bodies (st_payload (rs_value w)) = es_bodies (heap s' ! sr_payload result)
           \<and> es_timestamp (st_payload (rs_value w)) = es_timestamp (heap s' ! sr_payload result)
           \<and> rs_PX w = st_staleUntil (rs_value w) - st_cachedAt (rs_value w)
           \<and> rs_PX w = CACHE_TTL_MS cfg + STALE_WHILE_REVALIDATE_MS cfg
           \<and> (\<forall>t. st_cachedAt (rs_value w) \<le> t \<longrightarrow> st_staleUntil (rs_value w) \<le> t + rs_PX w)
           \<and> (\<forall>t. st_cachedAt (rs_value w) \<le> t \<and> 0 \<le> STALE_WHILE_REVALIDATE_MS cfg
                  \<longrightarrow> st_expiresAt (rs_value w) \<le> t + rs_PX w)"
proof -
  obtain c s1 where rd: "readCache cfg (env_get env) (rc_mode call) s = (c, s1)"
    by (cases "readCache cfg (env_get env) (rc_mode call) s")
  have rd': "readCache cfg (env_get env) (if rc_mode call = Full then Full else StateVectors) s
      = (c, s1)"
    using rd by (cases "rc_mode call") simp_all
  obtain a sb where b: "buildPlanetSnapshot cfg env (rc_correlationId call) (rc_mode call = Full) s
      = (Inr a, sb)"
    using r by (cases rule: refreshSnapshot_cases [of cfg env call s]) auto
  note bi = buildPlanetSnapshot_Inr [OF b rd']
  note ri = refreshSnapshot_Inr [OF b]
  note fr = readCache_frame [OF rd]
  from bi obtain v where hv: "heap sb = heap s1 @ [v]" by blast
  from bi have a: "a = length (heap s1)" by simp
  have res: "sr_payload result = a" using r ri by auto
  have sets: "redis_sets s' = redis_sets s @
     [\<lparr>rs_key = CACHE_KEY_BY_MODE (rc_mode call),
       rs_value = \<lparr>st_payload = v, st_cachedAt = env_now env,
                   st_expiresAt = env_now env + CACHE_TTL_MS cfg,
                   st_staleUntil = env_now env + CACHE_TTL_MS cfg + STALE_WHILE_REVALIDATE_MS cfg\<rparr>,
       rs_PX = CACHE_TTL_MS cfg + STALE_WHILE_REVALIDATE_MS cfg\<rparr>]"
    using r ri bi fr hv a client ack
    by (auto simp add: Let_def logInfo_def writeCache_redis_sets writeCache_frame backend_of_def)
  have cell: "es_bodies (heap s' ! a) = es_bodies v \<and> es_timestamp (heap s' ! a) = es_timestamp v"
    using r ri bi hv a
    by (auto simp add: Let_def logInfo_def writeCache_frame)
  from sets cell res show ?thesis by simp
qed

theorem shared_store_mirror_expiry_witness:
  "redis_client example_redis_cfg \<and> env_set example_env = SetOk
   \<and> fst (refreshSnapshot example_redis_cfg example_env example_call initial_state) =
       Inr \<lparr>sr_payload = 0, sr_cacheState = MISS, sr_cacheBackend = Redis, sr_cacheAgeMs = 0\<rparr>
   \<and> (\<exists>w. redis_sets (snd (refreshSnapshot example_redis_cfg example_env example_call
              initial_state)) = [w]
         \<and> rs_key w = ''ephemeris:planets:v1'' \<and> rs_PX w = 180000
         \<and> st_cachedAt (rs_value w) = 1500 \<and> st_staleUntil (rs_value w) = 181500)"
proof -
  have client: "redis_client example_redis_cfg"
    by (simp add: example_redis_cfg_def)
  have ack: "env_set example_env = SetOk" by (simp add: example_env_def)
  have f: "fst (refreshSnapshot example_redis_cfg example_env example_call initial_state) =
       Inr \<lparr>sr_payload = 0, sr_cacheState = MISS, sr_cacheBackend = Redis, sr_cacheAgeMs = 0\<rparr>"
    by (simp add: refreshSnapshot_unfold buildPlanetSnapshot_unfold readCache_def example_cfg_def
        example_redis_cfg_def example_env_def example_call_def initial_state_def fetch_all_def
        upstream_up_def fallbackBodies_of_def alloc_def backend_of_def writeCache_unfold
        logInfo_def Let_def)
  then have r: "refreshSnapshot example_redis_cfg example_env example_call initial_state =
      (Inr \<lparr>sr_payload = 0, sr_cacheState = MISS, sr_cacheBackend = Redis, sr_cacheAgeMs = 0\<rparr>,
       snd (refreshSnapshot example_redis_cfg example_env example_call initial_state))"
    by (metis prod.collapse)
  from shared_store_mirror_expiry [OF client ack r]
  obtain w where w: "redis_sets (snd (refreshSnapshot example_redis_cfg example_env example_call
              initial_state)) = redis_sets initial_state @ [w]"
      "rs_key w = CACHE_KEY_BY_MODE (rc_mode example_call)"
      "st_cachedAt (rs_value w) = env_now example_env"
      "st_staleUntil (rs_value w) = env_now example_env + CACHE_TTL_MS example_redis_cfg
          + STALE_WHILE_REVALIDATE_MS example_redis_cfg"
      "rs_PX w = CACHE_TTL_MS example_redis_cfg + STALE_WHILE_REVALIDATE_MS example_redis_cfg"
    by blast
  then have "redis_sets (snd (refreshSnapshot example_redis_cfg example_env example_call
              initial_state)) = [w]
         \<and> rs_key w = ''ephemeris:planets:v1'' \<and> rs_PX w = 180000
         \<and> st_cachedAt (rs_value w) = 1500 \<and> st_staleUntil (rs_value w) = 181500"
    by (simp add: initial_state_def example_call_def example_env_def example_redis_cfg_def
          example_cfg_def)
  with client ack f show ?thesis by blast
qed

section \<open>Partial failure of a refresh\<close>

text \<open>The body that a fetched vector becomes, field by field.\<close>

lemma body_of_vector_fields:
  "body_of_vector r =
     \<lparr>eb_name = sv_name r,
      eb_x_au = sv_x_au r, eb_y_au = sv_y_au r, eb_z_au = sv_z_au r,
      eb_vx = sv_vx_au_per_day r, eb_vy = sv_vy_au_per_day r, eb_vz = sv_vz_au_per_day r,
      eb_velocityUnit = sv_velocityUnit r,
      eb_timestamp = sv_timestamp r,
      eb_observer =
        \<lparr>range_au = range_au (sv_observer r),
         range_rate_km_s = range_rate_km_s (sv_observer r),
         light_time_minutes = light_time_minutes (sv_observer r),
         solar_elongation_deg = solar_elongation_deg (sv_observer r),
         phase_angle_deg = phase_angle_deg (sv_observer r),
         illumination_fraction = illumination_fraction (sv_observer r),
         apparent_magnitude = apparent_magnitude (sv_observer r)\<rparr>\<rparr>"
  by (cases "sv_observer r") (simp add: body_of_vector_def)

lemma process_results_accounting:
  "acc_bodies (process_results fb rs acc) = acc_bodies acc @ spec_bodies fb rs
   \<and> acc_usedFallback (process_results fb rs acc) = acc_usedFallback acc @ spec_fallbackBodies fb rs
   \<and> acc_missing (process_results fb rs acc) = acc_missing acc @ spec_missingBodies fb rs"
proof (induction rs arbitrary: acc)
  case Nil
  show ?case by (simp add: spec_bodies_def spec_fallbackBodies_def spec_missingBodies_def)
next
  case (Cons x rs)
  obtain c res where x: "x = (c, res)" by (cases x)
  show ?case
  proof (cases res)
    case (Fulfilled r)
    with x Cons.IH [of "process_result fb c res acc"] show ?thesis
      by (simp add: spec_bodies_def spec_fallbackBodies_def spec_missingBodies_def
            body_of_vector_fields)
  next
    case (Rejected e)
    with x Cons.IH [of "process_result fb c res acc"] show ?thesis
      by (cases "fb (pc_name c)")
         (simp_all add: spec_bodies_def spec_fallbackBodies_def spec_missingBodies_def)
  qed
qed

lemma fallback_fold_None:
  "(fold (\<lambda>body m. m(eb_name body \<mapsto> body)) bodies m0 n = None) =
     (m0 n = None \<and> n \<notin> eb_name ` set bodies)"
  by (induction bodies arbitrary: m0) auto

lemma fallback_fold_Some:
  "fold (\<lambda>body m. m(eb_name body \<mapsto> body)) bodies m0 n = Some b \<Longrightarrow>
     (b \<in> set bodies \<and> eb_name b = n) \<or> m0 n = Some b"
proof (induction bodies arbitrary: m0)
  case Nil
  then show ?case by simp
next
  case (Cons x xs)
  from Cons.IH [of "m0(eb_name x \<mapsto> x)"] Cons.prems show ?case
    by (auto split: if_splits)
qed

lemma fallbackBodies_of_None:
  "(fallbackBodies_of bodies n = None) = (n \<notin> eb_name ` set bodies)"
  by (simp add: fallbackBodies_of_def fallback_fold_None)

lemma fallbackBodies_of_Some:
  "fallbackBodies_of bodies n = Some b \<Longrightarrow> b \<in> set bodies \<and> eb_name b = n"
  using fallback_fold_Some [of bodies Map.empty n b] by (simp add: fallbackBodies_of_def)

text \<open>The object that a build makes, and the error of a build that has no body.\<close>

lemma buildPlanetSnapshot_outcome:
  assumes rd: "readCache cfg (env_get env) (if obs then Full else StateVectors) s = (cached, s1)"
  shows "buildPlanetSnapshot cfg env cid obs s =
     (let fb = fallbackBodies_of (previous_bodies s1 cached);
          acc = process_results fb (fetch_all cfg env)
                  \<lparr>acc_bodies = [], acc_usedFallback = [], acc_missing = [], acc_timestamps = [],
                   acc_referenceFrame =
                     (case Option.bind (map_option (\<lambda>c. es_metadata (heap s1 ! cr_payload c)) cached)
                             md_referenceFrame of
                        Some f \<Rightarrow> f | None \<Rightarrow> ''J2000-ECLIPTIC''),
                   acc_velocityUnit =
                     (case Option.bind (map_option (\<lambda>c. es_metadata (heap s1 ! cr_payload c)) cached)
                             md_velocityUnit of
                        Some u \<Rightarrow> u | None \<Rightarrow> ''AU/day''),
                   acc_warnings = []\<rparr>;
          s2 = s1\<lparr>logs := logs s1 @ map (Pair Warn) (acc_warnings acc)\<rparr>
      in if spec_bodies fb (fetch_all cfg env) = [] then (Inl no_data_error, s2)
         else (Inr (length (heap s1)),
               s2\<lparr>heap := heap s1 @
                 [\<lparr>es_timestamp =
                     (case acc_timestamps acc of
                        t # _ \<Rightarrow> t
                      | [] \<Rightarrow> (case cached of
                                 Some c \<Rightarrow> es_timestamp (heap s1 ! cr_payload c)
                               | None \<Rightarrow> IsoOf (env_today env))),
                   es_metadata =
                     \<lparr>md_source = Some ''NASA-JPL-Horizons'',
                      md_referenceFrame = Some (acc_referenceFrame acc),
                      md_distanceUnit = Some ''AU'',
                      md_velocityUnit = Some (acc_velocityUnit acc),
                      md_responseTimeMs = Some (env_fetched env - env_started env),
                      md_cacheStatus = None, md_cacheBackend = None, md_cacheAgeMs = None,
                      md_cacheExpiresInMs = None, md_cacheStale = None, md_generatedAt = None,
                      md_frozenSnapshot = None, md_freezeReason = None, md_requestId = None,
                      md_partial = Some (spec_fallbackBodies fb (fetch_all cfg env) \<noteq> []
                                         \<or> spec_missingBodies fb (fetch_all cfg env) \<noteq> []),
                      md_fallbackBodies =
                        (if spec_fallbackBodies fb (fetch_all cfg env) = [] then None
                         else Some (spec_fallbackBodies fb (fetch_all cfg env))),
                      md_missingBodies =
                        (if spec_missingBodies fb (fetch_all cfg env) = [] then None
                         else Some (spec_missingBodies fb (fetch_all cfg env)))\<rparr>,
                   es_bodies = spec_bodies fb (fetch_all cfg env)\<rparr>]\<rparr>))"
  using rd
  by (cases cached)
     (simp_all add: buildPlanetSnapshot_unfold Let_def alloc_def previous_bodies_def
        process_results_accounting nonempty_or_undefined_def
        cong: list.case_cong option.case_cong)


lemma buildPlanetSnapshot_empty:
  assumes rd: "readCache cfg (env_get env) (if obs then Full else StateVectors) s = (cached, s1)"
    and e: "spec_bodies (fallbackBodies_of (previous_bodies s1 cached)) (fetch_all cfg env) = []"
  shows "\<exists>sb. buildPlanetSnapshot cfg env cid obs s = (Inl no_data_error, sb)"
  using buildPlanetSnapshot_outcome [OF rd, of cid] e by (simp add: Let_def)

lemma buildPlanetSnapshot_nonempty:
  assumes rd: "readCache cfg (env_get env) (if obs then Full else StateVectors) s = (cached, s1)"
    and ne: "spec_bodies (fallbackBodies_of (previous_bodies s1 cached)) (fetch_all cfg env) \<noteq> []"
  shows "\<exists>sb v. buildPlanetSnapshot cfg env cid obs s = (Inr (length (heap s1)), sb)
     \<and> heap sb = heap s1 @ [v]
     \<and> es_bodies v =
         spec_bodies (fallbackBodies_of (previous_bodies s1 cached)) (fetch_all cfg env)
     \<and> md_fallbackBodies (es_metadata v) =
         (if spec_fallbackBodies (fallbackBodies_of (previous_bodies s1 cached))
               (fetch_all cfg env) = [] then None
          else Some (spec_fallbackBodies (fallbackBodies_of (previous_bodies s1 cached))
               (fetch_all cfg env)))
     \<and> md_missingBodies (es_metadata v) =
         (if spec_missingBodies (fallbackBodies_of (previous_bodies s1 cached))
               (fetch_all cfg env) = [] then None
          else Some (spec_missingBodies (fallbackBodies_of (previous_bodies s1 cached))
               (fetch_all cfg env)))
     \<and> md_partial (es_metadata v) =
         Some (spec_fallbackBodies (fallbackBodies_of (previous_bodies s1 cached))
                 (fetch_all cfg env) \<noteq> []
               \<or> spec_missingBodies (fallbackBodies_of (previous_bodies s1 cached))
                 (fetch_all cfg env) \<noteq> [])"
  using buildPlanetSnapshot_outcome [OF rd, of cid] ne by (simp add: Let_def)

text \<open>
  Claim C3. A refresh handles each tracked body on its own: the new snapshot's bodies
  are, in the order of the table, the vector of every body whose fetch succeeded and,
  for a body whose fetch failed, the value of the previous snapshot for that name when
  it has one (the name then goes to \<^verbatim>\<open>fallbackBodies\<close>), and nothing otherwise (the
  name then goes to \<^verbatim>\<open>missingBodies\<close>); \<^verbatim>\<open>partial\<close> is true exactly when one of the
  two lists is non-empty. When no body is present the refresh fails with the error
  \<^verbatim>\<open>No Horizons data available\<close> and writes nothing: memory, objects and shared store
  are as the refresh's own cache read left them.
\<close>

theorem partial_failure_accounting:
  assumes rd: "readCache cfg (env_get env) (rc_mode call) s = (cached, s1)"
  shows
    "(\<forall>n. (fallbackBodies_of (previous_bodies s1 cached) n = None) =
            (n \<notin> eb_name ` set (previous_bodies s1 cached)))
     \<and> (\<forall>n b. fallbackBodies_of (previous_bodies s1 cached) n = Some b \<longrightarrow>
            b \<in> set (previous_bodies s1 cached) \<and> eb_name b = n)
     \<and> map fst (fetch_all cfg env) = PLANETS cfg
     \<and> (spec_bodies (fallbackBodies_of (previous_bodies s1 cached)) (fetch_all cfg env) = [] \<longrightarrow>
          fst (refreshSnapshot cfg env call s) = Inl no_data_error
          \<and> memoryCache (snd (refreshSnapshot cfg env call s)) = memoryCache s1
          \<and> heap (snd (refreshSnapshot cfg env call s)) = heap s1
          \<and> redis_sets (snd (refreshSnapshot cfg env call s)) = redis_sets s)
     \<and> (spec_bodies (fallbackBodies_of (previous_bodies s1 cached)) (fetch_all cfg env) \<noteq> [] \<longrightarrow>
          (\<exists>result.
             fst (refreshSnapshot cfg env call s) = Inr result
             \<and> memoryCache (snd (refreshSnapshot cfg env call s)) (rc_mode call) =
                 Some \<lparr>cr_payload = sr_payload result, cr_cachedAt = env_now env,
                       cr_expiresAt = env_now env + CACHE_TTL_MS cfg,
                       cr_staleUntil =
                         env_now env + CACHE_TTL_MS cfg + STALE_WHILE_REVALIDATE_MS cfg\<rparr>
             \<and> es_bodies (heap (snd (refreshSnapshot cfg env call s)) ! sr_payload result) =
                 spec_bodies (fallbackBodies_of (previous_bodies s1 cached)) (fetch_all cfg env)
             \<and> md_fallbackBodies
                 (es_metadata (heap (snd (refreshSnapshot cfg env call s)) ! sr_payload result)) =
                 (if spec_fallbackBodies (fallbackBodies_of (previous_bodies s1 cached))
                       (fetch_all cfg env) = [] then None
                  else Some (spec_fallbackBodies (fallbackBodies_of (previous_bodies s1 cached))
                       (fetch_all cfg env)))
             \<and> md_missingBodies
                 (es_metadata (heap (snd (refreshSnapshot cfg env call s)) ! sr_payload result)) =
                 (if spec_missingBodies (fallbackBodies_of (previous_bodies s1 cached))
                       (fetch_all cfg env) = [] then None
                  else Some (spec_missingBodies (fallbackBodies_of (previous_bodies s1 cached))
                       (fetch_all cfg env)))
             \<and> md_partial
                 (es_metadata (heap (snd (refreshSnapshot cfg env call s)) ! sr_payload result)) =
                 Some (spec_fallbackBodies (fallbackBodies_of (previous_bodies s1 cached))
                         (fetch_all cfg env) \<noteq> []
                       \<or> spec_missingBodies (fallbackBodies_of (previous_bodies s1 cached))
                         (fetch_all cfg env) \<noteq> [])))"
proof -
  let ?fb = "fallbackBodies_of (previous_bodies s1 cached)"
  let ?rs = "fetch_all cfg env"
  let ?out = "refreshSnapshot cfg env call s"
  have rd': "readCache cfg (env_get env) (if rc_mode call = Full then Full else StateVectors) s
      = (cached, s1)"
    using rd by (cases "rc_mode call") simp_all
  note fr = readCache_frame [OF rd]
  have a: "\<forall>n. (?fb n = None) = (n \<notin> eb_name ` set (previous_bodies s1 cached))"
    by (simp add: fallbackBodies_of_None)
  have b: "\<forall>n b. ?fb n = Some b \<longrightarrow> b \<in> set (previous_bodies s1 cached) \<and> eb_name b = n"
    using fallbackBodies_of_Some by blast
  have c: "map fst ?rs = PLANETS cfg"
    by (simp add: fetch_all_def comp_def)
  have d: "spec_bodies ?fb ?rs = [] \<longrightarrow>
          fst ?out = Inl no_data_error \<and> memoryCache (snd ?out) = memoryCache s1
          \<and> heap (snd ?out) = heap s1 \<and> redis_sets (snd ?out) = redis_sets s"
  proof
    assume e: "spec_bodies ?fb ?rs = []"
    from buildPlanetSnapshot_empty [OF rd' e, of "rc_correlationId call"]
    obtain sb where sb: "buildPlanetSnapshot cfg env (rc_correlationId call)
        (rc_mode call = Full) s = (Inl no_data_error, sb)"
      by blast
    from buildPlanetSnapshot_Inl [OF sb rd'] refreshSnapshot_Inl [OF sb] fr
    show "fst ?out = Inl no_data_error \<and> memoryCache (snd ?out) = memoryCache s1
          \<and> heap (snd ?out) = heap s1 \<and> redis_sets (snd ?out) = redis_sets s"
      by simp
  qed
  have e: "spec_bodies ?fb ?rs \<noteq> [] \<longrightarrow>
          (\<exists>result.
             fst ?out = Inr result
             \<and> memoryCache (snd ?out) (rc_mode call) =
                 Some \<lparr>cr_payload = sr_payload result, cr_cachedAt = env_now env,
                       cr_expiresAt = env_now env + CACHE_TTL_MS cfg,
                       cr_staleUntil =
                         env_now env + CACHE_TTL_MS cfg + STALE_WHILE_REVALIDATE_MS cfg\<rparr>
             \<and> es_bodies (heap (snd ?out) ! sr_payload result) = spec_bodies ?fb ?rs
             \<and> md_fallbackBodies (es_metadata (heap (snd ?out) ! sr_payload result)) =
                 (if spec_fallbackBodies ?fb ?rs = [] then None
                  else Some (spec_fallbackBodies ?fb ?rs))
             \<and> md_missingBodies (es_metadata (heap (snd ?out) ! sr_payload result)) =
                 (if spec_missingBodies ?fb ?rs = [] then None
                  else Some (spec_missingBodies ?fb ?rs))
             \<and> md_partial (es_metadata (heap (snd ?out) ! sr_payload result)) =
                 Some (spec_fallbackBodies ?fb ?rs \<noteq> [] \<or> spec_missingBodies ?fb ?rs \<noteq> []))"
  proof
    assume ne: "spec_bodies ?fb ?rs \<noteq> []"
    from buildPlanetSnapshot_nonempty [OF rd' ne, of "rc_correlationId call"]
    obtain sb v where sb: "buildPlanetSnapshot cfg env (rc_correlationId call)
        (rc_mode call = Full) s = (Inr (length (heap s1)), sb)"
      and hv: "heap sb = heap s1 @ [v]"
      and cell: "es_bodies v = spec_bodies ?fb ?rs"
      "md_fallbackBodies (es_metadata v) =
         (if spec_fallbackBodies ?fb ?rs = [] then None else Some (spec_fallbackBodies ?fb ?rs))"
      "md_missingBodies (es_metadata v) =
         (if spec_missingBodies ?fb ?rs = [] then None else Some (spec_missingBodies ?fb ?rs))"
      "md_partial (es_metadata v) =
         Some (spec_fallbackBodies ?fb ?rs \<noteq> [] \<or> spec_missingBodies ?fb ?rs \<noteq> [])"
      by blast
    let ?result = "\<lparr>sr_payload = length (heap s1), sr_cacheState = MISS,
        sr_cacheBackend = backend_of cfg, sr_cacheAgeMs = 0\<rparr>"
    note st = refreshSnapshot_built_state [OF sb]
    have cellv: "heap (snd ?out) ! length (heap s1) =
        v\<lparr>es_metadata := (es_metadata v)
                 \<lparr>md_cacheStatus := Some ''MISS'', md_cacheBackend := Some (backend_of cfg),
                  md_cacheAgeMs := Some 0, md_cacheExpiresInMs := Some (CACHE_TTL_MS cfg),
                  md_cacheStale := Some False, md_generatedAt := Some (IsoOf (env_now env)),
                  md_requestId := rc_correlationId call\<rparr>\<rparr>"
      by (simp add: st(2) hv)
    have f1: "fst ?out = Inr ?result" by (rule st(1))
    have f2: "memoryCache (snd ?out) (rc_mode call) =
                 Some \<lparr>cr_payload = sr_payload ?result, cr_cachedAt = env_now env,
                       cr_expiresAt = env_now env + CACHE_TTL_MS cfg,
                       cr_staleUntil =
                         env_now env + CACHE_TTL_MS cfg + STALE_WHILE_REVALIDATE_MS cfg\<rparr>"
      by (simp add: st(3))
    have keep: "es_bodies (heap (snd ?out) ! sr_payload ?result) = es_bodies v"
      "md_fallbackBodies (es_metadata (heap (snd ?out) ! sr_payload ?result)) =
         md_fallbackBodies (es_metadata v)"
      "md_missingBodies (es_metadata (heap (snd ?out) ! sr_payload ?result)) =
         md_missingBodies (es_metadata v)"
      "md_partial (es_metadata (heap (snd ?out) ! sr_payload ?result)) =
         md_partial (es_metadata v)"
      by (simp_all add: cellv)
    have f3: "es_bodies (heap (snd ?out) ! sr_payload ?result) = spec_bodies ?fb ?rs"
      using keep(1) cell(1) by (rule trans)
    have f4: "md_fallbackBodies (es_metadata (heap (snd ?out) ! sr_payload ?result)) =
                 (if spec_fallbackBodies ?fb ?rs = [] then None
                  else Some (spec_fallbackBodies ?fb ?rs))"
      using keep(2) cell(2) by (rule trans)
    have f5: "md_missingBodies (es_metadata (heap (snd ?out) ! sr_payload ?result)) =
                 (if spec_missingBodies ?fb ?rs = [] then None
                  else Some (spec_missingBodies ?fb ?rs))"
      using keep(3) cell(3) by (rule trans)
    have f6: "md_partial (es_metadata (heap (snd ?out) ! sr_payload ?result)) =
                 Some (spec_fallbackBodies ?fb ?rs \<noteq> [] \<or> spec_missingBodies ?fb ?rs \<noteq> [])"
      using keep(4) cell(4) by (rule trans)
    show "\<exists>result.
             fst ?out = Inr result
             \<and> memoryCache (snd ?out) (rc_mode call) =
                 Some \<lparr>cr_payload = sr_payload result, cr_cachedAt = env_now env,
                       cr_expiresAt = env_now env + CACHE_TTL_MS cfg,
                       cr_staleUntil =
                         env_now env + CACHE_TTL_MS cfg + STALE_WHILE_REVALIDATE_MS cfg\<rparr>
             \<and> es_bodies (heap (snd ?out) ! sr_payload result) = spec_bodies ?fb ?rs
             \<and> md_fallbackBodies (es_metadata (heap (snd ?out) ! sr_payload result)) =
                 (if spec_fallbackBodies ?fb ?rs = [] then None
                  else Some (spec_fallbackBodies ?fb ?rs))
             \<and> md_missingBodies (es_metadata (heap (snd ?out) ! sr_payload result)) =
                 (if spec_missingBodies ?fb ?rs = [] then None
                  else Some (spec_missingBodies ?fb ?rs))
             \<and> md_partial (es_metadata (heap (snd ?out) ! sr_payload result)) =
                 Some (spec_fallbackBodies ?fb ?rs \<noteq> [] \<or> spec_missingBodies ?fb ?rs \<noteq> [])"
      by (intro exI conjI) (rule f1 f2 f3 f4 f5 f6)+
  qed
  from a b c d e show ?thesis by (intro conjI)
qed


text \<open>
  Three refreshes of two tracked bodies. Earth fails and the previous snapshot has it:
  the snapshot lists the previous value of Earth, then the vector that the upstream
  answered for Mars, field by field. Earth fails and there is no previous snapshot:
  missing. Everything fails and there is no previous snapshot: the refresh fails and
  the cache stays empty.
\<close>

theorem partial_failure_accounting_witness:
  "readCache example_cfg (env_get (example_env\<lparr>env_fetch := upstream_partial\<rparr>))
      (rc_mode example_call) example_state = (Some example_record, example_state)
   \<and> (\<exists>result.
         fst (refreshSnapshot example_cfg (example_env\<lparr>env_fetch := upstream_partial\<rparr>)
                example_call example_state) = Inr result
         \<and> es_bodies (heap (snd (refreshSnapshot example_cfg
                (example_env\<lparr>env_fetch := upstream_partial\<rparr>) example_call example_state))
              ! sr_payload result) =
             [example_body ''Earth'', mars_body]
         \<and> md_fallbackBodies (es_metadata (heap (snd (refreshSnapshot example_cfg
                (example_env\<lparr>env_fetch := upstream_partial\<rparr>) example_call example_state))
              ! sr_payload result)) = Some [''Earth'']
         \<and> md_missingBodies (es_metadata (heap (snd (refreshSnapshot example_cfg
                (example_env\<lparr>env_fetch := upstream_partial\<rparr>) example_call example_state))
              ! sr_payload result)) = None
         \<and> md_partial (es_metadata (heap (snd (refreshSnapshot example_cfg
                (example_env\<lparr>env_fetch := upstream_partial\<rparr>) example_call example_state))
              ! sr_payload result)) = Some True)
   \<and> (\<exists>result.
         fst (refreshSnapshot example_cfg (example_env\<lparr>env_fetch := upstream_partial\<rparr>)
                example_call initial_state) = Inr result
         \<and> es_bodies (heap (snd (refreshSnapshot example_cfg
                (example_env\<lparr>env_fetch := upstream_partial\<rparr>) example_call initial_state))
              ! sr_payload result) = [mars_body]
         \<and> md_fallbackBodies (es_metadata (heap (snd (refreshSnapshot example_cfg
                (example_env\<lparr>env_fetch := upstream_partial\<rparr>) example_call initial_state))
              ! sr_payload result)) = None
         \<and> md_missingBodies (es_metadata (heap (snd (refreshSnapshot example_cfg
                (example_env\<lparr>env_fetch := upstream_partial\<rparr>) example_call initial_state))
              ! sr_payload result)) = Some [''Earth'']
         \<and> md_partial (es_metadata (heap (snd (refreshSnapshot example_cfg
                (example_env\<lparr>env_fetch := upstream_partial\<rparr>) example_call initial_state))
              ! sr_payload result)) = Some True)
   \<and> fst (refreshSnapshot example_cfg (example_env\<lparr>env_fetch := upstream_down\<rparr>)
            example_call initial_state) = Inl (JsError (Some ''No Horizons data available''))
   \<and> memoryCache (snd (refreshSnapshot example_cfg (example_env\<lparr>env_fetch := upstream_down\<rparr>)
            example_call initial_state)) = (\<lambda>_. None)"
proof -
  let ?E = "example_env\<lparr>env_fetch := upstream_partial\<rparr>"
  let ?D = "example_env\<lparr>env_fetch := upstream_down\<rparr>"
  have rd1: "readCache example_cfg (env_get ?E) (rc_mode example_call) example_state =
      (Some example_record, example_state)"
    by (simp add: readCache_def example_cfg_def example_state_def example_call_def)
  have rd2: "readCache example_cfg (env_get ?E) (rc_mode example_call) initial_state =
      (None, initial_state)"
    by (simp add: readCache_def example_cfg_def initial_state_def example_call_def)
  have rd3: "readCache example_cfg (env_get ?D) (rc_mode example_call) initial_state =
      (None, initial_state)"
    by (simp add: readCache_def example_cfg_def initial_state_def example_call_def)
  have prev1: "previous_bodies example_state (Some example_record) = [example_body ''Earth'']"
    by (simp add: previous_bodies_def example_state_def example_record_def example_snapshot_def)
  have prev2: "previous_bodies initial_state None = []"
    by (simp add: previous_bodies_def)
  have fb1: "fallbackBodies_of [example_body ''Earth''] ''Earth'' = Some (example_body ''Earth'')"
    by (simp add: fallbackBodies_of_def example_body_def)
  have fb2: "fallbackBodies_of [] ''Earth'' = None"
      "fallbackBodies_of [] ''Mars'' = None"
    by (simp_all add: fallbackBodies_of_def)
  have rsE: "fetch_all example_cfg ?E =
      [(\<lparr>pc_name = ''Earth'', pc_horizonsId = ''399''\<rparr>, Rejected (JsError (Some ''timeout''))),
       (\<lparr>pc_name = ''Mars'', pc_horizonsId = ''499''\<rparr>, Fulfilled mars_vector)]"
    by (simp add: fetch_all_def example_cfg_def upstream_partial_def)
  have rsD: "fetch_all example_cfg ?D =
      [(\<lparr>pc_name = ''Earth'', pc_horizonsId = ''399''\<rparr>, Rejected (JsError (Some ''timeout''))),
       (\<lparr>pc_name = ''Mars'', pc_horizonsId = ''499''\<rparr>, Rejected (JsError (Some ''timeout'')))]"
    by (simp add: fetch_all_def example_cfg_def upstream_down_def)
  have mi: "memoryCache initial_state = (\<lambda>_. None)"
    by (simp add: initial_state_def)
  have a: "\<exists>result.
         fst (refreshSnapshot example_cfg ?E example_call example_state) = Inr result
         \<and> es_bodies (heap (snd (refreshSnapshot example_cfg ?E example_call example_state))
              ! sr_payload result) =
             [example_body ''Earth'', mars_body]
         \<and> md_fallbackBodies (es_metadata (heap (snd (refreshSnapshot example_cfg ?E
                example_call example_state)) ! sr_payload result)) = Some [''Earth'']
         \<and> md_missingBodies (es_metadata (heap (snd (refreshSnapshot example_cfg ?E
                example_call example_state)) ! sr_payload result)) = None
         \<and> md_partial (es_metadata (heap (snd (refreshSnapshot example_cfg ?E
                example_call example_state)) ! sr_payload result)) = Some True"
    using partial_failure_accounting [OF rd1, THEN conjunct2, THEN conjunct2, THEN conjunct2,
        THEN conjunct2]
    by (auto simp add: prev1 rsE fb1 spec_bodies_def spec_fallbackBodies_def
          spec_missingBodies_def mars_vector_def mars_body_def)
  have b: "\<exists>result.
         fst (refreshSnapshot example_cfg ?E example_call initial_state) = Inr result
         \<and> es_bodies (heap (snd (refreshSnapshot example_cfg ?E example_call initial_state))
              ! sr_payload result) = [mars_body]
         \<and> md_fallbackBodies (es_metadata (heap (snd (refreshSnapshot example_cfg ?E
                example_call initial_state)) ! sr_payload result)) = None
         \<and> md_missingBodies (es_metadata (heap (snd (refreshSnapshot example_cfg ?E
                example_call initial_state)) ! sr_payload result)) = Some [''Earth'']
         \<and> md_partial (es_metadata (heap (snd (refreshSnapshot example_cfg ?E
                example_call initial_state)) ! sr_payload result)) = Some True"
    using partial_failure_accounting [OF rd2, THEN conjunct2, THEN conjunct2, THEN conjunct2,
        THEN conjunct2]
    by (auto simp add: prev2 rsE fb2 spec_bodies_def spec_fallbackBodies_def
          spec_missingBodies_def mars_vector_def mars_body_def)
  have c: "fst (refreshSnapshot example_cfg ?D example_call initial_state) =
        Inl (JsError (Some ''No Horizons data available''))
      \<and> memoryCache (snd (refreshSnapshot example_cfg ?D example_call initial_state)) =
        (\<lambda>_. None)"
    using partial_failure_accounting [OF rd3, THEN conjunct2, THEN conjunct2, THEN conjunct2,
        THEN conjunct1]
    by (simp add: prev2 rsD fb2 spec_bodies_def no_data_error_def mi)
  from rd1 a b c show ?thesis by blast
qed

section \<open>Frozen snapshots\<close>

text \<open>A refresh fails in one way only: the build found no body.\<close>

lemma refreshSnapshot_error:
  "fst (refreshSnapshot cfg env call s) = Inl err \<Longrightarrow> err = no_data_error"
proof (cases rule: refreshSnapshot_cases [of cfg env call s])
  case (failed e sb)
  assume "fst (refreshSnapshot cfg env call s) = Inl err"
  with failed have e: "e = err" by simp
  obtain c s1 where rd: "readCache cfg (env_get env)
      (if rc_mode call = Full then Full else StateVectors) s = (c, s1)"
    by (cases "readCache cfg (env_get env) (if rc_mode call = Full then Full else StateVectors) s")
  from buildPlanetSnapshot_Inl [OF failed(1) rd] e show ?thesis by simp
next
  case (built a sb)
  assume "fst (refreshSnapshot cfg env call s) = Inl err"
  with built show ?thesis by simp
qed

lemma getSnapshot_resume_frozen:
  assumes c: "cached = Some c"
    and pick: "(case memoryCache s (mode_of opts) of
                  Some m \<Rightarrow> (Some m, s) | None \<Rightarrow> readCache cfg reply (mode_of opts) s)
               = (cached, s1)"
    and msg: "message err = Some reason" "0 < length reason"
  shows "\<exists>r. getSnapshot_resume cfg opts now (Inl err) reply clock s =
             (Inr r, logWarn ''ephemeris_snapshot_frozen'' s1)
           \<and> frozen_copy now c (heap s1 ! cr_payload c) r
           \<and> md_freezeReason (es_metadata (sr_payload r)) = Some reason
           \<and> sr_cacheBackend r = backend_of cfg"
  using c pick msg
  by (simp add: getSnapshot_resume_unfold Let_def frozen_copy_def decoratePayloadMetadata_def)

lemma outage_refresh:
  "fst (refreshSnapshot example_redis_cfg outage_env example_call initial_state) =
        Inl (JsError (Some ''No Horizons data available''))
      \<and> memoryCache (snd (refreshSnapshot example_redis_cfg outage_env example_call initial_state))
           = (\<lambda>_. None)
      \<and> heap (snd (refreshSnapshot example_redis_cfg outage_env example_call initial_state)) = []"
  by (simp add: refreshSnapshot_unfold buildPlanetSnapshot_unfold readCache_def example_redis_cfg_def
        example_cfg_def outage_env_def example_env_def example_call_def initial_state_def
        fetch_all_def upstream_down_def fallbackBodies_of_def no_data_error_def logWarn_def
        logError_def Let_def)

text \<open>
  Claim C4. When the awaited refresh fails (which it does only with the error of a
  build without bodies), \<^verbatim>\<open>getSnapshot\<close> looks for a previous record in process memory
  and, only when memory has none, in the shared store. With a record, whatever its
  age, it returns the record's bodies and timestamp with state FROZEN,
  \<^verbatim>\<open>cacheStale\<close> true, \<^verbatim>\<open>cacheExpiresInMs\<close> 0, \<^verbatim>\<open>frozenSnapshot\<close> true and the error's
  message, which is not empty, as \<^verbatim>\<open>freezeReason\<close>, and logs a warning. Without a
  record in either backend it rethrows the error.
\<close>

theorem frozen_fallback:
  assumes fail: "fst (refreshSnapshot cfg env call s0) = Inl err"
  shows
    "(\<forall>c. memoryCache s (mode_of opts) = Some c \<longrightarrow>
        (\<exists>r. getSnapshot_resume cfg opts now (Inl err) reply clock s =
                (Inr r, logWarn ''ephemeris_snapshot_frozen'' s)
              \<and> frozen_copy now c (heap s ! cr_payload c) r
              \<and> md_freezeReason (es_metadata (sr_payload r)) = Some ''No Horizons data available''))
     \<and> (\<forall>c s1. memoryCache s (mode_of opts) = None
              \<and> readCache cfg reply (mode_of opts) s = (Some c, s1) \<longrightarrow>
        (\<exists>r. getSnapshot_resume cfg opts now (Inl err) reply clock s =
                (Inr r, logWarn ''ephemeris_snapshot_frozen'' s1)
              \<and> frozen_copy now c (heap s1 ! cr_payload c) r
              \<and> md_freezeReason (es_metadata (sr_payload r)) = Some ''No Horizons data available''))
     \<and> (\<forall>s1. memoryCache s (mode_of opts) = None
              \<and> readCache cfg reply (mode_of opts) s = (None, s1) \<longrightarrow>
          getSnapshot_resume cfg opts now (Inl err) reply clock s =
            (Inl err, logError ''ephemeris_refresh_failed'' s1))"
proof -
  from fail have err: "err = no_data_error" by (rule refreshSnapshot_error)
  then have msg: "message err = Some ''No Horizons data available''"
      "0 < length ''No Horizons data available''"
    by (simp_all add: no_data_error_def)
  have a: "\<forall>c. memoryCache s (mode_of opts) = Some c \<longrightarrow>
        (\<exists>r. getSnapshot_resume cfg opts now (Inl err) reply clock s =
                (Inr r, logWarn ''ephemeris_snapshot_frozen'' s)
              \<and> frozen_copy now c (heap s ! cr_payload c) r
              \<and> md_freezeReason (es_metadata (sr_payload r)) = Some ''No Horizons data available'')"
  proof (intro allI impI)
    fix c assume m: "memoryCache s (mode_of opts) = Some c"
    then have pick: "(case memoryCache s (mode_of opts) of
                  Some m \<Rightarrow> (Some m, s) | None \<Rightarrow> readCache cfg reply (mode_of opts) s)
               = (Some c, s)" by simp
    from getSnapshot_resume_frozen [OF refl pick msg]
    show "\<exists>r. getSnapshot_resume cfg opts now (Inl err) reply clock s =
                (Inr r, logWarn ''ephemeris_snapshot_frozen'' s)
              \<and> frozen_copy now c (heap s ! cr_payload c) r
              \<and> md_freezeReason (es_metadata (sr_payload r)) = Some ''No Horizons data available''"
      by blast
  qed
  have b: "\<forall>c s1. memoryCache s (mode_of opts) = None
              \<and> readCache cfg reply (mode_of opts) s = (Some c, s1) \<longrightarrow>
        (\<exists>r. getSnapshot_resume cfg opts now (Inl err) reply clock s =
                (Inr r, logWarn ''ephemeris_snapshot_frozen'' s1)
              \<and> frozen_copy now c (heap s1 ! cr_payload c) r
              \<and> md_freezeReason (es_metadata (sr_payload r)) = Some ''No Horizons data available'')"
  proof (intro allI impI)
    fix c s1 assume m: "memoryCache s (mode_of opts) = None
              \<and> readCache cfg reply (mode_of opts) s = (Some c, s1)"
    then have pick: "(case memoryCache s (mode_of opts) of
                  Some m \<Rightarrow> (Some m, s) | None \<Rightarrow> readCache cfg reply (mode_of opts) s)
               = (Some c, s1)" by simp
    from getSnapshot_resume_frozen [OF refl pick msg]
    show "\<exists>r. getSnapshot_resume cfg opts now (Inl err) reply clock s =
                (Inr r, logWarn ''ephemeris_snapshot_frozen'' s1)
              \<and> frozen_copy now c (heap s1 ! cr_payload c) r
              \<and> md_freezeReason (es_metadata (sr_payload r)) = Some ''No Horizons data available''"
      by blast
  qed
  have c: "\<forall>s1. memoryCache s (mode_of opts) = None
              \<and> readCache cfg reply (mode_of opts) s = (None, s1) \<longrightarrow>
          getSnapshot_resume cfg opts now (Inl err) reply clock s =
            (Inl err, logError ''ephemeris_refresh_failed'' s1)"
    by (simp add: getSnapshot_resume_unfold Let_def)
  from a b c show ?thesis by (intro conjI)
qed


text \<open>
  An outage with a shared store: the refresh of an empty process fails, and the store,
  readable again, still holds a record captured at 5 s; the caller gets it frozen at an
  age of 195 s, beyond TTL plus stale window. The same with the record in memory, and
  with no record anywhere.
\<close>

theorem frozen_fallback_witness:
  "fst (refreshSnapshot example_redis_cfg outage_env example_call initial_state) =
     Inl (JsError (Some ''No Horizons data available''))
   \<and> (\<exists>r. fst (getSnapshot_resume example_redis_cfg example_opts 200000
                 (Inl (JsError (Some ''No Horizons data available''))) (GetRaw example_stored)
                 200100
                 (snd (refreshSnapshot example_redis_cfg outage_env example_call initial_state)))
             = Inr r
           \<and> sr_cacheState r = FROZEN \<and> sr_cacheAgeMs r = 195000
           \<and> es_bodies (sr_payload r) = es_bodies example_snapshot
           \<and> md_cacheStatus (es_metadata (sr_payload r)) = Some ''FROZEN''
           \<and> md_cacheStale (es_metadata (sr_payload r)) = Some True
           \<and> md_cacheExpiresInMs (es_metadata (sr_payload r)) = Some 0
           \<and> md_frozenSnapshot (es_metadata (sr_payload r)) = Some True
           \<and> md_freezeReason (es_metadata (sr_payload r)) = Some ''No Horizons data available'')
   \<and> (\<exists>r. fst (getSnapshot_resume example_redis_cfg example_opts 200000
                 (Inl (JsError (Some ''No Horizons data available''))) (GetRaw example_stored)
                 200100 example_state) = Inr r
           \<and> sr_cacheState r = FROZEN \<and> sr_cacheAgeMs r = 200000
           \<and> md_freezeReason (es_metadata (sr_payload r)) = Some ''No Horizons data available'')
   \<and> fst (getSnapshot_resume example_redis_cfg example_opts 200000
            (Inl (JsError (Some ''No Horizons data available''))) GetNil 200100 initial_state)
       = Inl (JsError (Some ''No Horizons data available''))"
proof -
  let ?err = "JsError (Some ''No Horizons data available'')"
  let ?s = "snd (refreshSnapshot example_redis_cfg outage_env example_call initial_state)"
  have client: "redis_client example_redis_cfg"
    by (simp add: example_redis_cfg_def)
  have mode: "mode_of example_opts = StateVectors" "rc_mode example_call = StateVectors"
    by (simp_all add: mode_of_def example_opts_def example_call_def)
  have failed: "fst (refreshSnapshot example_redis_cfg outage_env example_call initial_state) =
        Inl ?err
      \<and> memoryCache ?s = (\<lambda>_. None) \<and> heap ?s = []"
    by (rule outage_refresh)
  then have fail: "fst (refreshSnapshot example_redis_cfg outage_env example_call initial_state)
      = Inl ?err" by simp
  note th = frozen_fallback [OF fail, where opts = example_opts and now = 200000
      and clock = 200100]
  have none: "memoryCache ?s (mode_of example_opts) = None"
    using failed by (simp add: mode)
  have rd1: "readCache example_redis_cfg (GetRaw example_stored) (mode_of example_opts) ?s =
      (Some \<lparr>cr_payload = 0, cr_cachedAt = 5000, cr_expiresAt = 125000, cr_staleUntil = 185000\<rparr>,
       snd (readCache example_redis_cfg (GetRaw example_stored) (mode_of example_opts) ?s))"
    using failed
    by (simp add: readCache_def client JSON_parse_def alloc_def example_stored_def Let_def)
  have cell: "heap (snd (readCache example_redis_cfg (GetRaw example_stored)
      (mode_of example_opts) ?s)) ! 0 = example_snapshot"
    using failed
    by (simp add: readCache_def client JSON_parse_def alloc_def example_stored_def Let_def)
  from th [THEN conjunct2, THEN conjunct1, rule_format, OF conjI, OF none rd1]
  obtain r1 where r1: "getSnapshot_resume example_redis_cfg example_opts 200000 (Inl ?err)
        (GetRaw example_stored) 200100 ?s =
        (Inr r1, logWarn ''ephemeris_snapshot_frozen''
           (snd (readCache example_redis_cfg (GetRaw example_stored) (mode_of example_opts) ?s)))"
      "frozen_copy 200000
         \<lparr>cr_payload = 0, cr_cachedAt = 5000, cr_expiresAt = 125000, cr_staleUntil = 185000\<rparr>
         (heap (snd (readCache example_redis_cfg (GetRaw example_stored)
            (mode_of example_opts) ?s)) ! cr_payload
              \<lparr>cr_payload = 0, cr_cachedAt = 5000, cr_expiresAt = 125000,
               cr_staleUntil = 185000\<rparr>) r1"
      "md_freezeReason (es_metadata (sr_payload r1)) = Some ''No Horizons data available''"
    by blast
  have a: "\<exists>r. fst (getSnapshot_resume example_redis_cfg example_opts 200000 (Inl ?err)
                 (GetRaw example_stored) 200100 ?s) = Inr r
           \<and> sr_cacheState r = FROZEN \<and> sr_cacheAgeMs r = 195000
           \<and> es_bodies (sr_payload r) = es_bodies example_snapshot
           \<and> md_cacheStatus (es_metadata (sr_payload r)) = Some ''FROZEN''
           \<and> md_cacheStale (es_metadata (sr_payload r)) = Some True
           \<and> md_cacheExpiresInMs (es_metadata (sr_payload r)) = Some 0
           \<and> md_frozenSnapshot (es_metadata (sr_payload r)) = Some True
           \<and> md_freezeReason (es_metadata (sr_payload r)) = Some ''No Horizons data available''"
    using r1 cell by (intro exI [of _ r1]) (simp add: frozen_copy_def)
  have mem: "memoryCache example_state (mode_of example_opts) = Some example_record"
    by (simp add: example_state_def mode)
  note th2 = frozen_fallback [OF fail, where opts = example_opts and now = 200000
      and clock = 200100 and s = example_state and reply = "GetRaw example_stored"]
  from th2 [THEN conjunct1, rule_format, OF mem]
  obtain r2 where r2: "getSnapshot_resume example_redis_cfg example_opts 200000 (Inl ?err)
        (GetRaw example_stored) 200100 example_state =
        (Inr r2, logWarn ''ephemeris_snapshot_frozen'' example_state)"
      "frozen_copy 200000 example_record (heap example_state ! cr_payload example_record) r2"
      "md_freezeReason (es_metadata (sr_payload r2)) = Some ''No Horizons data available''"
    by blast
  have b: "\<exists>r. fst (getSnapshot_resume example_redis_cfg example_opts 200000 (Inl ?err)
                 (GetRaw example_stored) 200100 example_state) = Inr r
           \<and> sr_cacheState r = FROZEN \<and> sr_cacheAgeMs r = 200000
           \<and> md_freezeReason (es_metadata (sr_payload r)) = Some ''No Horizons data available''"
    using r2 by (intro exI [of _ r2]) (simp add: frozen_copy_def example_record_def)
  note th3 = frozen_fallback [OF fail, where opts = example_opts and now = 200000
      and clock = 200100 and s = initial_state and reply = GetNil]
  have none3: "memoryCache initial_state (mode_of example_opts) = None"
    by (simp add: initial_state_def)
  have rd3: "readCache example_redis_cfg GetNil (mode_of example_opts) initial_state =
      (None, initial_state)"
    by (simp add: readCache_def client initial_state_def)
  from th3 [THEN conjunct2, THEN conjunct2, rule_format, OF conjI, OF none3 rd3]
  have c: "fst (getSnapshot_resume example_redis_cfg example_opts 200000 (Inl ?err) GetNil
      200100 initial_state) = Inl ?err"
    by simp
  from fail a b c show ?thesis by (intro conjI)
qed

section \<open>Decoration and the cached object\<close>

text \<open>
  Serving from the cache (\<^verbatim>\<open>getSnapshot\<close> before and after its await) decorates a copy:
  no object that existed before is changed.
\<close>

lemma readCache_keeps_objects:
  "\<exists>ys. heap (snd (readCache cfg reply mode s)) = heap s @ ys"
  by (cases "readCache cfg reply mode s") (simp add: readCache_heap_prefix)


lemma getSnapshot_resume_keeps_objects:
  "\<exists>ys. heap (snd (getSnapshot_resume cfg opts now outcome reply clock s)) = heap s @ ys"
proof (cases outcome)
  case (Inr result)
  then show ?thesis by (simp add: getSnapshot_resume_unfold Let_def)
next
  case (Inl err)
  obtain c s1 where rd: "readCache cfg reply (mode_of opts) s = (c, s1)"
    by (cases "readCache cfg reply (mode_of opts) s")
  from readCache_heap_prefix [OF rd] obtain ys where ys: "heap s1 = heap s @ ys" by blast
  show ?thesis
  proof (cases "memoryCache s (mode_of opts)")
    case (Some r)
    with Inl show ?thesis by (simp add: getSnapshot_resume_unfold Let_def logWarn_def)
  next
    case None
    with Inl rd have "heap (snd (getSnapshot_resume cfg opts now outcome reply clock s)) = heap s1"
      by (auto simp add: getSnapshot_resume_unfold Let_def logWarn_def logError_def
            split: option.splits)
    with ys show ?thesis by simp
  qed
qed

text \<open>
  Claim C6 (a defect of the code). \<^verbatim>\<open>refreshSnapshot\<close> stores its record and then
  assigns the decorated metadata to \<^verbatim>\<open>payload.metadata\<close>, where \<^verbatim>\<open>payload\<close> is the very
  object the stored record refers to. After the first refresh of an empty process on
  behalf of request \<^verbatim>\<open>req-1\<close>, the object as it was built and as it was written to the
  shared store carries no cache status and no request id, while the object held by
  the memory slot now carries status MISS, the request id \<^verbatim>\<open>req-1\<close> and the
  \<^verbatim>\<open>generatedAt\<close> of the refresh; a later hit without a correlation id hands out that
  request id.
\<close>

theorem refresh_decorates_cached_object:
  "fst (buildPlanetSnapshot example_redis_cfg example_env (Some ''req-1'') False initial_state)
     = Inr 0
   \<and> md_cacheStatus (es_metadata (heap (snd (buildPlanetSnapshot example_redis_cfg example_env
        (Some ''req-1'') False initial_state)) ! 0)) = None
   \<and> md_requestId (es_metadata (heap (snd (buildPlanetSnapshot example_redis_cfg example_env
        (Some ''req-1'') False initial_state)) ! 0)) = None
   \<and> memoryCache (snd (refreshSnapshot example_redis_cfg example_env example_call initial_state))
        StateVectors =
       Some \<lparr>cr_payload = 0, cr_cachedAt = 1500, cr_expiresAt = 121500, cr_staleUntil = 181500\<rparr>
   \<and> md_cacheStatus (es_metadata (heap (snd (refreshSnapshot example_redis_cfg example_env
        example_call initial_state)) ! 0)) = Some ''MISS''
   \<and> md_requestId (es_metadata (heap (snd (refreshSnapshot example_redis_cfg example_env
        example_call initial_state)) ! 0)) = Some ''req-1''
   \<and> md_generatedAt (es_metadata (heap (snd (refreshSnapshot example_redis_cfg example_env
        example_call initial_state)) ! 0)) = Some (IsoOf 1500)
   \<and> map (\<lambda>w. md_cacheStatus (es_metadata (st_payload (rs_value w))))
        (redis_sets (snd (refreshSnapshot example_redis_cfg example_env example_call
           initial_state))) = [None]
   \<and> map (\<lambda>w. md_requestId (es_metadata (st_payload (rs_value w))))
        (redis_sets (snd (refreshSnapshot example_redis_cfg example_env example_call
           initial_state))) = [None]
   \<and> (case fst (getSnapshot_begin example_redis_cfg
                  \<lparr>forceRefresh = False, correlationId = None, includeObserver = False\<rparr>
                  2000 GetNil 2000
                  (snd (refreshSnapshot example_redis_cfg example_env example_call
                     initial_state))) of
         Returned r \<Rightarrow> sr_cacheState r = HIT
                        \<and> md_requestId (es_metadata (sr_payload r)) = Some ''req-1''
       | Awaiting p \<Rightarrow> False)"
proof -
  have client: "redis_client example_redis_cfg"
    by (simp add: example_redis_cfg_def)
  have cfg: "CACHE_TTL_MS example_redis_cfg = 120000"
    "STALE_WHILE_REVALIDATE_MS example_redis_cfg = 60000"
    "backend_of example_redis_cfg = Redis"
    by (simp_all add: example_redis_cfg_def example_cfg_def backend_of_def)
  have ex: "rc_mode example_call = StateVectors" "rc_correlationId example_call = Some ''req-1''"
    "env_now example_env = 1500" "env_set example_env = SetOk"
    by (simp_all add: example_call_def example_env_def)
  have rd: "readCache example_redis_cfg (env_get example_env) (if False then Full else StateVectors)
      initial_state = (None, initial_state)"
    by (simp add: readCache_def example_env_def initial_state_def)
  have rs: "fetch_all example_redis_cfg example_env =
      [(\<lparr>pc_name = ''Earth'', pc_horizonsId = ''399''\<rparr>, Fulfilled (example_vector ''Earth'')),
       (\<lparr>pc_name = ''Mars'', pc_horizonsId = ''499''\<rparr>, Fulfilled (example_vector ''Mars''))]"
    by (simp add: fetch_all_def example_redis_cfg_def example_cfg_def example_env_def
          upstream_up_def)
  have ne: "spec_bodies (fallbackBodies_of (previous_bodies initial_state None))
      (fetch_all example_redis_cfg example_env) \<noteq> []"
    by (simp add: rs spec_bodies_def)
  let ?b = "buildPlanetSnapshot example_redis_cfg example_env (Some ''req-1'') False initial_state"
  have built: "?b =
      (Inr 0, (snd ?b))"
    "heap (snd ?b) = [heap (snd ?b) ! 0]"
    "md_cacheStatus (es_metadata (heap (snd ?b) ! 0)) = None"
    "md_requestId (es_metadata (heap (snd ?b) ! 0)) = None"
    "md_generatedAt (es_metadata (heap (snd ?b) ! 0)) = None"
    "redis_sets (snd ?b) = []"
    using buildPlanetSnapshot_outcome [OF rd, of "Some ''req-1''"] ne
    by (simp_all add: Let_def initial_state_def)
  have b': "buildPlanetSnapshot example_redis_cfg example_env (rc_correlationId example_call)
      (rc_mode example_call = Full) initial_state = (Inr 0, snd ?b)"
    using built(1) by (simp add: example_call_def)
  note st = refreshSnapshot_built_state [OF b']
  let ?s = "snd (refreshSnapshot example_redis_cfg example_env example_call initial_state)"
  have mem: "memoryCache ?s StateVectors =
       Some \<lparr>cr_payload = 0, cr_cachedAt = 1500, cr_expiresAt = 121500, cr_staleUntil = 181500\<rparr>"
    by (simp add: st(3) ex cfg)
  have cell: "heap ?s ! 0 = (heap (snd ?b) ! 0)\<lparr>es_metadata := (es_metadata (heap (snd ?b) ! 0))
                 \<lparr>md_cacheStatus := Some ''MISS'', md_cacheBackend := Some Redis,
                  md_cacheAgeMs := Some 0, md_cacheExpiresInMs := Some 120000,
                  md_cacheStale := Some False, md_generatedAt := Some (IsoOf 1500),
                  md_requestId := Some ''req-1''\<rparr>\<rparr>"
  proof -
    have "0 < length (heap (snd ?b))" using built(2) by (metis length_greater_0_conv list.discI)
    then show ?thesis by (simp add: st(2) cfg ex)
  qed
  have sets: "redis_sets ?s =
     [\<lparr>rs_key = ''ephemeris:planets:v1'',
       rs_value = \<lparr>st_payload = heap (snd ?b) ! 0, st_cachedAt = 1500, st_expiresAt = 121500,
                   st_staleUntil = 181500\<rparr>,
       rs_PX = 180000\<rparr>]"
    using built(6)
    by (simp add: refreshSnapshot_Inr [OF b'] Let_def logInfo_def writeCache_unfold client cfg
          JSON_stringify_def ex)
  have hit: "(case fst (getSnapshot_begin example_redis_cfg
                  \<lparr>forceRefresh = False, correlationId = None, includeObserver = False\<rparr>
                  2000 GetNil 2000 ?s) of
         Returned r \<Rightarrow> sr_cacheState r = HIT
                        \<and> md_requestId (es_metadata (sr_payload r)) = Some ''req-1''
       | Awaiting p \<Rightarrow> False)"
    by (simp add: getSnapshot_begin_def readCache_def client mode_of_def mem cell cfg Let_def
          decoratePayloadMetadata_def)
  have f0: "fst ?b = Inr 0" using built(1) by (metis fst_conv)
  have c1: "md_cacheStatus (es_metadata (heap ?s ! 0)) = Some ''MISS''"
    by (simp add: cell)
  have c2: "md_requestId (es_metadata (heap ?s ! 0)) = Some ''req-1''"
    by (simp add: cell)
  have c3: "md_generatedAt (es_metadata (heap ?s ! 0)) = Some (IsoOf 1500)"
    by (simp add: cell)
  have w1: "map (\<lambda>w. md_cacheStatus (es_metadata (st_payload (rs_value w)))) (redis_sets ?s) = [None]"
    by (simp add: sets built(3))
  have w2: "map (\<lambda>w. md_requestId (es_metadata (st_payload (rs_value w)))) (redis_sets ?s) = [None]"
    by (simp add: sets built(4))
  from f0 built(3) built(4) mem c1 c2 c3 w1 w2 hit show ?thesis by (intro conjI)
qed

section \<open>The single-body machine\<close>

lemma getFromCache_frame:
  "inflight (snd (getFromCache clock b s)) = inflight s
   \<and> fetches (snd (getFromCache clock b s)) = fetches s
   \<and> fetches_settled (snd (getFromCache clock b s)) = fetches_settled s
   \<and> upstream_calls (snd (getFromCache clock b s)) = upstream_calls s"
  by (simp add: getFromCache_def split: option.splits)

lemma getFromCache_cases:
  "getFromCache clock b s =
     (case cache s b of
        None \<Rightarrow> (None, s)
      | Some entry \<Rightarrow>
          if ce_expiresAt entry \<le> clock then (None, s\<lparr>cache := (cache s)(b := None)\<rparr>)
          else (Some entry, s))"
  by (simp add: getFromCache_def split: option.splits)

text \<open>The three ways in which a call can leave the state.\<close>

lemma getBodyEphemeris_begin_cases:
  obtains (returned) r s1 where
      "getBodyEphemeris_begin opts now lc fc s = (BodyReturned r, s1)"
      "inflight s1 = inflight s" "fetches s1 = fetches s"
      "fetches_settled s1 = fetches_settled s" "upstream_calls s1 = upstream_calls s"
  | (joined) p s1 where
      "getBodyEphemeris_begin opts now lc fc s = (AwaitExisting p, s1)"
      "inflight s (bo_id opts) = Some p"
      "inflight s1 = inflight s" "fetches s1 = fetches s"
      "fetches_settled s1 = fetches_settled s" "upstream_calls s1 = upstream_calls s"
  | (made) s1 where
      "getBodyEphemeris_begin opts now lc fc s = (AwaitOwn (length (fetches s)), s1)"
      "inflight s (bo_id opts) = None"
      "inflight s1 = (inflight s)(bo_id opts \<mapsto> length (fetches s))"
      "fetches s1 = fetches s @
         [\<lparr>fc_id = bo_id opts, fc_correlationId = bo_correlationId opts,
           fc_cfg = BODY_BY_ID (bo_id opts), fc_started = fc\<rparr>]"
      "fetches_settled s1 = fetches_settled s"
      "upstream_calls s1 = upstream_calls s @
         (case BODY_BY_ID (bo_id opts) of
            None \<Rightarrow> [] | Some c \<Rightarrow> [(bc_horizonsId c, bc_displayName c)])"
proof -
  obtain g sg where g: "getFromCache lc (bo_id opts) s = (g, sg)"
    by (cases "getFromCache lc (bo_id opts) s")
  define s0 where "s0 = (if bo_forceRefresh opts then s else sg)"
  have fr: "inflight s0 = inflight s" "fetches s0 = fetches s"
    "fetches_settled s0 = fetches_settled s" "upstream_calls s0 = upstream_calls s"
    using getFromCache_frame [of lc "bo_id opts" s] g by (simp_all add: s0_def)
  show ?thesis
  proof (cases "\<not> bo_forceRefresh opts \<and> g \<noteq> None")
    case True
    then obtain c where c: "g = Some c" by auto
    with True g have "getBodyEphemeris_begin opts now lc fc s =
        (BodyReturned (decorate_hit opts now c), s0)"
      by (simp add: getBodyEphemeris_begin_def s0_def)
    with fr returned show ?thesis by blast
  next
    case False
    with g have b: "getBodyEphemeris_begin opts now lc fc s = start_fetch opts fc s0"
      by (auto simp add: getBodyEphemeris_begin_def s0_def)
    show ?thesis
    proof (cases "inflight s (bo_id opts)")
      case (Some p)
      with b fr have "getBodyEphemeris_begin opts now lc fc s = (AwaitExisting p, s0)"
        by (simp add: start_fetch_def)
      with Some fr joined show ?thesis by blast
    next
      case None
      let ?s1 = "snd (start_fetch opts fc s0)"
      from None b fr have e: "getBodyEphemeris_begin opts now lc fc s =
          (AwaitOwn (length (fetches s)), ?s1)"
        by (simp add: start_fetch_def fetchFresh_call_def Let_def split: option.splits)
      from None fr have "inflight ?s1 = (inflight s)(bo_id opts \<mapsto> length (fetches s))"
        "fetches ?s1 = fetches s @
         [\<lparr>fc_id = bo_id opts, fc_correlationId = bo_correlationId opts,
           fc_cfg = BODY_BY_ID (bo_id opts), fc_started = fc\<rparr>]"
        "fetches_settled ?s1 = fetches_settled s"
        "upstream_calls ?s1 = upstream_calls s @
         (case BODY_BY_ID (bo_id opts) of
            None \<Rightarrow> [] | Some c \<Rightarrow> [(bc_horizonsId c, bc_displayName c)])"
        by (simp_all add: start_fetch_def fetchFresh_call_def Let_def split: option.splits)
      with e None made show ?thesis by blast
    qed
  qed
qed


lemma getBodyEphemeris_resume_frame:
  "cache (snd (getBodyEphemeris_resume bcfg opts now own outcome s)) = cache s
   \<and> inflight (snd (getBodyEphemeris_resume bcfg opts now own outcome s)) = inflight s
   \<and> fetches (snd (getBodyEphemeris_resume bcfg opts now own outcome s)) = fetches s
   \<and> fetches_settled (snd (getBodyEphemeris_resume bcfg opts now own outcome s)) = fetches_settled s
   \<and> upstream_calls (snd (getBodyEphemeris_resume bcfg opts now own outcome s)) = upstream_calls s"
  by (simp add: getBodyEphemeris_resume_def body_log_def split: sum.splits option.splits)

lemma body_resume_all_frame:
  "cache (snd (body_resume_all bcfg outcome ws s)) = cache s
   \<and> inflight (snd (body_resume_all bcfg outcome ws s)) = inflight s
   \<and> fetches (snd (body_resume_all bcfg outcome ws s)) = fetches s
   \<and> fetches_settled (snd (body_resume_all bcfg outcome ws s)) = fetches_settled s
   \<and> upstream_calls (snd (body_resume_all bcfg outcome ws s)) = upstream_calls s"
proof (induction ws arbitrary: s)
  case Nil
  show ?case by simp
next
  case (Cons w ws)
  obtain r s1 where g: "getBodyEphemeris_resume bcfg (bw_options w) (bw_now w) (bw_own w)
      outcome s = (r, s1)"
    by (cases "getBodyEphemeris_resume bcfg (bw_options w) (bw_now w) (bw_own w) outcome s")
  from getBodyEphemeris_resume_frame [of bcfg "bw_options w" "bw_now w" "bw_own w" outcome s] g
  have fr: "cache s1 = cache s" "inflight s1 = inflight s" "fetches s1 = fetches s"
    "fetches_settled s1 = fetches_settled s" "upstream_calls s1 = upstream_calls s"
    by simp_all
  have "snd (body_resume_all bcfg outcome (w # ws) s) = snd (body_resume_all bcfg outcome ws s1)"
    using g by (simp add: Let_def split: prod.splits)
  with Cons.IH [of s1] fr show ?case by simp
qed

lemma settle_fetch_frame:
  "inflight (snd (settle_fetch bcfg p env s)) = (inflight s)(fc_id (fetches s ! p) := None)
   \<and> fetches (snd (settle_fetch bcfg p env s)) = fetches s
   \<and> fetches_settled (snd (settle_fetch bcfg p env s)) = p # fetches_settled s
   \<and> upstream_calls (snd (settle_fetch bcfg p env s)) = upstream_calls s
   \<and> fst (settle_fetch bcfg p env s) = fetchFresh_result (fetches s ! p) env"
  by (simp add: settle_fetch_def Let_def body_log_def split: sum.splits)

text \<open>What a step does to the parts of the state that the in-flight discipline is about.\<close>

lemma body_step_request:
  obtains (returned) r s1 where
      "body_step bcfg (BodyRequest opts now lc fc) sys =
         sys\<lparr>bs_state := s1, bs_responses := bs_responses sys @ [(bs_callers sys, Inr r)],
             bs_callers := bs_callers sys + 1\<rparr>"
      "getBodyEphemeris_begin opts now lc fc (bs_state sys) = (BodyReturned r, s1)"
      "inflight s1 = inflight (bs_state sys)" "fetches s1 = fetches (bs_state sys)"
      "fetches_settled s1 = fetches_settled (bs_state sys)"
      "upstream_calls s1 = upstream_calls (bs_state sys)"
  | (joined) p s1 where
      "body_step bcfg (BodyRequest opts now lc fc) sys =
         sys\<lparr>bs_state := s1,
             bs_waiting := bs_waiting sys @
               [\<lparr>bw_promise = p, bw_caller = bs_callers sys, bw_options = opts, bw_now = now,
                 bw_own = False\<rparr>],
             bs_callers := bs_callers sys + 1\<rparr>"
      "getBodyEphemeris_begin opts now lc fc (bs_state sys) = (AwaitExisting p, s1)"
      "inflight (bs_state sys) (bo_id opts) = Some p"
      "inflight s1 = inflight (bs_state sys)" "fetches s1 = fetches (bs_state sys)"
      "fetches_settled s1 = fetches_settled (bs_state sys)"
      "upstream_calls s1 = upstream_calls (bs_state sys)"
  | (made) s1 where
      "body_step bcfg (BodyRequest opts now lc fc) sys =
         sys\<lparr>bs_state := s1,
             bs_waiting := bs_waiting sys @
               [\<lparr>bw_promise = length (fetches (bs_state sys)), bw_caller = bs_callers sys,
                 bw_options = opts, bw_now = now, bw_own = True\<rparr>],
             bs_callers := bs_callers sys + 1\<rparr>"
      "getBodyEphemeris_begin opts now lc fc (bs_state sys) =
         (AwaitOwn (length (fetches (bs_state sys))), s1)"
      "inflight (bs_state sys) (bo_id opts) = None"
      "inflight s1 = (inflight (bs_state sys))(bo_id opts \<mapsto> length (fetches (bs_state sys)))"
      "fetches s1 = fetches (bs_state sys) @
         [\<lparr>fc_id = bo_id opts, fc_correlationId = bo_correlationId opts,
           fc_cfg = BODY_BY_ID (bo_id opts), fc_started = fc\<rparr>]"
      "fetches_settled s1 = fetches_settled (bs_state sys)"
      "upstream_calls s1 = upstream_calls (bs_state sys) @
         (case BODY_BY_ID (bo_id opts) of
            None \<Rightarrow> [] | Some c \<Rightarrow> [(bc_horizonsId c, bc_displayName c)])"
proof (cases rule: getBodyEphemeris_begin_cases [of opts now lc fc "bs_state sys"])
  case (returned r s1)
  from returned(1) have "body_step bcfg (BodyRequest opts now lc fc) sys =
         sys\<lparr>bs_state := s1, bs_responses := bs_responses sys @ [(bs_callers sys, Inr r)],
             bs_callers := bs_callers sys + 1\<rparr>" by simp
  with returned that(1) show ?thesis by blast
next
  case (joined p s1)
  from joined(1) have "body_step bcfg (BodyRequest opts now lc fc) sys =
         sys\<lparr>bs_state := s1,
             bs_waiting := bs_waiting sys @
               [\<lparr>bw_promise = p, bw_caller = bs_callers sys, bw_options = opts, bw_now = now,
                 bw_own = False\<rparr>],
             bs_callers := bs_callers sys + 1\<rparr>" by simp
  with joined that(2) show ?thesis by blast
next
  case (made s1)
  from made(1) have "body_step bcfg (BodyRequest opts now lc fc) sys =
         sys\<lparr>bs_state := s1,
             bs_waiting := bs_waiting sys @
               [\<lparr>bw_promise = length (fetches (bs_state sys)), bw_caller = bs_callers sys,
                 bw_options = opts, bw_now = now, bw_own = True\<rparr>],
             bs_callers := bs_callers sys + 1\<rparr>" by simp
  with made that(3) show ?thesis by blast
qed

lemma body_step_settle:
  assumes "fetch_pending (bs_state sys) p"
  shows "inflight (bs_state (body_step bcfg (BodySettle p env) sys)) =
           (inflight (bs_state sys))(fc_id (fetches (bs_state sys) ! p) := None)"
    and "fetches (bs_state (body_step bcfg (BodySettle p env) sys)) = fetches (bs_state sys)"
    and "fetches_settled (bs_state (body_step bcfg (BodySettle p env) sys)) =
           p # fetches_settled (bs_state sys)"
    and "upstream_calls (bs_state (body_step bcfg (BodySettle p env) sys)) =
           upstream_calls (bs_state sys)"
    and "bs_waiting (body_step bcfg (BodySettle p env) sys) =
           filter (\<lambda>w. bw_promise w \<noteq> p) (bs_waiting sys)"
proof -
  obtain outcome s1 where st: "settle_fetch bcfg p env (bs_state sys) = (outcome, s1)"
    by (cases "settle_fetch bcfg p env (bs_state sys)")
  obtain rs s2 where ra: "body_resume_all bcfg outcome
      (filter (\<lambda>w. bw_promise w = p) (bs_waiting sys)) s1 = (rs, s2)"
    by (cases "body_resume_all bcfg outcome (filter (\<lambda>w. bw_promise w = p) (bs_waiting sys)) s1")
  have step: "body_step bcfg (BodySettle p env) sys =
      sys\<lparr>bs_state := s2, bs_waiting := filter (\<lambda>w. bw_promise w \<noteq> p) (bs_waiting sys),
          bs_responses := bs_responses sys @ rs\<rparr>"
    using assms st ra by simp
  note f1 = settle_fetch_frame [of bcfg p env "bs_state sys"]
  note f2 = body_resume_all_frame [of bcfg outcome
      "filter (\<lambda>w. bw_promise w = p) (bs_waiting sys)" s1]
  from f1 f2 st ra step
  show "inflight (bs_state (body_step bcfg (BodySettle p env) sys)) =
           (inflight (bs_state sys))(fc_id (fetches (bs_state sys) ! p) := None)"
    and "fetches (bs_state (body_step bcfg (BodySettle p env) sys)) = fetches (bs_state sys)"
    and "fetches_settled (bs_state (body_step bcfg (BodySettle p env) sys)) =
           p # fetches_settled (bs_state sys)"
    and "upstream_calls (bs_state (body_step bcfg (BodySettle p env) sys)) =
           upstream_calls (bs_state sys)"
    and "bs_waiting (body_step bcfg (BodySettle p env) sys) =
           filter (\<lambda>w. bw_promise w \<noteq> p) (bs_waiting sys)"
    by simp_all
qed

lemma wf_body_parts:
  assumes "wf_body sys"
  shows "\<And>p. p \<in> set (fetches_settled (bs_state sys)) \<Longrightarrow> p < length (fetches (bs_state sys))"
    and "\<And>b p. inflight (bs_state sys) b = Some p \<Longrightarrow>
           fetch_pending (bs_state sys) p \<and> fc_id (fetches (bs_state sys) ! p) = b"
    and "\<And>p. fetch_pending (bs_state sys) p \<Longrightarrow>
           inflight (bs_state sys) (fc_id (fetches (bs_state sys) ! p)) = Some p"
    and "\<And>w. w \<in> set (bs_waiting sys) \<Longrightarrow>
           fetch_pending (bs_state sys) (bw_promise w)
           \<and> fc_id (fetches (bs_state sys) ! bw_promise w) = bo_id (bw_options w)"
  using assms unfolding wf_body_def by blast+

lemma wf_bodyI:
  assumes "\<And>p. p \<in> set (fetches_settled (bs_state sys)) \<Longrightarrow> p < length (fetches (bs_state sys))"
    and "\<And>b p. inflight (bs_state sys) b = Some p \<Longrightarrow>
           fetch_pending (bs_state sys) p \<and> fc_id (fetches (bs_state sys) ! p) = b"
    and "\<And>p. fetch_pending (bs_state sys) p \<Longrightarrow>
           inflight (bs_state sys) (fc_id (fetches (bs_state sys) ! p)) = Some p"
    and "\<And>w. w \<in> set (bs_waiting sys) \<Longrightarrow>
           fetch_pending (bs_state sys) (bw_promise w)
           \<and> fc_id (fetches (bs_state sys) ! bw_promise w) = bo_id (bw_options w)"
  shows "wf_body sys"
  using assms unfolding wf_body_def by blast

lemma wf_body_made:
  assumes wf: "wf_body sys"
    and none: "inflight (bs_state sys) b = None"
    and i: "inflight s1 = (inflight (bs_state sys))(b \<mapsto> length (fetches (bs_state sys)))"
    and f: "fetches s1 = fetches (bs_state sys) @ [call]" "fc_id call = b"
    and fs: "fetches_settled s1 = fetches_settled (bs_state sys)"
    and w: "bw_promise w = length (fetches (bs_state sys))" "bo_id (bw_options w) = b"
  shows "wf_body (sys\<lparr>bs_state := s1, bs_waiting := bs_waiting sys @ [w],
                      bs_callers := n\<rparr>)"
proof (rule wf_bodyI)
  let ?s = "bs_state sys"
  let ?n = "length (fetches ?s)"
  note wp = wf_body_parts [OF wf]
  have fresh: "?n \<notin> set (fetches_settled ?s)" using wp(1) [of ?n] by auto
  have old: "\<And>p. fetch_pending ?s p \<Longrightarrow> fetch_pending s1 p \<and> fetches s1 ! p = fetches ?s ! p"
    using f fs by (simp add: fetch_pending_def nth_append)
  have new: "fetch_pending s1 ?n \<and> fc_id (fetches s1 ! ?n) = b"
    using f fs fresh by (simp add: fetch_pending_def)
  {
    fix p assume "p \<in> set (fetches_settled (bs_state (sys\<lparr>bs_state := s1,
        bs_waiting := bs_waiting sys @ [w], bs_callers := n\<rparr>)))"
    then have "p < ?n" using fs wp(1) [of p] by simp
    then show "p < length (fetches (bs_state (sys\<lparr>bs_state := s1,
        bs_waiting := bs_waiting sys @ [w], bs_callers := n\<rparr>)))"
      using f by simp
  next
    fix b' p assume "inflight (bs_state (sys\<lparr>bs_state := s1,
        bs_waiting := bs_waiting sys @ [w], bs_callers := n\<rparr>)) b' = Some p"
    then have ip: "inflight s1 b' = Some p" by simp
    have "fetch_pending s1 p \<and> fc_id (fetches s1 ! p) = b'"
    proof (cases "b' = b")
      case True
      with ip i have "p = ?n" by simp
      with new True show ?thesis by simp
    next
      case False
      with ip i have "inflight ?s b' = Some p" by simp
      from wp(2) [OF this] old [of p] show ?thesis by simp
    qed
    then show "fetch_pending (bs_state (sys\<lparr>bs_state := s1,
        bs_waiting := bs_waiting sys @ [w], bs_callers := n\<rparr>)) p
      \<and> fc_id (fetches (bs_state (sys\<lparr>bs_state := s1,
        bs_waiting := bs_waiting sys @ [w], bs_callers := n\<rparr>)) ! p) = b'"
      by simp
  next
    fix p assume "fetch_pending (bs_state (sys\<lparr>bs_state := s1,
        bs_waiting := bs_waiting sys @ [w], bs_callers := n\<rparr>)) p"
    then have p: "fetch_pending s1 p" by simp
    have "inflight s1 (fc_id (fetches s1 ! p)) = Some p"
    proof (cases "p = ?n")
      case True
      with new i show ?thesis by simp
    next
      case False
      with p f fs have o: "fetch_pending ?s p" by (auto simp add: fetch_pending_def)
      from wp(3) [OF o] have ii: "inflight ?s (fc_id (fetches ?s ! p)) = Some p" .
      with none have "fc_id (fetches ?s ! p) \<noteq> b" by auto
      with ii i old [OF o] show ?thesis by simp
    qed
    then show "inflight (bs_state (sys\<lparr>bs_state := s1,
        bs_waiting := bs_waiting sys @ [w], bs_callers := n\<rparr>))
      (fc_id (fetches (bs_state (sys\<lparr>bs_state := s1,
        bs_waiting := bs_waiting sys @ [w], bs_callers := n\<rparr>)) ! p)) = Some p"
      by simp
  next
    fix v assume "v \<in> set (bs_waiting (sys\<lparr>bs_state := s1,
        bs_waiting := bs_waiting sys @ [w], bs_callers := n\<rparr>))"
    then have v: "v \<in> set (bs_waiting sys) \<or> v = w" by auto
    have "fetch_pending s1 (bw_promise v)
        \<and> fc_id (fetches s1 ! bw_promise v) = bo_id (bw_options v)"
    proof (cases "v = w")
      case True
      with new w show ?thesis by simp
    next
      case False
      with v have "v \<in> set (bs_waiting sys)" by simp
      from wp(4) [OF this] old [of "bw_promise v"] show ?thesis by simp
    qed
    then show "fetch_pending (bs_state (sys\<lparr>bs_state := s1,
        bs_waiting := bs_waiting sys @ [w], bs_callers := n\<rparr>)) (bw_promise v)
      \<and> fc_id (fetches (bs_state (sys\<lparr>bs_state := s1,
        bs_waiting := bs_waiting sys @ [w], bs_callers := n\<rparr>)) ! bw_promise v)
        = bo_id (bw_options v)"
      by simp
  }
qed


lemma wf_body_eq:
  assumes "inflight (bs_state a) = inflight (bs_state b)"
    and "fetches (bs_state a) = fetches (bs_state b)"
    and "fetches_settled (bs_state a) = fetches_settled (bs_state b)"
    and "bs_waiting a = bs_waiting b"
  shows "wf_body a = wf_body b"
  using assms by (simp add: wf_body_def fetch_pending_def)

lemma wf_body_joined:
  assumes wf: "wf_body sys"
    and i: "inflight (bs_state sys) (bo_id (bw_options w)) = Some (bw_promise w)"
  shows "wf_body (sys\<lparr>bs_waiting := bs_waiting sys @ [w]\<rparr>)"
proof (rule wf_bodyI)
  note wp = wf_body_parts [OF wf]
  {
    fix p assume "p \<in> set (fetches_settled (bs_state (sys\<lparr>bs_waiting := bs_waiting sys @ [w]\<rparr>)))"
    then show "p < length (fetches (bs_state (sys\<lparr>bs_waiting := bs_waiting sys @ [w]\<rparr>)))"
      using wp(1) [of p] by simp
  next
    fix b p assume "inflight (bs_state (sys\<lparr>bs_waiting := bs_waiting sys @ [w]\<rparr>)) b = Some p"
    then show "fetch_pending (bs_state (sys\<lparr>bs_waiting := bs_waiting sys @ [w]\<rparr>)) p
      \<and> fc_id (fetches (bs_state (sys\<lparr>bs_waiting := bs_waiting sys @ [w]\<rparr>)) ! p) = b"
      using wp(2) [of b p] by simp
  next
    fix p assume "fetch_pending (bs_state (sys\<lparr>bs_waiting := bs_waiting sys @ [w]\<rparr>)) p"
    then show "inflight (bs_state (sys\<lparr>bs_waiting := bs_waiting sys @ [w]\<rparr>))
      (fc_id (fetches (bs_state (sys\<lparr>bs_waiting := bs_waiting sys @ [w]\<rparr>)) ! p)) = Some p"
      using wp(3) [of p] by simp
  next
    fix v assume "v \<in> set (bs_waiting (sys\<lparr>bs_waiting := bs_waiting sys @ [w]\<rparr>))"
    then have v: "v \<in> set (bs_waiting sys) \<or> v = w" by auto
    have "fetch_pending (bs_state sys) (bw_promise v)
        \<and> fc_id (fetches (bs_state sys) ! bw_promise v) = bo_id (bw_options v)"
    proof (cases "v = w")
      case True
      with wp(2) [OF i] show ?thesis by simp
    next
      case False
      with v have "v \<in> set (bs_waiting sys)" by simp
      from wp(4) [OF this] show ?thesis .
    qed
    then show "fetch_pending (bs_state (sys\<lparr>bs_waiting := bs_waiting sys @ [w]\<rparr>)) (bw_promise v)
      \<and> fc_id (fetches (bs_state (sys\<lparr>bs_waiting := bs_waiting sys @ [w]\<rparr>)) ! bw_promise v)
        = bo_id (bw_options v)"
      by simp
  }
qed

lemma wf_body_settled:
  assumes wf: "wf_body sys"
    and pend: "fetch_pending (bs_state sys) p"
    and i: "inflight (bs_state sys') =
              (inflight (bs_state sys))(fc_id (fetches (bs_state sys) ! p) := None)"
    and f: "fetches (bs_state sys') = fetches (bs_state sys)"
    and fs: "fetches_settled (bs_state sys') = p # fetches_settled (bs_state sys)"
    and w: "bs_waiting sys' = filter (\<lambda>w. bw_promise w \<noteq> p) (bs_waiting sys)"
  shows "wf_body sys'"
proof (rule wf_bodyI)
  let ?s = "bs_state sys"
  note wp = wf_body_parts [OF wf]
  from wp(3) [OF pend] have ip: "inflight ?s (fc_id (fetches ?s ! p)) = Some p" .
  have keep: "\<And>q. fetch_pending ?s q \<Longrightarrow> q \<noteq> p \<Longrightarrow> fetch_pending (bs_state sys') q"
    using f fs by (simp add: fetch_pending_def)
  have other: "\<And>q. fetch_pending ?s q \<Longrightarrow> q \<noteq> p \<Longrightarrow>
      fc_id (fetches ?s ! q) \<noteq> fc_id (fetches ?s ! p)"
  proof
    fix q assume q: "fetch_pending ?s q" "q \<noteq> p"
      and e: "fc_id (fetches ?s ! q) = fc_id (fetches ?s ! p)"
    from wp(3) [OF q(1)] e ip q(2) show False by simp
  qed
  {
    fix q assume "q \<in> set (fetches_settled (bs_state sys'))"
    then have "q = p \<or> q \<in> set (fetches_settled ?s)" using fs by simp
    then show "q < length (fetches (bs_state sys'))"
      using pend wp(1) [of q] f by (auto simp add: fetch_pending_def)
  next
    fix b q assume a: "inflight (bs_state sys') b = Some q"
    with i have b: "b \<noteq> fc_id (fetches ?s ! p)" "inflight ?s b = Some q"
      by (auto split: if_splits)
    from wp(2) [OF b(2)] have q: "fetch_pending ?s q" "fc_id (fetches ?s ! q) = b" by simp_all
    with b(1) have "q \<noteq> p" by auto
    with keep [OF q(1)] q(2) f
    show "fetch_pending (bs_state sys') q \<and> fc_id (fetches (bs_state sys') ! q) = b"
      by simp
  next
    fix q assume "fetch_pending (bs_state sys') q"
    then have q: "fetch_pending ?s q" "q \<noteq> p" using f fs by (auto simp add: fetch_pending_def)
    from wp(3) [OF q(1)] other [OF q] i f
    show "inflight (bs_state sys') (fc_id (fetches (bs_state sys') ! q)) = Some q"
      by simp
  next
    fix v assume "v \<in> set (bs_waiting sys')"
    with w have v: "v \<in> set (bs_waiting sys)" "bw_promise v \<noteq> p" by simp_all
    from wp(4) [OF v(1)] keep [of "bw_promise v"] v(2) f
    show "fetch_pending (bs_state sys') (bw_promise v)
      \<and> fc_id (fetches (bs_state sys') ! bw_promise v) = bo_id (bw_options v)"
      by simp
  }
qed

lemma wf_body_step:
  assumes wf: "wf_body sys"
  shows "wf_body (body_step bcfg ev sys)"
proof (cases ev)
  case (BodyRequest opts now lc fc)
  show ?thesis
  proof (cases rule: body_step_request [of bcfg opts now lc fc sys])
    case (returned r s1)
    have "wf_body (sys\<lparr>bs_state := s1,
        bs_responses := bs_responses sys @ [(bs_callers sys, Inr r)],
        bs_callers := bs_callers sys + 1\<rparr>) = wf_body sys"
      by (rule wf_body_eq) (simp_all add: returned)
    with wf returned(1) BodyRequest show ?thesis by simp
  next
    case (joined p s1)
    let ?w = "\<lparr>bw_promise = p, bw_caller = bs_callers sys, bw_options = opts, bw_now = now,
                 bw_own = False\<rparr>"
    have "wf_body (sys\<lparr>bs_waiting := bs_waiting sys @ [?w]\<rparr>)"
      by (rule wf_body_joined [OF wf]) (simp add: joined)
    moreover have "wf_body (sys\<lparr>bs_state := s1, bs_waiting := bs_waiting sys @ [?w],
        bs_callers := bs_callers sys + 1\<rparr>) = wf_body (sys\<lparr>bs_waiting := bs_waiting sys @ [?w]\<rparr>)"
      by (rule wf_body_eq) (simp_all add: joined)
    ultimately show ?thesis using joined(1) BodyRequest by simp
  next
    case (made s1)
    let ?w = "\<lparr>bw_promise = length (fetches (bs_state sys)), bw_caller = bs_callers sys,
                 bw_options = opts, bw_now = now, bw_own = True\<rparr>"
    have "wf_body (sys\<lparr>bs_state := s1, bs_waiting := bs_waiting sys @ [?w],
        bs_callers := bs_callers sys + 1\<rparr>)"
      by (rule wf_body_made [OF wf made(3) made(4) made(5) _ made(6)]) simp_all
    with made(1) BodyRequest show ?thesis by simp
  qed
next
  case (BodySettle p env)
  show ?thesis
  proof (cases "fetch_pending (bs_state sys) p")
    case False
    with BodySettle wf show ?thesis by simp
  next
    case True
    note st = body_step_settle [OF True, of bcfg env]
    have "wf_body (body_step bcfg (BodySettle p env) sys)"
      by (rule wf_body_settled [OF wf True st(1) st(2) st(3) st(5)])
    with BodySettle show ?thesis by simp
  qed
qed

lemma wf_body_initial: "wf_body initial_body_system"
  by (simp add: wf_body_def initial_body_system_def initial_body_state_def fetch_pending_def)

lemma wf_body_run: "wf_body sys \<Longrightarrow> wf_body (body_run bcfg evs sys)"
  by (induction evs arbitrary: sys) (simp_all add: body_run_def wf_body_step)




section \<open>Expiry in the single-body cache\<close>

lemma getFromCache_cache:
  "cache (snd (getFromCache clock b s)) = cache s
   \<or> cache (snd (getFromCache clock b s)) = (cache s)(b := None)"
  by (simp add: getFromCache_def split: option.splits)

lemma getBodyEphemeris_begin_cache:
  "cache (snd (getBodyEphemeris_begin opts now lc fc s)) = cache s
   \<or> cache (snd (getBodyEphemeris_begin opts now lc fc s)) = (cache s)(bo_id opts := None)"
proof -
  have sf: "\<And>s0. cache (snd (start_fetch opts fc s0)) = cache s0"
    by (simp add: start_fetch_def fetchFresh_call_def Let_def split: option.splits)
  obtain g sg where g: "getFromCache lc (bo_id opts) s = (g, sg)"
    by (cases "getFromCache lc (bo_id opts) s")
  from getFromCache_cache [of lc "bo_id opts" s] g
  have c: "cache sg = cache s \<or> cache sg = (cache s)(bo_id opts := None)" by simp
  show ?thesis
  proof (cases "bo_forceRefresh opts")
    case True
    then show ?thesis by (simp add: getBodyEphemeris_begin_def sf)
  next
    case False
    with g c show ?thesis
      by (cases g) (auto simp add: getBodyEphemeris_begin_def sf)
  qed
qed

lemma getBodyEphemeris_begin_keeps_uncached:
  "cache s b = None \<Longrightarrow> cache (snd (getBodyEphemeris_begin opts now lc fc s)) b = None"
  using getBodyEphemeris_begin_cache [of opts now lc fc s] by auto

lemma settle_fetch_cache:
  "cache (snd (settle_fetch bcfg p env s)) =
     (case fetchFresh_result (fetches s ! p) env of
        Inl err \<Rightarrow> cache s
      | Inr payload \<Rightarrow>
          (cache s)(fc_id (fetches s ! p) \<mapsto>
             \<lparr>ce_payload = payload, ce_cachedAt = fe_cachedAt env,
              ce_expiresAt = fe_expiresFrom env + BODY_CACHE_TTL_MS bcfg\<rparr>))"
  by (simp add: settle_fetch_def Let_def body_log_def split: sum.splits)

text \<open>A non-forced call that finds an expired entry removes it and waits for a fetch.\<close>

lemma expired_lookup_waits:
  assumes nf: "\<not> bo_forceRefresh opts"
    and e: "cache s (bo_id opts) = Some entry" "ce_expiresAt entry \<le> lc"
  shows "cache (snd (getBodyEphemeris_begin opts now lc fc s)) (bo_id opts) = None
     \<and> (\<forall>r. fst (getBodyEphemeris_begin opts now lc fc s) \<noteq> BodyReturned r)"
  using nf e
  by (simp add: getBodyEphemeris_begin_def getFromCache_def start_fetch_def fetchFresh_call_def
        Let_def split: option.splits)

lemma fresh_lookup_hits:
  assumes nf: "\<not> bo_forceRefresh opts"
    and r: "getBodyEphemeris_begin opts now lc fc s = (BodyReturned r, s1)"
  shows "\<exists>entry. cache s (bo_id opts) = Some entry \<and> lc < ce_expiresAt entry
           \<and> r = decorate_hit opts now entry \<and> s1 = s"
  using nf r
  by (auto simp add: getBodyEphemeris_begin_def getFromCache_def start_fetch_def
        fetchFresh_call_def Let_def split: option.splits if_splits)


lemma body_step_settle_outcome:
  assumes "fetch_pending (bs_state sys) p"
  shows "cache (bs_state (body_step bcfg (BodySettle p env) sys)) =
           cache (snd (settle_fetch bcfg p env (bs_state sys)))"
    and "bs_responses (body_step bcfg (BodySettle p env) sys) =
           bs_responses sys @
           fst (body_resume_all bcfg (fetchFresh_result (fetches (bs_state sys) ! p) env)
                  (filter (\<lambda>w. bw_promise w = p) (bs_waiting sys))
                  (snd (settle_fetch bcfg p env (bs_state sys))))"
proof -
  obtain outcome s1 where st: "settle_fetch bcfg p env (bs_state sys) = (outcome, s1)"
    by (cases "settle_fetch bcfg p env (bs_state sys)")
  obtain rs s2 where ra: "body_resume_all bcfg outcome
      (filter (\<lambda>w. bw_promise w = p) (bs_waiting sys)) s1 = (rs, s2)"
    by (cases "body_resume_all bcfg outcome (filter (\<lambda>w. bw_promise w = p) (bs_waiting sys)) s1")
  have step: "body_step bcfg (BodySettle p env) sys =
      sys\<lparr>bs_state := s2, bs_waiting := filter (\<lambda>w. bw_promise w \<noteq> p) (bs_waiting sys),
          bs_responses := bs_responses sys @ rs\<rparr>"
    using assms st ra by simp
  note f1 = settle_fetch_frame [of bcfg p env "bs_state sys"]
  note f2 = body_resume_all_frame [of bcfg outcome
      "filter (\<lambda>w. bw_promise w = p) (bs_waiting sys)" s1]
  from f1 f2 st ra step
  show "cache (bs_state (body_step bcfg (BodySettle p env) sys)) =
           cache (snd (settle_fetch bcfg p env (bs_state sys)))"
    and "bs_responses (body_step bcfg (BodySettle p env) sys) =
           bs_responses sys @
           fst (body_resume_all bcfg (fetchFresh_result (fetches (bs_state sys) ! p) env)
                  (filter (\<lambda>w. bw_promise w = p) (bs_waiting sys))
                  (snd (settle_fetch bcfg p env (bs_state sys))))"
    by simp_all
qed

lemma body_resume_all_failed:
  assumes "\<And>w. w \<in> set ws \<Longrightarrow> cache s (bo_id (bw_options w)) = None"
  shows "body_resume_all bcfg (Inl err) ws s = (map (\<lambda>w. (bw_caller w, Inl err)) ws, s)"
  using assms
proof (induction ws)
  case Nil
  show ?case by simp
next
  case (Cons w ws)
  from Cons.prems [of w] have "cache s (bo_id (bw_options w)) = None" by simp
  then have g: "getBodyEphemeris_resume bcfg (bw_options w) (bw_now w) (bw_own w) (Inl err) s
      = (Inl err, s)"
    by (simp add: getBodyEphemeris_resume_def)
  from Cons.IH Cons.prems have "body_resume_all bcfg (Inl err) ws s =
      (map (\<lambda>w. (bw_caller w, Inl err)) ws, s)" by simp
  with g show ?case by simp
qed

lemma uncached_wait_step:
  assumes u: "uncached_wait sys c p b"
    and ne: "\<And>env. ev \<noteq> BodySettle p env"
  shows "uncached_wait (body_step bcfg ev sys) c p b"
proof -
  let ?s = "bs_state sys"
  from u have wf: "wf_body sys" and pend: "fetch_pending ?s p"
    and pid: "fc_id (fetches ?s ! p) = b" and unc: "cache ?s b = None"
    and w: "\<exists>w \<in> set (bs_waiting sys). bw_caller w = c \<and> bw_promise w = p"
    by (simp_all add: uncached_wait_def)
  have wf': "wf_body (body_step bcfg ev sys)" using wf by (rule wf_body_step)
  from pend have plt: "p < length (fetches ?s)" by (simp add: fetch_pending_def)
  show ?thesis
  proof (cases ev)
    case (BodyRequest opts now lc fc)
    have unc': "\<And>r s1. getBodyEphemeris_begin opts now lc fc ?s = (r, s1) \<Longrightarrow> cache s1 b = None"
      using getBodyEphemeris_begin_keeps_uncached [OF unc, of opts now lc fc] by simp
    show ?thesis
    proof (cases rule: body_step_request [of bcfg opts now lc fc sys])
      case (returned r s1)
      with wf' pend pid unc' [OF returned(2)] w BodyRequest show ?thesis
        by (simp add: uncached_wait_def fetch_pending_def)
    next
      case (joined q s1)
      with wf' pend pid unc' [OF joined(2)] w BodyRequest show ?thesis
        by (auto simp add: uncached_wait_def fetch_pending_def)
    next
      case (made s1)
      with wf' pend pid plt unc' [OF made(2)] w BodyRequest show ?thesis
        by (auto simp add: uncached_wait_def fetch_pending_def nth_append)
    qed
  next
    case (BodySettle q env)
    with ne have qp: "q \<noteq> p" by auto
    show ?thesis
    proof (cases "fetch_pending ?s q")
      case False
      with BodySettle u show ?thesis by simp
    next
      case True
      note st = body_step_settle [OF True, of bcfg env]
      note so = body_step_settle_outcome [OF True, of bcfg env]
      note wp = wf_body_parts [OF wf]
      from wp(3) [OF True] wp(3) [OF pend] qp pid
      have other: "fc_id (fetches ?s ! q) \<noteq> b" by auto
      have c': "cache (bs_state (body_step bcfg (BodySettle q env) sys)) b = None"
        using so(1) settle_fetch_cache [of bcfg q env ?s] other unc
        by (simp split: sum.splits)
      have p': "fetch_pending (bs_state (body_step bcfg (BodySettle q env) sys)) p"
        using pend qp st by (simp add: fetch_pending_def)
      from w qp st(5) have w': "\<exists>w \<in> set (bs_waiting (body_step bcfg (BodySettle q env) sys)).
          bw_caller w = c \<and> bw_promise w = p" by auto
      from wf' c' p' w' pid st(2) BodySettle show ?thesis
        by (simp add: uncached_wait_def)
    qed
  qed
qed

lemma uncached_wait_run:
  assumes "uncached_wait sys c p b"
    and "\<And>env. BodySettle p env \<notin> set evs"
  shows "uncached_wait (body_run bcfg evs sys) c p b"
  using assms
proof (induction evs arbitrary: sys)
  case Nil
  then show ?case by (simp add: body_run_def)
next
  case (Cons ev evs)
  have "uncached_wait (body_step bcfg ev sys) c p b"
    using Cons.prems by (intro uncached_wait_step) auto
  moreover have "\<And>env. BodySettle p env \<notin> set evs" using Cons.prems(2) by auto
  ultimately have "uncached_wait (body_run bcfg evs (body_step bcfg ev sys)) c p b"
    by (rule Cons.IH)
  then show ?case by (simp add: body_run_def)
qed

lemma uncached_wait_fails:
  assumes u: "uncached_wait sys c p b"
    and f: "fetchFresh_result (fetches (bs_state sys) ! p) env = Inl err"
  shows "(c, Inl err) \<in> set (bs_responses (body_step bcfg (BodySettle p env) sys))"
proof -
  let ?s = "bs_state sys"
  from u have wf: "wf_body sys" and pend: "fetch_pending ?s p"
    and pid: "fc_id (fetches ?s ! p) = b" and unc: "cache ?s b = None"
    and w: "\<exists>w \<in> set (bs_waiting sys). bw_caller w = c \<and> bw_promise w = p"
    by (simp_all add: uncached_wait_def)
  note wp = wf_body_parts [OF wf]
  note so = body_step_settle_outcome [OF pend, of bcfg env]
  let ?ws = "filter (\<lambda>w. bw_promise w = p) (bs_waiting sys)"
  let ?s1 = "snd (settle_fetch bcfg p env ?s)"
  have c1: "cache ?s1 = cache ?s" using settle_fetch_cache [of bcfg p env ?s] f by simp
  have "\<And>v. v \<in> set ?ws \<Longrightarrow> cache ?s1 (bo_id (bw_options v)) = None"
  proof -
    fix v assume "v \<in> set ?ws"
    then have v: "v \<in> set (bs_waiting sys)" "bw_promise v = p" by simp_all
    from wp(4) [OF v(1)] v(2) pid have "bo_id (bw_options v) = b" by simp
    with c1 unc show "cache ?s1 (bo_id (bw_options v)) = None" by simp
  qed
  then have "body_resume_all bcfg (Inl err) ?ws ?s1 = (map (\<lambda>w. (bw_caller w, Inl err)) ?ws, ?s1)"
    by (rule body_resume_all_failed)
  with so(2) f have r: "bs_responses (body_step bcfg (BodySettle p env) sys) =
      bs_responses sys @ map (\<lambda>w. (bw_caller w, Inl err)) ?ws" by simp
  from w obtain v where v: "v \<in> set (bs_waiting sys)" "bw_caller v = c" "bw_promise v = p"
    by blast
  let ?f = "\<lambda>w. (bw_caller w, Inl err :: js_error + BodyEphemerisPayload)"
  from v have "v \<in> set ?ws" by simp
  then have "?f v \<in> set (map ?f ?ws)"
    by (simp only: set_map) (rule imageI)
  with v(2) have m: "(c, Inl err) \<in> set (map ?f ?ws)" by simp
  show ?thesis unfolding r using m by simp
qed


lemma expired_request_waits:
  assumes wf: "wf_body sys"
    and nf: "\<not> bo_forceRefresh opts"
    and e: "cache (bs_state sys) (bo_id opts) = Some entry" "ce_expiresAt entry \<le> lc"
  shows "\<exists>p. uncached_wait (body_step bcfg (BodyRequest opts now lc fc) sys) (bs_callers sys) p
           (bo_id opts)"
proof -
  let ?sys' = "body_step bcfg (BodyRequest opts now lc fc) sys"
  have wf': "wf_body ?sys'" using wf by (rule wf_body_step)
  note ex = expired_lookup_waits [OF nf e, of now fc]
  show ?thesis
  proof (cases rule: body_step_request [of bcfg opts now lc fc sys])
    case (returned r s1)
    with ex show ?thesis by simp
  next
    case (joined p s1)
    from wf_body_parts(2) [OF wf joined(3)]
    have p: "fetch_pending (bs_state sys) p" "fc_id (fetches (bs_state sys) ! p) = bo_id opts"
      by simp_all
    from ex joined(2) have c: "cache s1 (bo_id opts) = None" by simp
    from wf' p c joined show ?thesis
      by (intro exI [of _ p]) (simp add: uncached_wait_def fetch_pending_def)
  next
    case (made s1)
    let ?p = "length (fetches (bs_state sys))"
    from made(1,4) have "inflight (bs_state ?sys') (bo_id opts) = Some ?p" by simp
    from wf_body_parts(2) [OF wf' this]
    have p: "fetch_pending (bs_state ?sys') ?p" "fc_id (fetches (bs_state ?sys') ! ?p) = bo_id opts"
      by simp_all
    from ex made(2) have c: "cache s1 (bo_id opts) = None" by simp
    from wf' p c made(1) show ?thesis
      by (intro exI [of _ ?p]) (simp add: uncached_wait_def)
  qed
qed

text \<open>Every payload handed out carries one of the three statuses.\<close>

lemma body_resume_all_status:
  "(c, Inr r) \<in> set (fst (body_resume_all bcfg outcome ws s)) \<Longrightarrow>
     \<exists>m. bp_metadata r = Some m
        \<and> bm_cacheStatus m \<in> {Some BodyHIT, Some BodyMISS, Some BodyFROZEN}"
proof (induction ws arbitrary: s)
  case Nil
  then show ?case by simp
next
  case (Cons w ws)
  obtain x s1 where g: "getBodyEphemeris_resume bcfg (bw_options w) (bw_now w) (bw_own w)
      outcome s = (x, s1)"
    by (cases "getBodyEphemeris_resume bcfg (bw_options w) (bw_now w) (bw_own w) outcome s")
  obtain rs s2 where ra: "body_resume_all bcfg outcome ws s1 = (rs, s2)"
    by (cases "body_resume_all bcfg outcome ws s1")
  from Cons.prems g ra have "(c, Inr r) = (bw_caller w, x) \<or> (c, Inr r) \<in> set rs"
    by simp
  then show ?case
  proof
    assume "(c, Inr r) = (bw_caller w, x)"
    with g show ?thesis
      by (auto simp add: getBodyEphemeris_resume_def decorate_miss_def decorate_frozen_def
            split: sum.splits option.splits if_splits)
  next
    assume "(c, Inr r) \<in> set rs"
    with ra Cons.IH [of s1] show ?thesis by simp
  qed
qed

lemma body_step_status:
  assumes old: "\<And>c r. (c, Inr r) \<in> set (bs_responses sys) \<Longrightarrow>
      \<exists>m. bp_metadata r = Some m
         \<and> bm_cacheStatus m \<in> {Some BodyHIT, Some BodyMISS, Some BodyFROZEN}"
    and new: "(c, Inr r) \<in> set (bs_responses (body_step bcfg ev sys))"
  shows "\<exists>m. bp_metadata r = Some m
           \<and> bm_cacheStatus m \<in> {Some BodyHIT, Some BodyMISS, Some BodyFROZEN}"
proof (cases ev)
  case (BodyRequest opts now lc fc)
  show ?thesis
  proof (cases rule: body_step_request [of bcfg opts now lc fc sys])
    case (returned x s1)
    from returned(2) have "\<exists>entry. x = decorate_hit opts now entry"
      by (auto simp add: getBodyEphemeris_begin_def start_fetch_def Let_def
            split: if_splits prod.splits option.splits)
    then have "\<exists>m. bp_metadata x = Some m \<and> bm_cacheStatus m = Some BodyHIT"
      by (auto simp add: decorate_hit_def)
    with new old returned(1) BodyRequest show ?thesis by auto
  next
    case (joined p s1)
    with new old BodyRequest show ?thesis by simp
  next
    case (made s1)
    with new old BodyRequest show ?thesis by simp
  qed
next
  case (BodySettle p env)
  show ?thesis
  proof (cases "fetch_pending (bs_state sys) p")
    case False
    with BodySettle new old show ?thesis by simp
  next
    case True
    note so = body_step_settle_outcome [OF True, of bcfg env]
    from new BodySettle so(2)
    have "(c, Inr r) \<in> set (bs_responses sys) \<or>
        (c, Inr r) \<in> set (fst (body_resume_all bcfg
           (fetchFresh_result (fetches (bs_state sys) ! p) env)
           (filter (\<lambda>w. bw_promise w = p) (bs_waiting sys))
           (snd (settle_fetch bcfg p env (bs_state sys)))))"
      by (simp only: set_append Un_iff)
    with old body_resume_all_status show ?thesis by blast
  qed
qed

lemma body_run_status:
  assumes old: "\<And>c r. (c, Inr r) \<in> set (bs_responses sys) \<Longrightarrow>
      \<exists>m. bp_metadata r = Some m
         \<and> bm_cacheStatus m \<in> {Some BodyHIT, Some BodyMISS, Some BodyFROZEN}"
    and new: "(c, Inr r) \<in> set (bs_responses (body_run bcfg evs sys))"
  shows "\<exists>m. bp_metadata r = Some m
           \<and> bm_cacheStatus m \<in> {Some BodyHIT, Some BodyMISS, Some BodyFROZEN}"
  using assms
proof (induction evs arbitrary: sys)
  case Nil
  then show ?case by (simp add: body_run_def)
next
  case (Cons ev evs)
  have step: "\<And>c r. (c, Inr r) \<in> set (bs_responses (body_step bcfg ev sys)) \<Longrightarrow>
      \<exists>m. bp_metadata r = Some m
         \<and> bm_cacheStatus m \<in> {Some BodyHIT, Some BodyMISS, Some BodyFROZEN}"
    using body_step_status [of sys _ _ bcfg ev] Cons.prems(1) by blast
  from Cons.prems(2) have "(c, Inr r) \<in> set (bs_responses (body_run bcfg evs (body_step bcfg ev sys)))"
    by (simp add: body_run_def)
  with Cons.IH [of "body_step bcfg ev sys"] step show ?case by blast
qed

lemma moon_known:
  "BODY_BY_ID ''moon'' =
     Some \<lparr>bc_id = ''moon'', bc_displayName = ''Lune'', bc_kind = Moon, bc_horizonsId = ''301''\<rparr>"
  by (simp add: BODY_BY_ID_def BODIES_def)

lemma moon_cached_state:
  "moon_cached =
     \<lparr>bs_state =
        \<lparr>cache = (\<lambda>_. None)(''moon'' \<mapsto>
            \<lparr>ce_payload = moon_payload, ce_cachedAt = 100, ce_expiresAt = 60100\<rparr>),
         inflight = (\<lambda>_. None)(''moon'' := None),
         fetches = [\<lparr>fc_id = ''moon'', fc_correlationId = Some ''req-1'',
                     fc_cfg = BODY_BY_ID ''moon'', fc_started = 0\<rparr>],
         fetches_settled = [0],
         upstream_calls = [(''301'', ''Lune'')],
         body_logs = [(Info, ''body_ephemeris_refresh'')]\<rparr>,
      bs_waiting = [],
      bs_responses = [(0, Inr (decorate_miss example_bcfg moon_payload))],
      bs_callers = 1\<rparr>"
  by (simp add: moon_cached_def body_run_def initial_body_system_def initial_body_state_def
        getBodyEphemeris_begin_def getFromCache_def start_fetch_def fetchFresh_call_def
        moon_request_def moon_known fetch_pending_def settle_fetch_def fetchFresh_result_def
        fetch_ok_def example_vector_def body_log_def getBodyEphemeris_resume_def
        moon_payload_def empty_body_metadata_def example_bcfg_def Let_def)


lemma moon_cached_wf: "wf_body moon_cached"
  unfolding moon_cached_def by (rule wf_body_run [OF wf_body_initial])

text \<open>
  Claim C5 (a defect of the code). The Moon's entry, cached at 100, expires at 60100.
  A call without \<^verbatim>\<open>forceRefresh\<close> at 60100 whose upstream fetch fails finds the entry
  (it is in the cache when the call starts), but \<^verbatim>\<open>getFromCache\<close> deletes it before the
  fetch, so the \<^verbatim>\<open>catch\<close> block finds nothing and the failure propagates instead of
  the frozen entry. With \<^verbatim>\<open>forceRefresh\<close> the same call gets the entry, frozen. And of
  two forced calls issued together, the first gets the frozen entry while the second,
  which awaits the first one's promise outside any \<^verbatim>\<open>try\<close>, gets the failure.
\<close>

theorem frozen_fallback_lost:
  "cache (bs_state moon_cached) ''moon'' =
     Some \<lparr>ce_payload = moon_payload, ce_cachedAt = 100, ce_expiresAt = 60100\<rparr>
   \<and> bs_responses (body_run example_bcfg
         [BodyRequest (moon_request False ''req-2'') 60100 60100 60100,
          BodySettle 1 (fetch_failed 60200)] moon_cached) =
       [(0, Inr (decorate_miss example_bcfg moon_payload)),
        (1, Inl (JsError (Some ''timeout'')))]
   \<and> bs_responses (body_run example_bcfg
         [BodyRequest (moon_request True ''req-2'') 60100 60100 60100,
          BodySettle 1 (fetch_failed 60200)] moon_cached) =
       [(0, Inr (decorate_miss example_bcfg moon_payload)),
        (1, Inr (decorate_frozen (moon_request True ''req-2'') 60100 (JsError (Some ''timeout''))
                  \<lparr>ce_payload = moon_payload, ce_cachedAt = 100, ce_expiresAt = 60100\<rparr>))]
   \<and> bs_responses (body_run example_bcfg
         [BodyRequest (moon_request True ''req-2'') 60100 60100 60100,
          BodyRequest (moon_request True ''req-3'') 60100 60100 60100,
          BodySettle 1 (fetch_failed 60200)] moon_cached) =
       [(0, Inr (decorate_miss example_bcfg moon_payload)),
        (1, Inr (decorate_frozen (moon_request True ''req-2'') 60100 (JsError (Some ''timeout''))
                  \<lparr>ce_payload = moon_payload, ce_cachedAt = 100, ce_expiresAt = 60100\<rparr>)),
        (2, Inl (JsError (Some ''timeout'')))]"
proof -
  have a: "cache (bs_state moon_cached) ''moon'' =
     Some \<lparr>ce_payload = moon_payload, ce_cachedAt = 100, ce_expiresAt = 60100\<rparr>"
    by (simp add: moon_cached_state)
  have b: "bs_responses (body_run example_bcfg
         [BodyRequest (moon_request False ''req-2'') 60100 60100 60100,
          BodySettle 1 (fetch_failed 60200)] moon_cached) =
       [(0, Inr (decorate_miss example_bcfg moon_payload)),
        (1, Inl (JsError (Some ''timeout'')))]"
    by (simp add: moon_cached_state body_run_def
        getBodyEphemeris_begin_def getFromCache_def start_fetch_def fetchFresh_call_def
        moon_request_def moon_known fetch_pending_def settle_fetch_def fetchFresh_result_def
        fetch_failed_def body_log_def getBodyEphemeris_resume_def Let_def)
  have c: "bs_responses (body_run example_bcfg
         [BodyRequest (moon_request True ''req-2'') 60100 60100 60100,
          BodySettle 1 (fetch_failed 60200)] moon_cached) =
       [(0, Inr (decorate_miss example_bcfg moon_payload)),
        (1, Inr (decorate_frozen (moon_request True ''req-2'') 60100 (JsError (Some ''timeout''))
                  \<lparr>ce_payload = moon_payload, ce_cachedAt = 100, ce_expiresAt = 60100\<rparr>))]"
    by (simp add: moon_cached_state body_run_def
        getBodyEphemeris_begin_def getFromCache_def start_fetch_def fetchFresh_call_def
        moon_request_def moon_known fetch_pending_def settle_fetch_def fetchFresh_result_def
        fetch_failed_def body_log_def getBodyEphemeris_resume_def Let_def)
  have d: "bs_responses (body_run example_bcfg
         [BodyRequest (moon_request True ''req-2'') 60100 60100 60100,
          BodyRequest (moon_request True ''req-3'') 60100 60100 60100,
          BodySettle 1 (fetch_failed 60200)] moon_cached) =
       [(0, Inr (decorate_miss example_bcfg moon_payload)),
        (1, Inr (decorate_frozen (moon_request True ''req-2'') 60100 (JsError (Some ''timeout''))
                  \<lparr>ce_payload = moon_payload, ce_cachedAt = 100, ce_expiresAt = 60100\<rparr>)),
        (2, Inl (JsError (Some ''timeout'')))]"
    by (simp add: moon_cached_state body_run_def
        getBodyEphemeris_begin_def getFromCache_def start_fetch_def fetchFresh_call_def
        moon_request_def moon_known fetch_pending_def settle_fetch_def fetchFresh_result_def
        fetch_failed_def body_log_def getBodyEphemeris_resume_def Let_def)
  from a b c d show ?thesis by (intro conjI)
qed

text \<open>
  Claim C10. \<^verbatim>\<open>getFromCache\<close> deletes an entry that it finds at or after its expiry. So
  a call without \<^verbatim>\<open>forceRefresh\<close> returns a cached payload only while the clock of the
  lookup is before \<open>expiresAt\<close>, and then as a HIT. Every payload that any run of the
  cache hands out carries one of the statuses HIT, MISS and FROZEN (the type has no
  other). A call without \<^verbatim>\<open>forceRefresh\<close> that arrives at or after the expiry of
  the entry removes the entry and awaits a fetch of that body (its own or the one in
  flight); whatever happens in between, as long as that fetch has not settled the
  cache holds no entry for the body, and when the fetch fails the call gets the
  failure, not a frozen payload.
\<close>

theorem single_body_expiry:
  assumes wf: "wf_body sys"
  shows
    "(\<forall>entry. cache s b = Some entry \<and> ce_expiresAt entry \<le> clock \<longrightarrow>
        getFromCache clock b s = (None, s\<lparr>cache := (cache s)(b := None)\<rparr>))
     \<and> (\<forall>r s1. \<not> bo_forceRefresh opts
            \<and> getBodyEphemeris_begin opts now lc fc s = (BodyReturned r, s1) \<longrightarrow>
          (\<exists>entry. cache s (bo_id opts) = Some entry \<and> lc < ce_expiresAt entry
             \<and> r = decorate_hit opts now entry
             \<and> Option.bind (bp_metadata r) bm_cacheStatus = Some BodyHIT))
     \<and> (\<forall>c r. (c, Inr r) \<in> set (bs_responses (body_run bcfg evs initial_body_system)) \<longrightarrow>
          (\<exists>m. bp_metadata r = Some m
             \<and> bm_cacheStatus m \<in> {Some BodyHIT, Some BodyMISS, Some BodyFROZEN}))
     \<and> (\<forall>entry. \<not> bo_forceRefresh opts
            \<and> cache (bs_state sys) (bo_id opts) = Some entry
            \<and> ce_expiresAt entry \<le> now \<and> now \<le> lc \<longrightarrow>
          (\<exists>p. uncached_wait (body_step bcfg (BodyRequest opts now lc fc) sys)
                  (bs_callers sys) p (bo_id opts)
             \<and> (\<forall>evs' env err.
                   (\<forall>e. BodySettle p e \<notin> set evs')
                   \<and> fetchFresh_result
                       (fetches (bs_state (body_run bcfg evs'
                          (body_step bcfg (BodyRequest opts now lc fc) sys))) ! p) env = Inl err
                   \<longrightarrow>
                   uncached_wait (body_run bcfg evs'
                       (body_step bcfg (BodyRequest opts now lc fc) sys))
                     (bs_callers sys) p (bo_id opts)
                   \<and> (bs_callers sys, Inl err) \<in>
                       set (bs_responses (body_step bcfg (BodySettle p env)
                         (body_run bcfg evs'
                            (body_step bcfg (BodyRequest opts now lc fc) sys)))))))"
proof (intro conjI allI impI)
  fix entry
  assume "cache s b = Some entry \<and> ce_expiresAt entry \<le> clock"
  then show "getFromCache clock b s = (None, s\<lparr>cache := (cache s)(b := None)\<rparr>)"
    by (simp add: getFromCache_def)
next
  fix r s1
  assume a: "\<not> bo_forceRefresh opts
            \<and> getBodyEphemeris_begin opts now lc fc s = (BodyReturned r, s1)"
  then obtain entry where e: "cache s (bo_id opts) = Some entry" "lc < ce_expiresAt entry"
      "r = decorate_hit opts now entry"
    using fresh_lookup_hits [of opts now lc fc s r s1] by blast
  then have "Option.bind (bp_metadata r) bm_cacheStatus = Some BodyHIT"
    by (simp add: decorate_hit_def)
  with e show "\<exists>entry. cache s (bo_id opts) = Some entry \<and> lc < ce_expiresAt entry
             \<and> r = decorate_hit opts now entry
             \<and> Option.bind (bp_metadata r) bm_cacheStatus = Some BodyHIT"
    by blast
next
  fix c r
  assume "(c, Inr r) \<in> set (bs_responses (body_run bcfg evs initial_body_system))"
  then show "\<exists>m. bp_metadata r = Some m
             \<and> bm_cacheStatus m \<in> {Some BodyHIT, Some BodyMISS, Some BodyFROZEN}"
    by (rule body_run_status [rotated]) (simp add: initial_body_system_def)
next
  fix entry
  let ?sys1 = "body_step bcfg (BodyRequest opts now lc fc) sys"
  assume a: "\<not> bo_forceRefresh opts
            \<and> cache (bs_state sys) (bo_id opts) = Some entry
            \<and> ce_expiresAt entry \<le> now \<and> now \<le> lc"
  then have nf: "\<not> bo_forceRefresh opts"
    and e: "cache (bs_state sys) (bo_id opts) = Some entry" "ce_expiresAt entry \<le> lc"
    by simp_all
  from expired_request_waits [OF wf nf e, of bcfg now fc]
  obtain p where u: "uncached_wait ?sys1 (bs_callers sys) p (bo_id opts)" by blast
  have "\<forall>evs' env err.
          (\<forall>e. BodySettle p e \<notin> set evs')
          \<and> fetchFresh_result (fetches (bs_state (body_run bcfg evs' ?sys1)) ! p) env = Inl err
          \<longrightarrow>
          uncached_wait (body_run bcfg evs' ?sys1) (bs_callers sys) p (bo_id opts)
          \<and> (bs_callers sys, Inl err) \<in>
              set (bs_responses (body_step bcfg (BodySettle p env) (body_run bcfg evs' ?sys1)))"
  proof (intro allI impI)
    fix evs' env err
    assume h: "(\<forall>e. BodySettle p e \<notin> set evs')
          \<and> fetchFresh_result (fetches (bs_state (body_run bcfg evs' ?sys1)) ! p) env = Inl err"
    then have u': "uncached_wait (body_run bcfg evs' ?sys1) (bs_callers sys) p (bo_id opts)"
      using uncached_wait_run [OF u, of evs' bcfg] by blast
    from uncached_wait_fails [OF u', of env err bcfg] h u'
    show "uncached_wait (body_run bcfg evs' ?sys1) (bs_callers sys) p (bo_id opts)
          \<and> (bs_callers sys, Inl err) \<in>
              set (bs_responses (body_step bcfg (BodySettle p env) (body_run bcfg evs' ?sys1)))"
      by blast
  qed
  with u show "\<exists>p. uncached_wait ?sys1 (bs_callers sys) p (bo_id opts)
             \<and> (\<forall>evs' env err.
                   (\<forall>e. BodySettle p e \<notin> set evs')
                   \<and> fetchFresh_result
                       (fetches (bs_state (body_run bcfg evs' ?sys1)) ! p) env = Inl err
                   \<longrightarrow>
                   uncached_wait (body_run bcfg evs' ?sys1) (bs_callers sys) p (bo_id opts)
                   \<and> (bs_callers sys, Inl err) \<in>
                       set (bs_responses (body_step bcfg (BodySettle p env)
                         (body_run bcfg evs' ?sys1))))"
    by blast
qed

text \<open>
  The Moon's entry expires at 60100. A call without \<^verbatim>\<open>forceRefresh\<close> at 60100 waits
  for a fetch; a call for another body comes in between; the fetch fails: the caller
  gets the failure.
\<close>

theorem single_body_expiry_witness:
  "wf_body moon_cached
   \<and> \<not> bo_forceRefresh (moon_request False ''req-2'')
   \<and> cache (bs_state moon_cached) (bo_id (moon_request False ''req-2'')) =
       Some \<lparr>ce_payload = moon_payload, ce_cachedAt = 100, ce_expiresAt = 60100\<rparr>
   \<and> (1, Inl (JsError (Some ''timeout''))) \<in>
       set (bs_responses (body_step example_bcfg (BodySettle 1 (fetch_failed 60200))
         (body_run example_bcfg
            [BodyRequest \<lparr>bo_id = ''titan'', bo_forceRefresh = False, bo_correlationId = None\<rparr>
               60150 60150 60150]
            (body_step example_bcfg
               (BodyRequest (moon_request False ''req-2'') 60100 60100 60100) moon_cached))))"
proof -
  let ?opts = "moon_request False ''req-2''"
  let ?sys1 = "body_step example_bcfg (BodyRequest ?opts 60100 60100 60100) moon_cached"
  let ?evs = "[BodyRequest \<lparr>bo_id = ''titan'', bo_forceRefresh = False, bo_correlationId = None\<rparr>
               60150 60150 60150]"
  let ?entry = "\<lparr>ce_payload = moon_payload, ce_cachedAt = 100, ce_expiresAt = 60100\<rparr>"
  have nf: "\<not> bo_forceRefresh ?opts" by (simp add: moon_request_def)
  have c: "cache (bs_state moon_cached) (bo_id ?opts) = Some ?entry"
    by (simp add: moon_cached_state moon_request_def)
  have callers: "bs_callers moon_cached = 1" by (simp add: moon_cached_state)
  have sys1: "bs_waiting ?sys1 =
      [\<lparr>bw_promise = 1, bw_caller = 1, bw_options = ?opts, bw_now = 60100, bw_own = True\<rparr>]"
    by (simp add: moon_cached_state getBodyEphemeris_begin_def getFromCache_def start_fetch_def
          fetchFresh_call_def moon_request_def Let_def)
  from single_body_expiry [OF moon_cached_wf, THEN conjunct2, THEN conjunct2, THEN conjunct2,
      rule_format, of ?opts ?entry 60100 60100 example_bcfg 60100]
    nf c
  obtain p where u: "uncached_wait ?sys1 (bs_callers moon_cached) p (bo_id ?opts)"
    and f: "\<And>evs' env err. (\<forall>e. BodySettle p e \<notin> set evs') \<Longrightarrow>
        fetchFresh_result (fetches (bs_state (body_run example_bcfg evs' ?sys1)) ! p) env = Inl err
        \<Longrightarrow> (bs_callers moon_cached, Inl err) \<in>
              set (bs_responses (body_step example_bcfg (BodySettle p env)
                (body_run example_bcfg evs' ?sys1)))"
    by auto
  from u sys1 callers have p: "p = 1" by (auto simp add: uncached_wait_def)
  have ne: "\<forall>e. BodySettle p e \<notin> set ?evs" by simp
  have titan: "BODY_BY_ID ''titan'' =
      Some \<lparr>bc_id = ''titan'', bc_displayName = ''Titan'', bc_kind = Moon, bc_horizonsId = ''606''\<rparr>"
    by (simp add: BODY_BY_ID_def BODIES_def)
  have call: "fetches (bs_state (body_run example_bcfg ?evs ?sys1)) ! 1 =
      \<lparr>fc_id = ''moon'', fc_correlationId = Some ''req-2'', fc_cfg = BODY_BY_ID ''moon'',
       fc_started = 60100\<rparr>"
    by (simp add: moon_cached_state body_run_def getBodyEphemeris_begin_def getFromCache_def
          start_fetch_def fetchFresh_call_def moon_request_def moon_known titan Let_def)
  have r: "fetchFresh_result (fetches (bs_state (body_run example_bcfg ?evs ?sys1)) ! p)
      (fetch_failed 60200) = Inl (JsError (Some ''timeout''))"
    unfolding p call by (simp add: fetchFresh_result_def moon_known fetch_failed_def)
  from f [OF ne r] p callers
  have "(1, Inl (JsError (Some ''timeout''))) \<in>
       set (bs_responses (body_step example_bcfg (BodySettle 1 (fetch_failed 60200))
         (body_run example_bcfg ?evs ?sys1)))"
    by simp
  with moon_cached_wf nf c show ?thesis by (intro conjI)
qed

section \<open>The snapshot machine\<close>


















































text \<open>
  The build reads the cache when the refresh starts, not when it ends: in the run
  \<open>late_record\<close> the record that arrives later is served to the second call, but it gives
  the build no previous bodies, so the refresh fails and the first call is answered
  with the frozen copy of that record.
\<close>

lemma refresh_reads_at_start:
  "map (\<lambda>(c, a). (c, map_sum message sr_cacheState a))
     (responses (run example_redis_cfg late_record initial_system)) =
     [(1, Inr HIT), (0, Inr FROZEN)]"
  by (simp add: run_def late_record_def no_id_def initial_system_def initial_state_def
        example_redis_cfg_def example_cfg_def example_env_def example_stored_def
        example_snapshot_def example_body_def
        getSnapshot_begin_def readCache_def JSON_parse_def join_or_start_def call_refreshSnapshot_def
        setInflight_def clearInflight_def mode_of_def end_of_turn_def read_for_refresh_def
        pending_def settle_def
        buildPlanetSnapshot_read_def buildPlanetSnapshot_rest_def fetch_all_def upstream_down_def
        fallbackBodies_of_def alloc_def logWarn_def logError_def
        push_timestamp_def nonempty_or_undefined_def
        getSnapshot_settled_def getSnapshot_frozen_def backend_of_def
        decoratePayloadMetadata_def empty_metadata_def Let_def)

section \<open>Coalescing in the snapshot cache\<close>









section \<open>Coalescing in the single-body cache\<close>












section \<open>Coalescing of concurrent refreshes\<close>












end
